theory Spec2Isabelle
  imports Main "HOL-Library.Word"
begin

unbundle bit_operations_syntax

chapter \<open>cpspg: the two native backings of the OS-primitive layer\<close>

text \<open>
  Every sample of the repository is a thin layer of C functions over system calls, written
  twice: once under \<^verbatim>\<open>#ifdef _WIN32\<close> and once for UNIX. The functions of the repository
  are embedded one by one (suffix \<open>_unix\<close> or \<open>_win\<close> for the branch they come from).
  The system calls they make are not code of the repository: each is given as a small
  executable model of the kernel objects it acts on (descriptor tables, child processes,
  pipes, sockets, semaphores, signal dispositions), following the platform's
  documentation, and is marked \<open>Platform model\<close>. A call that never returns (a blocking
  wait that is never satisfied) has the value \<open>Blocks\<close>; a store through a pointer that
  is not valid has the value \<open>Faults\<close>.
\<close>

section \<open>Common: outcomes, memory of int objects\<close>

datatype 'a outcome = Returns 'a | Blocks | Faults

type_synonym addr = nat

definition NULL :: addr where
  "NULL = 0"

text \<open>The caller's memory holds int objects by address; no object lives at \<open>NULL\<close>.\<close>

type_synonym int_memory = "addr \<Rightarrow> int option"

definition store_int :: "int_memory \<Rightarrow> addr \<Rightarrow> int \<Rightarrow> int_memory option" where
  "store_int m a v = (if a = NULL \<or> m a = None then None else Some (m(a \<mapsto> v)))"

section \<open>Processes, UNIX branch (ps-exec.c, samples/ps-exec-wait.c)\<close>

subsection \<open>Platform model: child processes, vfork, execve, waitid, kill\<close>

text \<open>
  How a child ended: \<open>Exited c\<close> after \<^verbatim>\<open>_exit\<close> (the kernel keeps the low eight bits of
  the argument), \<open>Killed_by n\<close> after the default action of signal \<open>n\<close>.
  A running child carries what it will do when left alone: end by itself in some way
  (\<open>Some e\<close>) or run forever (\<open>None\<close>).
\<close>

datatype ending = Exited "8 word" | Killed_by nat

datatype child = Running "ending option" | Zombie ending

record siginfo =
  si_signo :: int
  si_code :: int
  si_pid :: int
  si_status :: int

record unix_proc =
  errno :: int

record unix_ps = unix_proc +
  children :: "int \<Rightarrow> child option"
  mem :: int_memory
  may_fork :: bool
  next_pid :: int
  exes :: "string \<Rightarrow> ending option option"

definition PS_NULL :: int where
  "PS_NULL = -1"

definition P_PID :: int where "P_PID = 1"
definition WNOHANG :: int where "WNOHANG = 1"
definition WEXITED :: int where "WEXITED = 4"
definition CLD_EXITED :: int where "CLD_EXITED = 1"
definition CLD_KILLED :: int where "CLD_KILLED = 2"
definition SIGKILL :: int where "SIGKILL = 9"
definition SIGCHLD :: int where "SIGCHLD = 17"
definition ESRCH :: int where "ESRCH = 3"
definition ECHILD :: int where "ECHILD = 10"
definition EAGAIN :: int where "EAGAIN = 11"
definition EINVAL :: int where "EINVAL = 22"
definition ETIMEDOUT :: int where "ETIMEDOUT = 110"

text \<open>Signal numbers are \<open>1 .. 64\<close>; a well-formed process table holds no other.\<close>

definition valid_ending :: "ending \<Rightarrow> bool" where
  "valid_ending e = (case e of Exited c \<Rightarrow> True | Killed_by n \<Rightarrow> 1 \<le> n \<and> n \<le> 64)"

definition valid_child :: "child \<Rightarrow> bool" where
  "valid_child c =
     (case c of Running None \<Rightarrow> True | Running (Some e) \<Rightarrow> valid_ending e | Zombie e \<Rightarrow> valid_ending e)"

text \<open>The \<^verbatim>\<open>siginfo_t\<close> that \<^verbatim>\<open>waitid\<close> fills in for a child that has ended.\<close>

definition siginfo_of :: "int \<Rightarrow> ending \<Rightarrow> siginfo" where
  "siginfo_of pid e =
     (case e of
        Exited c \<Rightarrow> \<lparr>si_signo = SIGCHLD, si_code = CLD_EXITED, si_pid = pid, si_status = uint c\<rparr>
      | Killed_by n \<Rightarrow> \<lparr>si_signo = SIGCHLD, si_code = CLD_KILLED, si_pid = pid, si_status = int n\<rparr>)"

text \<open>The conversion \<^verbatim>\<open>(id_t)p\<close> of a \<^verbatim>\<open>pid_t\<close> to the unsigned 32-bit \<^verbatim>\<open>id_t\<close>.\<close>

definition id_t :: "int \<Rightarrow> int" where
  "id_t p = p mod 2 ^ 32"

text \<open>
  \<^verbatim>\<open>waitid(P_PID, id, &s, options)\<close>: \<open>-1\<close> with \<open>ECHILD\<close> when \<open>id\<close> is not an unwaited-for
  child of the caller and \<open>EINVAL\<close> when the options name no state to wait for; a child that
  has ended is reaped and described in \<open>s\<close>; for a running child the call returns \<open>0\<close> with
  \<open>si_pid = 0\<close> under \<open>WNOHANG\<close>, and otherwise waits until the child ends.
\<close>

definition waitid :: "unix_ps \<Rightarrow> int \<Rightarrow> int \<Rightarrow> siginfo \<Rightarrow> int \<Rightarrow> (int \<times> siginfo \<times> unix_ps) option" where
  "waitid k idtype ident s options =
     (if idtype \<noteq> P_PID \<or> options AND WEXITED = 0 then Some (-1, s, k\<lparr>errno := EINVAL\<rparr>)
      else case children k ident of
        None \<Rightarrow> Some (-1, s, k\<lparr>errno := ECHILD\<rparr>)
      | Some (Zombie e) \<Rightarrow>
          Some (0, siginfo_of ident e, k\<lparr>children := (children k)(ident := None)\<rparr>)
      | Some (Running fate) \<Rightarrow>
          if options AND WNOHANG \<noteq> 0 then Some (0, s\<lparr>si_signo := 0, si_pid := 0\<rparr>, k)
          else (case fate of
                  None \<Rightarrow> None
                | Some e \<Rightarrow>
                    Some (0, siginfo_of ident e, k\<lparr>children := (children k)(ident := None)\<rparr>)))"

text \<open>
  \<^verbatim>\<open>kill(pid, sig)\<close> for a positive \<open>pid\<close> and a signal whose default action ends the
  process: a running child ends at once, a zombie is left as it is, and any other \<open>pid\<close>
  is \<open>ESRCH\<close> (the model holds the caller's children only).
\<close>

definition sys_kill :: "unix_ps \<Rightarrow> int \<Rightarrow> int \<Rightarrow> int \<times> unix_ps" where
  "sys_kill k pid sig =
     (case (if 0 < pid then children k pid else None) of
        None \<Rightarrow> (-1, k\<lparr>errno := ESRCH\<rparr>)
      | Some (Zombie e) \<Rightarrow> (0, k)
      | Some (Running fate) \<Rightarrow> (0, k\<lparr>children := (children k)(pid \<mapsto> Zombie (Killed_by (nat sig)))\<rparr>))"

text \<open>
  \<^verbatim>\<open>execve\<close> in a child: the image it runs from then on, or \<open>None\<close> when the call returns
  (\<open>-1\<close>: the file is missing or cannot be executed).
\<close>

definition execve :: "unix_ps \<Rightarrow> string \<Rightarrow> string list \<Rightarrow> child option" where
  "execve k filename argv = map_option Running (exes k filename)"

text \<open>
  \<^verbatim>\<open>vfork()\<close>: \<open>-1\<close> with \<open>EAGAIN\<close> when the kernel creates no process. Otherwise the child
  runs first, from the point of the call with return value \<open>0\<close> (\<open>child_code\<close>), until it
  calls \<^verbatim>\<open>execve\<close> or \<^verbatim>\<open>_exit\<close>; then the parent goes on with the child's pid.
\<close>

definition vfork :: "unix_ps \<Rightarrow> (unix_ps \<Rightarrow> child) \<Rightarrow> int \<times> unix_ps" where
  "vfork k child_code =
     (if \<not> may_fork k then (-1, k\<lparr>errno := EAGAIN\<rparr>)
      else (next_pid k,
            k\<lparr>children := (children k)(next_pid k \<mapsto> child_code k), next_pid := next_pid k + 1\<rparr>))"

subsection \<open>The functions of the repository\<close>

text \<open>
  \<^verbatim>\<open>ps_exec\<close>: \<^verbatim>\<open>pid_t p = vfork(); if (p != 0) return p;\<close> in the parent;
  \<^verbatim>\<open>execve(filename, argv, environ); _exit(255);\<close> in the child.
\<close>

definition ps_exec_unix :: "unix_ps \<Rightarrow> string \<Rightarrow> string list \<Rightarrow> int \<times> unix_ps" where
  "ps_exec_unix k filename argv =
     vfork k (\<lambda>kc. case execve kc filename argv of
                     Some c \<Rightarrow> c
                   | None \<Rightarrow> Zombie (Exited 255))"

definition siginfo_zero :: siginfo where
  "siginfo_zero = \<lparr>si_signo = 0, si_code = 0, si_pid = 0, si_status = 0\<rparr>"

definition ps_wait_unix :: "unix_ps \<Rightarrow> int \<Rightarrow> int \<Rightarrow> addr \<Rightarrow> (int \<times> unix_ps) outcome" where
  "ps_wait_unix k p block exit_code =
     (let s = siginfo_zero;
          f = (if block = 0 then WNOHANG else 0)
      in case waitid k P_PID (id_t p) s (WEXITED OR f) of
           None \<Rightarrow> Blocks
         | Some (r, s, k) \<Rightarrow>
             if r \<noteq> 0 then Returns (-1, k)
             else if si_pid s = 0 then Returns (-1, k\<lparr>errno := ETIMEDOUT\<rparr>)
             else if exit_code \<noteq> NULL then
               (case store_int (mem k) exit_code
                       (if si_code s = CLD_EXITED then si_status s else - si_status s) of
                  None \<Rightarrow> Faults
                | Some m \<Rightarrow> Returns (0, k\<lparr>mem := m\<rparr>))
             else Returns (0, k))"

definition ps_kill_unix :: "unix_ps \<Rightarrow> int \<Rightarrow> int \<times> unix_ps" where
  "ps_kill_unix k p = sys_kill k p SIGKILL"

definition err_last_unix :: "'a unix_proc_scheme \<Rightarrow> int" where
  "err_last_unix k = errno k"

section \<open>Processes, Windows branch (ps-exec.c, samples/ps-exec-wait.c)\<close>

subsection \<open>Platform model: handles, process objects, the UTF-8 conversion\<close>

type_synonym wchar = "16 word"
type_synonym wstring = "wchar list"

text \<open>A \<^verbatim>\<open>wchar_t\<close> array: a cell that was never written holds no determinate value.\<close>

type_synonym wbuf = "wchar option list"

datatype wcause = Normal_exit | Terminated

text \<open>
  A process object: running (with the exit code it will pass to \<^verbatim>\<open>ExitProcess\<close> when
  left alone, or \<open>None\<close> when it runs forever) or ended with a 32-bit exit code.
\<close>

datatype wstate = WRunning "32 word option" | WExited wcause "32 word"

record wprocess =
  cmdline :: wstring
  pstate :: wstate

datatype whandle = To_process nat | To_thread nat

record win_proc =
  last_error :: int
  cp_utf8 :: "string \<Rightarrow> wstring"

record win_ps = win_proc +
  handles :: "int \<Rightarrow> whandle option"
  procs :: "nat \<Rightarrow> wprocess option"
  wmem :: int_memory
  next_handle :: int
  next_proc :: nat
  wexes :: "wstring \<Rightarrow> 32 word option option"

definition INVALID_HANDLE_VALUE :: int where "INVALID_HANDLE_VALUE = -1"
definition WAIT_OBJECT_0 :: int where "WAIT_OBJECT_0 = 0"
definition WAIT_TIMEOUT :: int where "WAIT_TIMEOUT = 258"
definition WAIT_FAILED :: "32 word" where "WAIT_FAILED = 0xFFFFFFFF"
definition INFINITE :: "32 word" where "INFINITE = 0xFFFFFFFF"
definition STILL_ACTIVE :: "32 word" where "STILL_ACTIVE = 259"
definition ERROR_FILE_NOT_FOUND :: int where "ERROR_FILE_NOT_FOUND = 2"
definition ERROR_ACCESS_DENIED :: int where "ERROR_ACCESS_DENIED = 5"
definition ERROR_INVALID_HANDLE :: int where "ERROR_INVALID_HANDLE = 6"
definition ERROR_INVALID_PARAMETER :: int where "ERROR_INVALID_PARAMETER = 87"
definition ERROR_INSUFFICIENT_BUFFER :: int where "ERROR_INSUFFICIENT_BUFFER = 122"
definition WSAETIMEDOUT :: int where "WSAETIMEDOUT = 10060"

definition SetLastError :: "'a win_proc_scheme \<Rightarrow> int \<Rightarrow> 'a win_proc_scheme" where
  "SetLastError k e = k\<lparr>last_error := e\<rparr>"

definition GetLastError :: "'a win_proc_scheme \<Rightarrow> int" where
  "GetLastError k = last_error k"

definition write_at :: "'a list \<Rightarrow> nat \<Rightarrow> 'a list \<Rightarrow> 'a list" where
  "write_at buf pos xs = take pos buf @ xs @ drop (pos + length xs) buf"

text \<open>
  \<^verbatim>\<open>MultiByteToWideChar(CP_UTF8, 0, src, -1, &buf[pos], cch)\<close>: the converted string with
  its terminating zero is written when it fits in \<open>cch\<close> cells, and the result is the number
  of cells written. With \<open>cch = 0\<close> nothing is written and the result is the number of cells
  the string needs. The result is \<open>0\<close> when the string does not fit (the cells offered are
  then indeterminate) or \<open>cch\<close> is negative.
\<close>

definition MultiByteToWideChar ::
  "'a win_proc_scheme \<Rightarrow> string \<Rightarrow> wbuf \<Rightarrow> nat \<Rightarrow> int \<Rightarrow> int \<times> wbuf \<times> 'a win_proc_scheme" where
  "MultiByteToWideChar k src buf pos cch =
     (let w = cp_utf8 k src @ [0] in
      if cch < 0 then (0, buf, SetLastError k ERROR_INVALID_PARAMETER)
      else if cch = 0 then (int (length w), buf, k)
      else if cch < int (length w) then
        (0, write_at buf pos (replicate (nat cch) None), SetLastError k ERROR_INSUFFICIENT_BUFFER)
      else (int (length w), write_at buf pos (map Some w), k))"

text \<open>
  The string a \<^verbatim>\<open>wchar_t\<close> array holds, up to its first zero. Reading an indeterminate cell,
  or past the end of the array, is undefined: \<open>None\<close>.
\<close>

fun wcs :: "wbuf \<Rightarrow> wstring option" where
  "wcs [] = None"
| "wcs (None # rest) = None"
| "wcs (Some c # rest) = (if c = 0 then Some [] else map_option ((#) c) (wcs rest))"

definition CloseHandle :: "win_ps \<Rightarrow> int \<Rightarrow> bool \<times> win_ps" where
  "CloseHandle k h =
     (case handles k h of
        None \<Rightarrow> (False, SetLastError k ERROR_INVALID_HANDLE)
      | Some obj \<Rightarrow> (True, k\<lparr>handles := (handles k)(h := None)\<rparr>))"

text \<open>The process object a handle stands for (a thread handle: the process of the thread).\<close>

definition process_of :: "win_ps \<Rightarrow> int \<Rightarrow> (nat \<times> wprocess) option" where
  "process_of k h =
     (case handles k h of
        None \<Rightarrow> None
      | Some (To_process i) \<Rightarrow> map_option (Pair i) (procs k i)
      | Some (To_thread i) \<Rightarrow> map_option (Pair i) (procs k i))"

text \<open>
  \<^verbatim>\<open>CreateProcessW(wfn, wargs, ...)\<close> reads both strings; it fails when \<open>wfn\<close> names no
  executable file, and otherwise creates the process and returns a handle to it and one
  to its main thread. \<open>None\<close>: a string argument is not a terminated string.
\<close>

definition CreateProcessW :: "win_ps \<Rightarrow> wbuf \<Rightarrow> wbuf \<Rightarrow> (bool \<times> int \<times> int \<times> win_ps) option" where
  "CreateProcessW k wfn wargs =
     (case (wcs wfn, wcs wargs) of
        (Some name, Some args) \<Rightarrow>
          (case wexes k name of
             None \<Rightarrow> Some (False, 0, 0, SetLastError k ERROR_FILE_NOT_FOUND)
           | Some fate \<Rightarrow>
               let hp = next_handle k; ht = next_handle k + 1; i = next_proc k in
               Some (True, hp, ht,
                 k\<lparr>handles := (handles k)(hp \<mapsto> To_process i, ht \<mapsto> To_thread i),
                   procs := (procs k)(i \<mapsto> \<lparr>cmdline = args, pstate = WRunning fate\<rparr>),
                   next_handle := next_handle k + 2,
                   next_proc := next_proc k + 1\<rparr>))
      | other \<Rightarrow> None)"

text \<open>
  \<^verbatim>\<open>WaitForSingleObject(h, ms)\<close> on a process: \<open>WAIT_FAILED\<close> for a handle that is not
  open, \<open>WAIT_OBJECT_0\<close> once the process has ended, \<open>WAIT_TIMEOUT\<close> at once when it runs
  and \<open>ms = 0\<close>; with \<open>INFINITE\<close> the call waits until the process ends.
\<close>

definition WaitForSingleObject :: "win_ps \<Rightarrow> int \<Rightarrow> 32 word \<Rightarrow> (32 word \<times> win_ps) option" where
  "WaitForSingleObject k h ms =
     (case process_of k h of
        None \<Rightarrow> Some (WAIT_FAILED, SetLastError k ERROR_INVALID_HANDLE)
      | Some (i, pr) \<Rightarrow>
          (case pstate pr of
             WExited cause code \<Rightarrow> Some (0, k)
           | WRunning fate \<Rightarrow>
               if ms \<noteq> INFINITE then Some (258, k)
               else (case fate of
                       None \<Rightarrow> None
                     | Some code \<Rightarrow>
                         Some (0, k\<lparr>procs := (procs k)(i \<mapsto> pr\<lparr>pstate := WExited Normal_exit code\<rparr>)\<rparr>))))"

text \<open>
  \<^verbatim>\<open>GetExitCodeProcess(h, (DWORD*)ptr)\<close> stores the 32 bits of the exit code
  (\<open>STILL_ACTIVE\<close> for a running process), read back through the \<^verbatim>\<open>int*\<close> as a signed
  value. \<open>None\<close>: the store faults.
\<close>

definition GetExitCodeProcess :: "win_ps \<Rightarrow> int \<Rightarrow> addr \<Rightarrow> (bool \<times> win_ps) option" where
  "GetExitCodeProcess k h ptr =
     (case process_of k h of
        None \<Rightarrow> Some (False, SetLastError k ERROR_INVALID_HANDLE)
      | Some (i, pr) \<Rightarrow>
          (case store_int (wmem k) ptr
                  (sint (case pstate pr of WExited cause code \<Rightarrow> code | WRunning fate \<Rightarrow> STILL_ACTIVE)) of
             None \<Rightarrow> None
           | Some m \<Rightarrow> Some (True, k\<lparr>wmem := m\<rparr>)))"

definition TerminateProcess :: "win_ps \<Rightarrow> int \<Rightarrow> 32 word \<Rightarrow> bool \<times> win_ps" where
  "TerminateProcess k h code =
     (case process_of k h of
        None \<Rightarrow> (False, SetLastError k ERROR_INVALID_HANDLE)
      | Some (i, pr) \<Rightarrow>
          (case pstate pr of
             WExited cause c \<Rightarrow> (False, SetLastError k ERROR_ACCESS_DENIED)
           | WRunning fate \<Rightarrow>
               (True, k\<lparr>procs := (procs k)(i \<mapsto> pr\<lparr>pstate := WExited Terminated code\<rparr>)\<rparr>)))"

subsection \<open>The functions of the repository\<close>

text \<open>
  The loop of \<^verbatim>\<open>ps_exec\<close> that joins \<^verbatim>\<open>argv\<close> into \<^verbatim>\<open>wchar_t wargs[1000]\<close>, from index \<open>i\<close>
  with \<open>n\<close> cells filled. \<open>Returns None\<close>: the function returned \<^verbatim>\<open>_PS_NULL\<close> from inside
  the loop. \<open>Faults\<close>: \<^verbatim>\<open>wargs[n++] = ' '\<close> stored outside the array.
\<close>

fun args_loop ::
  "'a win_proc_scheme \<Rightarrow> string list \<Rightarrow> nat \<Rightarrow> nat \<Rightarrow> wbuf \<Rightarrow> (wbuf option \<times> 'a win_proc_scheme) outcome" where
  "args_loop k [] i n wargs = Returns (Some wargs, k)"
| "args_loop k (a # argv) i n wargs =
     (if i \<noteq> 0 \<and> length wargs \<le> n then Faults
      else
        let wargs1 = (if i \<noteq> 0 then wargs[n := Some 0x20] else wargs);
            n1 = (if i \<noteq> 0 then n + 1 else n)
        in case MultiByteToWideChar k a wargs1 n1 (1000 - int n1) of
             (r, wargs2, k2) \<Rightarrow>
               if r = 0 then Returns (None, k2)
               else args_loop k2 argv (i + 1) (n1 + nat (r - 1)) wargs2)"

definition ps_exec_win :: "win_ps \<Rightarrow> string \<Rightarrow> string list \<Rightarrow> (int \<times> win_ps) outcome" where
  "ps_exec_win k filename argv =
     (case MultiByteToWideChar k filename (replicate 1000 None) 0 1000 of
        (r, wfn, k) \<Rightarrow>
          if r = 0 then Returns (INVALID_HANDLE_VALUE, k)
          else
            (case args_loop k argv 0 0 (replicate 1000 None) of
               Faults \<Rightarrow> Faults
             | Blocks \<Rightarrow> Blocks
             | Returns (None, k) \<Rightarrow> Returns (INVALID_HANDLE_VALUE, k)
             | Returns (Some wargs, k) \<Rightarrow>
                 (case CreateProcessW k wfn wargs of
                    None \<Rightarrow> Faults
                  | Some (ok, hProcess, hThread, k) \<Rightarrow>
                      if \<not> ok then Returns (INVALID_HANDLE_VALUE, k)
                      else Returns (hProcess, snd (CloseHandle k hThread)))))"

definition ps_close_win :: "win_ps \<Rightarrow> int \<Rightarrow> win_ps" where
  "ps_close_win k p = snd (CloseHandle k p)"

definition ps_wait_win :: "win_ps \<Rightarrow> int \<Rightarrow> int \<Rightarrow> addr \<Rightarrow> (int \<times> win_ps) outcome" where
  "ps_wait_win k p block exit_code =
     (let timeout_ms = (if block \<noteq> 0 then - 1 else 0)
      in case WaitForSingleObject k p timeout_ms of
           None \<Rightarrow> Blocks
         | Some (r0, k) \<Rightarrow>
             let r = sint r0 in
             if r = WAIT_OBJECT_0 then
               (case (if exit_code \<noteq> NULL then map_option snd (GetExitCodeProcess k p exit_code)
                      else Some k) of
                  None \<Rightarrow> Faults
                | Some k \<Rightarrow> Returns (0, snd (CloseHandle k p)))
             else if r = WAIT_TIMEOUT then Returns (r, SetLastError k WSAETIMEDOUT)
             else Returns (r, k))"

definition ps_kill_win :: "win_ps \<Rightarrow> int \<Rightarrow> int \<times> win_ps" where
  "ps_kill_win k p =
     (case TerminateProcess k p (- 9) of (ok, k) \<Rightarrow> (if ok then 0 else 1, k))"

definition err_last_win :: "'a win_proc_scheme \<Rightarrow> int" where
  "err_last_win k = GetLastError k"

subsection \<open>Concrete states\<close>

text \<open>
  A UNIX process whose only child, pid 1234, is in state \<open>c\<close>, with two int objects in
  memory; the file \<^verbatim>\<open>std-echo\<close> is a program that runs until it is killed.
\<close>

definition unix_with :: "child option \<Rightarrow> unix_ps" where
  "unix_with c =
     \<lparr>errno = 0,
      children = (\<lambda>i. if i = 1234 then c else None),
      mem = (\<lambda>a. if a = 16 then Some 77 else if a = 24 then Some 5 else None),
      may_fork = True,
      next_pid = 1235,
      exes = (\<lambda>f. if f = ''std-echo'' then Some None else None)\<rparr>"

text \<open>The conversion of a string of ASCII characters.\<close>

definition ascii_utf16 :: "string \<Rightarrow> wstring" where
  "ascii_utf16 s = map of_char s"

text \<open>
  A Windows process that holds handle 100 to a process in state \<open>st\<close>, with the same two
  int objects; \<^verbatim>\<open>std-echo.exe\<close> is a program that runs until it is terminated.
\<close>

definition win_with :: "wstate \<Rightarrow> win_ps" where
  "win_with st =
     \<lparr>last_error = 0,
      cp_utf8 = ascii_utf16,
      handles = (\<lambda>h. if h = 100 then Some (To_process 0) else None),
      procs = (\<lambda>i. if i = 0 then Some \<lparr>cmdline = ascii_utf16 ''std-echo'', pstate = st\<rparr> else None),
      wmem = (\<lambda>a. if a = 16 then Some 77 else if a = 24 then Some 5 else None),
      next_handle = 104,
      next_proc = 1,
      wexes = (\<lambda>f. if f = ascii_utf16 ''std-echo.exe'' then Some None else None)\<rparr>"

subsection \<open>The command line the specification describes\<close>

text \<open>The arguments joined with exactly one space between consecutive ones, nothing else added.\<close>

definition join_with_spaces :: "wstring list \<Rightarrow> wstring" where
  "join_with_spaces ws = (case ws of [] \<Rightarrow> [] | v # rest \<Rightarrow> v @ concat (map (\<lambda>u. 0x20 # u) rest))"

text \<open>The number of cells the arguments after the first add to the array.\<close>

definition cells_needed :: "wstring list \<Rightarrow> nat" where
  "cells_needed ws = sum_list (map (\<lambda>u. 1 + length u) ws)"

section \<open>Unnamed pipes (pipe.c)\<close>

subsection \<open>Platform model: pipe objects and descriptor tables\<close>

text \<open>
  A pipe object holds the bytes written and not yet read, oldest first, and counts its open
  read ends and write ends. A descriptor (or handle) of the process stands for one end of
  one pipe object.
\<close>

record pipe_obj =
  pdata :: string
  readers :: nat
  writers :: nat

datatype pipe_end = Read_end nat | Write_end nat

text \<open>The lowest descriptor from \<open>fd\<close> on that is free, among the next \<open>n\<close>.\<close>

fun lowest_free :: "(int \<Rightarrow> 'a option) \<Rightarrow> int \<Rightarrow> nat \<Rightarrow> int option" where
  "lowest_free t fd 0 = None"
| "lowest_free t fd (Suc n) = (if t fd = None then Some fd else lowest_free t (fd + 1) n)"

record unix_io = unix_proc +
  fdt :: "int \<Rightarrow> pipe_end option"
  pipes :: "nat \<Rightarrow> pipe_obj option"
  next_pipe :: nat
  nfile :: nat
  pipe_capacity :: nat

definition EBADF :: int where "EBADF = 9"
definition EMFILE :: int where "EMFILE = 24"

text \<open>
  \<^verbatim>\<open>pipe(p)\<close>: the two lowest free descriptors become the read end and the write end of a
  new, empty pipe; \<open>-1\<close> with \<open>EMFILE\<close> when the process has fewer than two free descriptors.
\<close>

definition sys_pipe :: "unix_io \<Rightarrow> int \<times> int \<times> int \<times> unix_io" where
  "sys_pipe k =
     (case lowest_free (fdt k) 0 (nfile k) of
        None \<Rightarrow> (-1, 0, 0, k\<lparr>errno := EMFILE\<rparr>)
      | Some r \<Rightarrow>
          (case lowest_free ((fdt k)(r \<mapsto> Read_end (next_pipe k))) 0 (nfile k) of
             None \<Rightarrow> (-1, 0, 0, k\<lparr>errno := EMFILE\<rparr>)
           | Some w \<Rightarrow>
               (0, r, w,
                k\<lparr>fdt := (fdt k)(r \<mapsto> Read_end (next_pipe k), w \<mapsto> Write_end (next_pipe k)),
                  pipes := (pipes k)(next_pipe k \<mapsto> \<lparr>pdata = [], readers = 1, writers = 1\<rparr>),
                  next_pipe := next_pipe k + 1\<rparr>)))"

text \<open>The pipe objects after one end of pipe \<open>i\<close> was closed.\<close>

definition drop_end :: "(nat \<Rightarrow> pipe_obj option) \<Rightarrow> pipe_end \<Rightarrow> nat \<Rightarrow> pipe_obj option" where
  "drop_end ps e =
     (case e of
        Read_end i \<Rightarrow> ps(i := map_option (\<lambda>po. po\<lparr>readers := readers po - 1\<rparr>) (ps i))
      | Write_end i \<Rightarrow> ps(i := map_option (\<lambda>po. po\<lparr>writers := writers po - 1\<rparr>) (ps i)))"

definition sys_close :: "unix_io \<Rightarrow> int \<Rightarrow> int \<times> unix_io" where
  "sys_close k fd =
     (case fdt k fd of
        None \<Rightarrow> (-1, k\<lparr>errno := EBADF\<rparr>)
      | Some e \<Rightarrow> (0, k\<lparr>fdt := (fdt k)(fd := None), pipes := drop_end (pipes k) e\<rparr>))"

text \<open>
  \<^verbatim>\<open>read(fd, buf, size)\<close> on a pipe, with the bytes it stores in \<open>buf\<close>: the oldest bytes, as
  many as there are up to \<open>size\<close>; \<open>0\<close> when the pipe is empty and no write end is open (or
  \<open>size\<close> is \<open>0\<close>); \<open>-1\<close> with \<open>EBADF\<close> when \<open>fd\<close> is not open for reading. \<open>None\<close>: the pipe is
  empty and a write end is open, so the call waits.
\<close>

definition sys_read :: "unix_io \<Rightarrow> int \<Rightarrow> nat \<Rightarrow> (int \<times> string \<times> unix_io) option" where
  "sys_read k fd sz =
     (case fdt k fd of
        Some (Read_end i) \<Rightarrow>
          (case pipes k i of
             None \<Rightarrow> Some (-1, [], k\<lparr>errno := EBADF\<rparr>)
           | Some po \<Rightarrow>
               if sz = 0 then Some (0, [], k)
               else if pdata po = [] then (if writers po = 0 then Some (0, [], k) else None)
               else
                 let n = min sz (length (pdata po)) in
                 Some (int n, take n (pdata po), k\<lparr>pipes := (pipes k)(i \<mapsto> po\<lparr>pdata := drop n (pdata po)\<rparr>)\<rparr>))
      | other \<Rightarrow> Some (-1, [], k\<lparr>errno := EBADF\<rparr>))"

text \<open>
  \<^verbatim>\<open>write(fd, buf, size)\<close> on a pipe: all bytes are appended when they fit in the pipe's
  capacity. \<open>None\<close>: the call does not return, because no read end is open (\<^verbatim>\<open>SIGPIPE\<close>
  ends the process) or because the bytes do not fit and the call waits for a reader.
\<close>

definition sys_write :: "unix_io \<Rightarrow> int \<Rightarrow> string \<Rightarrow> (int \<times> unix_io) option" where
  "sys_write k fd bytes =
     (case fdt k fd of
        Some (Write_end i) \<Rightarrow>
          (case pipes k i of
             None \<Rightarrow> Some (-1, k\<lparr>errno := EBADF\<rparr>)
           | Some po \<Rightarrow>
               if readers po = 0 then None
               else if length (pdata po) + length bytes \<le> pipe_capacity k then
                 Some (int (length bytes), k\<lparr>pipes := (pipes k)(i \<mapsto> po\<lparr>pdata := pdata po @ bytes\<rparr>)\<rparr>)
               else None)
      | other \<Rightarrow> Some (-1, k\<lparr>errno := EBADF\<rparr>))"

text \<open>The Windows calls on the same pipe objects, through a table of handles.\<close>

record win_io = win_proc +
  htab :: "int \<Rightarrow> pipe_end option"
  wpipes :: "nat \<Rightarrow> pipe_obj option"
  wnext_pipe :: nat
  wnext_handle :: int
  wpipe_capacity :: nat

definition ERROR_BROKEN_PIPE :: int where "ERROR_BROKEN_PIPE = 109"
definition ERROR_NO_DATA :: int where "ERROR_NO_DATA = 232"

text \<open>\<^verbatim>\<open>CreatePipe(rd, wr, NULL, 0)\<close>: two new handles to a new, empty pipe.\<close>

definition CreatePipe :: "win_io \<Rightarrow> bool \<times> int \<times> int \<times> win_io" where
  "CreatePipe k =
     (True, wnext_handle k, wnext_handle k + 4,
      k\<lparr>htab := (htab k)(wnext_handle k \<mapsto> Read_end (wnext_pipe k),
                           wnext_handle k + 4 \<mapsto> Write_end (wnext_pipe k)),
        wpipes := (wpipes k)(wnext_pipe k \<mapsto> \<lparr>pdata = [], readers = 1, writers = 1\<rparr>),
        wnext_pipe := wnext_pipe k + 1,
        wnext_handle := wnext_handle k + 8\<rparr>)"

definition CloseHandle_io :: "win_io \<Rightarrow> int \<Rightarrow> bool \<times> win_io" where
  "CloseHandle_io k h =
     (case htab k h of
        None \<Rightarrow> (False, SetLastError k ERROR_INVALID_HANDLE)
      | Some e \<Rightarrow> (True, k\<lparr>htab := (htab k)(h := None), wpipes := drop_end (wpipes k) e\<rparr>))"

text \<open>
  \<^verbatim>\<open>ReadFile(h, buf, n, &rd, 0)\<close> on a pipe, with \<open>rd\<close> and the bytes stored: it fails with
  \<open>ERROR_BROKEN_PIPE\<close> when the pipe is empty and no write end is open, and waits (\<open>None\<close>)
  when the pipe is empty and a write end is open.
\<close>

definition ReadFile :: "win_io \<Rightarrow> int \<Rightarrow> 32 word \<Rightarrow> (bool \<times> 32 word \<times> string \<times> win_io) option" where
  "ReadFile k h n =
     (case htab k h of
        Some (Read_end i) \<Rightarrow>
          (case wpipes k i of
             None \<Rightarrow> Some (False, 0, [], SetLastError k ERROR_INVALID_HANDLE)
           | Some po \<Rightarrow>
               if pdata po = [] then
                 (if writers po = 0 then Some (False, 0, [], SetLastError k ERROR_BROKEN_PIPE) else None)
               else
                 let m = min (unat n) (length (pdata po)) in
                 Some (True, of_nat m, take m (pdata po),
                       k\<lparr>wpipes := (wpipes k)(i \<mapsto> po\<lparr>pdata := drop m (pdata po)\<rparr>)\<rparr>))
      | Some (Write_end i) \<Rightarrow> Some (False, 0, [], SetLastError k ERROR_ACCESS_DENIED)
      | None \<Rightarrow> Some (False, 0, [], SetLastError k ERROR_INVALID_HANDLE))"

text \<open>
  \<^verbatim>\<open>WriteFile(h, data, n, &wr, 0)\<close> on a pipe: it fails with \<open>ERROR_NO_DATA\<close> when no read end
  is open, and waits (\<open>None\<close>) when the bytes do not fit in the pipe's buffer.
\<close>

definition WriteFile :: "win_io \<Rightarrow> int \<Rightarrow> string \<Rightarrow> (bool \<times> 32 word \<times> win_io) option" where
  "WriteFile k h bytes =
     (case htab k h of
        Some (Write_end i) \<Rightarrow>
          (case wpipes k i of
             None \<Rightarrow> Some (False, 0, SetLastError k ERROR_INVALID_HANDLE)
           | Some po \<Rightarrow>
               if readers po = 0 then Some (False, 0, SetLastError k ERROR_NO_DATA)
               else if length (pdata po) + length bytes \<le> wpipe_capacity k then
                 Some (True, of_nat (length bytes),
                       k\<lparr>wpipes := (wpipes k)(i \<mapsto> po\<lparr>pdata := pdata po @ bytes\<rparr>)\<rparr>)
               else None)
      | Some (Read_end i) \<Rightarrow> Some (False, 0, SetLastError k ERROR_ACCESS_DENIED)
      | None \<Rightarrow> Some (False, 0, SetLastError k ERROR_INVALID_HANDLE))"

subsection \<open>The functions of the repository\<close>

definition pipe_create_unix :: "unix_io \<Rightarrow> int \<times> int \<times> int \<times> unix_io" where
  "pipe_create_unix k =
     (case sys_pipe k of
        (res, p0, p1, k) \<Rightarrow> if 0 \<noteq> res then (-1, 0, 0, k) else (0, p0, p1, k))"

definition pipe_close_unix :: "unix_io \<Rightarrow> int \<Rightarrow> unix_io" where
  "pipe_close_unix k p = snd (sys_close k p)"

definition pipe_read_unix :: "unix_io \<Rightarrow> int \<Rightarrow> nat \<Rightarrow> (int \<times> string \<times> unix_io) option" where
  "pipe_read_unix k p sz = sys_read k p sz"

definition pipe_write_unix :: "unix_io \<Rightarrow> int \<Rightarrow> string \<Rightarrow> (int \<times> unix_io) option" where
  "pipe_write_unix k p bytes = sys_write k p bytes"

definition pipe_create_win :: "win_io \<Rightarrow> int \<times> int \<times> int \<times> win_io" where
  "pipe_create_win k = (case CreatePipe k of (ok, rd, wr, k) \<Rightarrow> (if ok then 0 else 1, rd, wr, k))"

definition pipe_close_win :: "win_io \<Rightarrow> int \<Rightarrow> win_io" where
  "pipe_close_win k p = snd (CloseHandle_io k p)"

text \<open>
  \<^verbatim>\<open>pipe_read(p, buf, cap)\<close>: \<open>cap\<close> is a \<^verbatim>\<open>size_t\<close> passed for a \<^verbatim>\<open>DWORD\<close>; the result is
  \<open>rd\<close>, or \<open>0\<close> when \<^verbatim>\<open>ReadFile\<close> failed with \<open>ERROR_BROKEN_PIPE\<close>, or \<open>-1\<close>.
\<close>

definition pipe_read_win :: "win_io \<Rightarrow> int \<Rightarrow> nat \<Rightarrow> (int \<times> string \<times> win_io) option" where
  "pipe_read_win k p cap =
     (case ReadFile k p (of_nat cap) of
        None \<Rightarrow> None
      | Some (ok, rd, bytes, k) \<Rightarrow>
          if \<not> ok then
            (if GetLastError k = ERROR_BROKEN_PIPE then Some (0, bytes, k) else Some (-1, bytes, k))
          else Some (uint rd, bytes, k))"

definition pipe_write_win :: "win_io \<Rightarrow> int \<Rightarrow> string \<Rightarrow> (int \<times> win_io) option" where
  "pipe_write_win k p bytes =
     (case WriteFile k p bytes of
        None \<Rightarrow> None
      | Some (ok, wr, k) \<Rightarrow> if \<not> ok then Some (-1, k) else Some (uint wr, k))"

subsection \<open>Successive reads\<close>

text \<open>
  The results of calling \<^verbatim>\<open>pipe_read\<close> on one descriptor again and again, once for each
  buffer size of a list: the value returned and the bytes stored by each call.
\<close>

fun pipe_reads_unix :: "unix_io \<Rightarrow> int \<Rightarrow> nat list \<Rightarrow> ((int \<times> string) list \<times> unix_io) option" where
  "pipe_reads_unix k p [] = Some ([], k)"
| "pipe_reads_unix k p (c # cs) =
     (case pipe_read_unix k p c of
        None \<Rightarrow> None
      | Some (n, bytes, k1) \<Rightarrow>
          (case pipe_reads_unix k1 p cs of
             None \<Rightarrow> None
           | Some (rs, k2) \<Rightarrow> Some ((n, bytes) # rs, k2)))"

fun pipe_reads_win :: "win_io \<Rightarrow> int \<Rightarrow> nat list \<Rightarrow> ((int \<times> string) list \<times> win_io) option" where
  "pipe_reads_win k p [] = Some ([], k)"
| "pipe_reads_win k p (c # cs) =
     (case pipe_read_win k p c of
        None \<Rightarrow> None
      | Some (n, bytes, k1) \<Rightarrow>
          (case pipe_reads_win k1 p cs of
             None \<Rightarrow> None
           | Some (rs, k2) \<Rightarrow> Some ((n, bytes) # rs, k2)))"

text \<open>The pieces a byte sequence falls into when it is taken off in pieces of the given sizes.\<close>

fun pieces :: "nat list \<Rightarrow> string \<Rightarrow> string list" where
  "pieces [] s = []"
| "pieces (c # cs) s = take c s # pieces cs (drop c s)"

subsection \<open>Concrete states\<close>

text \<open>A process with the three standard descriptors open on other objects, and no pipe yet.\<close>

definition unix_io0 :: unix_io where
  "unix_io0 =
     \<lparr>errno = 0,
      fdt = (\<lambda>fd. if fd = 0 then Some (Read_end 0) else if fd = 1 \<or> fd = 2 then Some (Write_end 0) else None),
      pipes = (\<lambda>i. if i = 0 then Some \<lparr>pdata = [], readers = 1, writers = 2\<rparr> else None),
      next_pipe = 1,
      nfile = 1024,
      pipe_capacity = 65536\<rparr>"

definition win_io0 :: win_io where
  "win_io0 =
     \<lparr>last_error = 0,
      cp_utf8 = ascii_utf16,
      htab = (\<lambda>h. None),
      wpipes = (\<lambda>i. None),
      wnext_pipe = 0,
      wnext_handle = 100,
      wpipe_capacity = 4096\<rparr>"

section \<open>Named pipes, UNIX branch: UNIX-domain sockets (samples-sys/pipe-named.c)\<close>

subsection \<open>Platform model: stream sockets bound to file names\<close>

text \<open>
  A connection object carries the bytes under way in each direction, whether each side
  still holds it open, the name it was made to and whether the listener has accepted it.
\<close>

record conn =
  made_to :: string
  accepted :: bool
  to_server :: string
  to_client :: string
  server_open :: bool
  client_open :: bool

datatype side = Server_side | Client_side

datatype sock = Fresh | Bound string | Listener string | Endpoint nat side

datatype syscall = SOCKET | BIND | LISTEN | CONNECT | ACCEPT

text \<open>
  The state: the descriptor table, the names bound in the file system, for each name whether
  a socket listens on it and the connections waiting to be accepted there, and the
  connection objects. A system call can also fail for reasons outside this model (no memory,
  no buffers): \<open>refuse\<close> tells which calls the kernel turns down.
\<close>

record unix_sock = unix_proc +
  sfd :: "int \<Rightarrow> sock option"
  names :: "string \<Rightarrow> bool"
  listening :: "string \<Rightarrow> bool"
  pending :: "string \<Rightarrow> nat list"
  conns :: "nat \<Rightarrow> conn option"
  next_conn :: nat
  refuse :: "syscall \<Rightarrow> bool"
  snfile :: nat
  sock_capacity :: nat
  sun_path_size :: nat

definition PIPE_NULL :: int where "PIPE_NULL = -1"
definition ENOMEM :: int where "ENOMEM = 12"
definition EPIPE :: int where "EPIPE = 32"
definition ENOTCONN :: int where "ENOTCONN = 107"
definition EADDRINUSE :: int where "EADDRINUSE = 98"
definition ECONNREFUSED :: int where "ECONNREFUSED = 111"

text \<open>\<^verbatim>\<open>socket(AF_UNIX, SOCK_STREAM, 0)\<close>: the lowest free descriptor, for a new socket.\<close>

definition sys_socket :: "unix_sock \<Rightarrow> int \<times> unix_sock" where
  "sys_socket k =
     (if refuse k SOCKET then (-1, k\<lparr>errno := ENOMEM\<rparr>)
      else case lowest_free (sfd k) 0 (snfile k) of
        None \<Rightarrow> (-1, k\<lparr>errno := EMFILE\<rparr>)
      | Some fd \<Rightarrow> (fd, k\<lparr>sfd := (sfd k)(fd \<mapsto> Fresh)\<rparr>))"

text \<open>\<^verbatim>\<open>bind\<close>: gives a new socket a name that no file has yet, and creates the file.\<close>

definition sys_bind :: "unix_sock \<Rightarrow> int \<Rightarrow> string \<Rightarrow> int \<times> unix_sock" where
  "sys_bind k fd name =
     (case sfd k fd of
        None \<Rightarrow> (-1, k\<lparr>errno := EBADF\<rparr>)
      | Some Fresh \<Rightarrow>
          if refuse k BIND then (-1, k\<lparr>errno := ENOMEM\<rparr>)
          else if names k name then (-1, k\<lparr>errno := EADDRINUSE\<rparr>)
          else (0, k\<lparr>sfd := (sfd k)(fd \<mapsto> Bound name), names := (names k)(name := True)\<rparr>)
      | Some other \<Rightarrow> (-1, k\<lparr>errno := EINVAL\<rparr>))"

definition sys_listen :: "unix_sock \<Rightarrow> int \<Rightarrow> int \<Rightarrow> int \<times> unix_sock" where
  "sys_listen k fd backlog =
     (case sfd k fd of
        None \<Rightarrow> (-1, k\<lparr>errno := EBADF\<rparr>)
      | Some (Bound name) \<Rightarrow>
          if refuse k LISTEN then (-1, k\<lparr>errno := ENOMEM\<rparr>)
          else (0, k\<lparr>sfd := (sfd k)(fd \<mapsto> Listener name), listening := (listening k)(name := True)\<rparr>)
      | Some (Listener name) \<Rightarrow> (0, k)
      | Some other \<Rightarrow> (-1, k\<lparr>errno := EINVAL\<rparr>))"

text \<open>
  \<^verbatim>\<open>connect\<close>: to a name a socket listens on; the new connection waits there to be
  accepted, and the caller can use its end at once.
\<close>

definition sys_connect :: "unix_sock \<Rightarrow> int \<Rightarrow> string \<Rightarrow> int \<times> unix_sock" where
  "sys_connect k fd name =
     (case sfd k fd of
        None \<Rightarrow> (-1, k\<lparr>errno := EBADF\<rparr>)
      | Some Fresh \<Rightarrow>
          if refuse k CONNECT then (-1, k\<lparr>errno := ENOMEM\<rparr>)
          else if \<not> listening k name then (-1, k\<lparr>errno := ECONNREFUSED\<rparr>)
          else
            (0, k\<lparr>sfd := (sfd k)(fd \<mapsto> Endpoint (next_conn k) Client_side),
                  pending := (pending k)(name := pending k name @ [next_conn k]),
                  conns := (conns k)(next_conn k \<mapsto>
                    \<lparr>made_to = name, accepted = False, to_server = [], to_client = [],
                     server_open = True, client_open = True\<rparr>),
                  next_conn := next_conn k + 1\<rparr>)
      | Some other \<Rightarrow> (-1, k\<lparr>errno := EINVAL\<rparr>))"


text \<open>
  \<^verbatim>\<open>close\<close>: the descriptor is free again. Closing an end of a connection closes that side
  of it; closing a listener ends the listening on its name and closes the server side of
  the connections that still wait there, and of no connection that was accepted.
\<close>

definition sock_close :: "unix_sock \<Rightarrow> int \<Rightarrow> int \<times> unix_sock" where
  "sock_close k fd =
     (case sfd k fd of
        None \<Rightarrow> (-1, k\<lparr>errno := EBADF\<rparr>)
      | Some (Endpoint c Server_side) \<Rightarrow>
          (0, k\<lparr>sfd := (sfd k)(fd := None),
                conns := (conns k)(c := map_option (\<lambda>co. co\<lparr>server_open := False\<rparr>) (conns k c))\<rparr>)
      | Some (Endpoint c Client_side) \<Rightarrow>
          (0, k\<lparr>sfd := (sfd k)(fd := None),
                conns := (conns k)(c := map_option (\<lambda>co. co\<lparr>client_open := False\<rparr>) (conns k c))\<rparr>)
      | Some (Listener name) \<Rightarrow>
          (0, k\<lparr>sfd := (sfd k)(fd := None),
                listening := (listening k)(name := False),
                pending := (pending k)(name := []),
                conns := (\<lambda>c. map_option
                  (\<lambda>co. if made_to co = name \<and> \<not> accepted co then co\<lparr>server_open := False\<rparr> else co)
                  (conns k c))\<rparr>)
      | Some other \<Rightarrow> (0, k\<lparr>sfd := (sfd k)(fd := None)\<rparr>))"


definition sock_write :: "unix_sock \<Rightarrow> int \<Rightarrow> string \<Rightarrow> (int \<times> unix_sock) option" where
  "sock_write k fd bytes =
     (case sfd k fd of
        None \<Rightarrow> Some (-1, k\<lparr>errno := EBADF\<rparr>)
      | Some (Endpoint c sd) \<Rightarrow>
          (case conns k c of
             None \<Rightarrow> Some (-1, k\<lparr>errno := EBADF\<rparr>)
           | Some co \<Rightarrow>
               let q = (if sd = Server_side then to_client co else to_server co);
                   peer_open = (if sd = Server_side then client_open co else server_open co)
               in if \<not> peer_open then None
                  else if sock_capacity k < length q + length bytes then None
                  else Some (int (length bytes),
                    k\<lparr>conns := (conns k)(c \<mapsto>
                       (if sd = Server_side then co\<lparr>to_client := q @ bytes\<rparr>
                        else co\<lparr>to_server := q @ bytes\<rparr>))\<rparr>))
      | Some other \<Rightarrow> Some (-1, k\<lparr>errno := ENOTCONN\<rparr>))"

subsection \<open>The functions of the repository\<close>

text \<open>
  \<^verbatim>\<open>sizeof(a.sun_path)\<close> is \<open>sun_path_size\<close>. The label \<^verbatim>\<open>err\<close> is
  \<^verbatim>\<open>close(p); return -1;\<close>.
\<close>

definition pipe_create_named_sock :: "unix_sock \<Rightarrow> string \<Rightarrow> int \<times> unix_sock" where
  "pipe_create_named_sock k name =
     (let len = length name in
      if len + 1 > sun_path_size k then (-1, k\<lparr>errno := EINVAL\<rparr>)
      else case sys_socket k of (p, k) \<Rightarrow>
        if -1 = p then (-1, k)
        else case sys_bind k p name of (r, k) \<Rightarrow>
          if 0 \<noteq> r then (-1, snd (sock_close k p))
          else case sys_listen k p 0 of (r, k) \<Rightarrow>
            if 0 \<noteq> r then (-1, snd (sock_close k p))
            else (p, k))"



definition pipe_connect_sock :: "unix_sock \<Rightarrow> string \<Rightarrow> int \<times> unix_sock" where
  "pipe_connect_sock k name =
     (let len = length name in
      if len + 1 > sun_path_size k then (-1, k\<lparr>errno := EINVAL\<rparr>)
      else case sys_socket k of (p, k) \<Rightarrow>
        if -1 = p then (-1, k)
        else case sys_connect k p name of (r, k) \<Rightarrow>
          if 0 \<noteq> r then (-1, snd (sock_close k p))
          else (p, k))"



definition pipe_write_sock :: "unix_sock \<Rightarrow> int \<Rightarrow> string \<Rightarrow> (int \<times> unix_sock) option" where
  "pipe_write_sock k p bytes = sock_write k p bytes"

subsection \<open>Concrete states\<close>

text \<open>
  A process with the three standard descriptors open (on objects that are no part of this
  model: they stand as sockets never bound) and no other socket yet; nothing is refused.
\<close>

definition unix_sock0 :: unix_sock where
  "unix_sock0 =
     \<lparr>errno = 0,
      sfd = (\<lambda>fd. if fd = 0 \<or> fd = 1 \<or> fd = 2 then Some Fresh else None),
      names = (\<lambda>n. False),
      listening = (\<lambda>n. False),
      pending = (\<lambda>n. []),
      conns = (\<lambda>c. None),
      next_conn = 0,
      refuse = (\<lambda>c. False),
      snfile = 1024,
      sock_capacity = 212992,
      sun_path_size = 108\<rparr>"

text \<open>
  The state of a process that has created the named pipe \<^verbatim>\<open>/tmp/cpspg.pipe\<close> (descriptor 3),
  connected to it (descriptor 4) and written \<^verbatim>\<open>hello!\<close>; the connection waits to be accepted.
\<close>

definition unix_sock1 :: unix_sock where
  "unix_sock1 =
     \<lparr>errno = 0,
      sfd = (\<lambda>fd. if fd = 0 \<or> fd = 1 \<or> fd = 2 then Some Fresh
                  else if fd = 3 then Some (Listener ''/tmp/cpspg.pipe'')
                  else if fd = 4 then Some (Endpoint 0 Client_side) else None),
      names = (\<lambda>n. n = ''/tmp/cpspg.pipe''),
      listening = (\<lambda>n. n = ''/tmp/cpspg.pipe''),
      pending = (\<lambda>n. if n = ''/tmp/cpspg.pipe'' then [0] else []),
      conns = (\<lambda>c. if c = 0 then
         Some \<lparr>made_to = ''/tmp/cpspg.pipe'', accepted = False, to_server = ''hello!'', to_client = [],
               server_open = True, client_open = True\<rparr> else None),
      next_conn = 1,
      refuse = (\<lambda>c. False),
      snfile = 1024,
      sock_capacity = 212992,
      sun_path_size = 108\<rparr>"

section \<open>Named pipes, Windows branch (samples-sys/pipe-named.c)\<close>

subsection \<open>Platform model: named pipe instances\<close>

text \<open>
  A pipe instance is created listening; a client that opens its name connects to it; the
  server may disconnect the client and listen again. \<open>Closing\<close>: the client has closed its
  handle and the server has not yet disconnected. \<open>client_arrives\<close>: a client of another
  process will connect as soon as the server waits for one.
\<close>

datatype np_state = Listening | Connected | Closing | Disconnected

record np_inst =
  np_name :: wstring
  np_state :: np_state
  np_to_server :: string
  np_to_client :: string
  client_arrives :: bool

datatype np_handle = Server_end nat | Client_end nat

record win_np = win_proc +
  nph :: "int \<Rightarrow> np_handle option"
  insts :: "nat \<Rightarrow> np_inst option"
  by_name :: "wstring \<Rightarrow> nat option"
  np_next_handle :: int
  np_next_inst :: nat

definition ERROR_PIPE_BUSY :: int where "ERROR_PIPE_BUSY = 231"
definition ERROR_PIPE_NOT_CONNECTED :: int where "ERROR_PIPE_NOT_CONNECTED = 233"
definition ERROR_PIPE_LISTENING :: int where "ERROR_PIPE_LISTENING = 536"

text \<open>
  \<^verbatim>\<open>CreateNamedPipeW\<close> with \<^verbatim>\<open>FILE_FLAG_FIRST_PIPE_INSTANCE\<close>: a handle to the first instance
  of a pipe of that name, or \<^verbatim>\<open>INVALID_HANDLE_VALUE\<close> when the name has an instance already.
  \<open>None\<close>: the name is not a terminated string.
\<close>

definition CreateNamedPipeW :: "win_np \<Rightarrow> wbuf \<Rightarrow> (int \<times> win_np) option" where
  "CreateNamedPipeW k w =
     (case wcs w of
        None \<Rightarrow> None
      | Some name \<Rightarrow>
          (case by_name k name of
             Some i \<Rightarrow> Some (INVALID_HANDLE_VALUE, SetLastError k ERROR_ACCESS_DENIED)
           | None \<Rightarrow>
               Some (np_next_handle k,
                 k\<lparr>nph := (nph k)(np_next_handle k \<mapsto> Server_end (np_next_inst k)),
                   insts := (insts k)(np_next_inst k \<mapsto>
                     \<lparr>np_name = name, np_state = Listening, np_to_server = [], np_to_client = [],
                      client_arrives = False\<rparr>),
                   by_name := (by_name k)(name \<mapsto> np_next_inst k),
                   np_next_handle := np_next_handle k + 4,
                   np_next_inst := np_next_inst k + 1\<rparr>)))"



text \<open>
  \<^verbatim>\<open>CreateFileW(name, ..., OPEN_EXISTING, ...)\<close> on a pipe name: a handle to the client end of
  its instance when that listens. \<open>None\<close>: the name is not a terminated string.
\<close>

definition CreateFileW :: "win_np \<Rightarrow> wbuf \<Rightarrow> (int \<times> win_np) option" where
  "CreateFileW k w =
     (case wcs w of
        None \<Rightarrow> None
      | Some name \<Rightarrow>
          (case by_name k name of
             None \<Rightarrow> Some (INVALID_HANDLE_VALUE, SetLastError k ERROR_FILE_NOT_FOUND)
           | Some i \<Rightarrow>
               (case insts k i of
                  None \<Rightarrow> Some (INVALID_HANDLE_VALUE, SetLastError k ERROR_FILE_NOT_FOUND)
                | Some inst \<Rightarrow>
                    if np_state inst \<noteq> Listening then
                      Some (INVALID_HANDLE_VALUE, SetLastError k ERROR_PIPE_BUSY)
                    else
                      Some (np_next_handle k,
                        k\<lparr>nph := (nph k)(np_next_handle k \<mapsto> Client_end i),
                          insts := (insts k)(i \<mapsto> inst\<lparr>np_state := Connected\<rparr>),
                          np_next_handle := np_next_handle k + 4\<rparr>))))"



text \<open>\<^verbatim>\<open>WriteFile\<close> on an end of a pipe instance; the sample's buffers of 512 bytes grow on demand.\<close>

definition WriteFile_np :: "win_np \<Rightarrow> int \<Rightarrow> string \<Rightarrow> (bool \<times> 32 word \<times> win_np) option" where
  "WriteFile_np k h bytes =
     (case nph k h of
        None \<Rightarrow> Some (False, 0, SetLastError k ERROR_INVALID_HANDLE)
      | Some (Server_end i) \<Rightarrow>
          (case insts k i of
             None \<Rightarrow> Some (False, 0, SetLastError k ERROR_INVALID_HANDLE)
           | Some inst \<Rightarrow>
               if np_state inst = Listening then Some (False, 0, SetLastError k ERROR_PIPE_LISTENING)
               else if np_state inst = Disconnected then
                 Some (False, 0, SetLastError k ERROR_PIPE_NOT_CONNECTED)
               else if np_state inst = Closing then Some (False, 0, SetLastError k ERROR_NO_DATA)
               else Some (True, of_nat (length bytes),
                 k\<lparr>insts := (insts k)(i \<mapsto> inst\<lparr>np_to_client := np_to_client inst @ bytes\<rparr>)\<rparr>))
      | Some (Client_end i) \<Rightarrow>
          (case insts k i of
             None \<Rightarrow> Some (False, 0, SetLastError k ERROR_BROKEN_PIPE)
           | Some inst \<Rightarrow>
               if np_state inst = Disconnected then
                 Some (False, 0, SetLastError k ERROR_PIPE_NOT_CONNECTED)
               else Some (True, of_nat (length bytes),
                 k\<lparr>insts := (insts k)(i \<mapsto> inst\<lparr>np_to_server := np_to_server inst @ bytes\<rparr>)\<rparr>)))"

subsection \<open>The functions of the repository\<close>

definition pipe_create_named_np :: "win_np \<Rightarrow> string \<Rightarrow> (int \<times> win_np) option" where
  "pipe_create_named_np k name =
     (case MultiByteToWideChar k name (replicate 1000 None) 0 1000 of
        (r, w, k) \<Rightarrow>
          if 0 = r then Some (INVALID_HANDLE_VALUE, k)
          else CreateNamedPipeW k w)"




definition pipe_connect_np :: "win_np \<Rightarrow> string \<Rightarrow> (int \<times> win_np) option" where
  "pipe_connect_np k name =
     (case MultiByteToWideChar k name (replicate 1000 None) 0 1000 of
        (r, w, k) \<Rightarrow>
          if 0 = r then Some (INVALID_HANDLE_VALUE, k)
          else CreateFileW k w)"


definition pipe_write_np :: "win_np \<Rightarrow> int \<Rightarrow> string \<Rightarrow> (int \<times> win_np) option" where
  "pipe_write_np k p bytes =
     (case WriteFile_np k p bytes of
        None \<Rightarrow> None
      | Some (ok, wr, k) \<Rightarrow> if \<not> ok then Some (-1, k) else Some (uint wr, k))"

subsection \<open>Concrete states\<close>


section \<open>Named semaphores (samples-sys/semaphore.c)\<close>

subsection \<open>Platform model, UNIX branch: POSIX named semaphores\<close>

text \<open>
  A name stands for a semaphore object; the object has a counter and lives on, for the
  handles that are open, when its name is unlinked. Handles are the addresses \<^verbatim>\<open>sem_open\<close>
  returns; \<^verbatim>\<open>SEM_FAILED\<close> is the null address.
\<close>

record unix_sem = unix_proc +
  sem_name_accepted :: "string \<Rightarrow> bool"
  sem_names :: "string \<Rightarrow> nat option"
  sems :: "nat \<Rightarrow> nat option"
  sem_handles :: "int \<Rightarrow> nat option"
  next_sem :: nat
  next_sem_handle :: int

definition SEM_VALUE_MAX :: nat where "SEM_VALUE_MAX = 2147483647"
definition ENOENT :: int where "ENOENT = 2"
definition ENAMETOOLONG :: int where "ENAMETOOLONG = 36"
definition EOVERFLOW :: int where "EOVERFLOW = 75"



definition sem_close :: "unix_sem \<Rightarrow> int \<Rightarrow> int \<times> unix_sem" where
  "sem_close k h =
     (case sem_handles k h of
        None \<Rightarrow> (-1, k\<lparr>errno := EINVAL\<rparr>)
      | Some i \<Rightarrow> (0, k\<lparr>sem_handles := (sem_handles k)(h := None)\<rparr>))"

definition sem_unlink :: "unix_sem \<Rightarrow> string \<Rightarrow> int \<times> unix_sem" where
  "sem_unlink k name =
     (case sem_names k name of
        None \<Rightarrow> (-1, k\<lparr>errno := ENOENT\<rparr>)
      | Some i \<Rightarrow> (0, k\<lparr>sem_names := (sem_names k)(name := None)\<rparr>))"

text \<open>\<^verbatim>\<open>sem_wait\<close>: takes one from a counter above zero. \<open>None\<close>: the counter is zero, the call waits.\<close>

definition sem_wait :: "unix_sem \<Rightarrow> int \<Rightarrow> (int \<times> unix_sem) option" where
  "sem_wait k h =
     (case sem_handles k h of
        None \<Rightarrow> Some (-1, k\<lparr>errno := EINVAL\<rparr>)
      | Some i \<Rightarrow>
          (case sems k i of
             None \<Rightarrow> Some (-1, k\<lparr>errno := EINVAL\<rparr>)
           | Some n \<Rightarrow> if n = 0 then None else Some (0, k\<lparr>sems := (sems k)(i \<mapsto> n - 1)\<rparr>)))"

definition sem_post :: "unix_sem \<Rightarrow> int \<Rightarrow> int \<times> unix_sem" where
  "sem_post k h =
     (case sem_handles k h of
        None \<Rightarrow> (-1, k\<lparr>errno := EINVAL\<rparr>)
      | Some i \<Rightarrow>
          (case sems k i of
             None \<Rightarrow> (-1, k\<lparr>errno := EINVAL\<rparr>)
           | Some n \<Rightarrow>
               if n = SEM_VALUE_MAX then (-1, k\<lparr>errno := EOVERFLOW\<rparr>)
               else (0, k\<lparr>sems := (sems k)(i \<mapsto> n + 1)\<rparr>)))"

subsection \<open>The functions of the repository, UNIX branch\<close>



definition cpsem_close_unix :: "unix_sem \<Rightarrow> int \<Rightarrow> unix_sem" where
  "cpsem_close_unix k sem = snd (sem_close k sem)"

definition cpsem_unlink_unix :: "unix_sem \<Rightarrow> string \<Rightarrow> int \<times> unix_sem" where
  "cpsem_unlink_unix k name = sem_unlink k name"

definition cpsem_wait_unix :: "unix_sem \<Rightarrow> int \<Rightarrow> (int \<times> unix_sem) option" where
  "cpsem_wait_unix k sem = sem_wait k sem"

definition cpsem_post_unix :: "unix_sem \<Rightarrow> int \<Rightarrow> int \<times> unix_sem" where
  "cpsem_post_unix k sem = sem_post k sem"

subsection \<open>Platform model, Windows branch: semaphore objects\<close>

text \<open>
  A semaphore object has a count, a maximum count and the number of handles open to it; its
  name goes with its last handle.
\<close>

record wsem_obj =
  wcount :: nat
  wmax :: nat
  wrefs :: nat

record win_sem = win_proc +
  wsem_names :: "wstring \<Rightarrow> nat option"
  wsems :: "nat \<Rightarrow> wsem_obj option"
  wsem_handles :: "int \<Rightarrow> nat option"
  wnext_sem :: nat
  wnext_sem_handle :: int

definition ERROR_TOO_MANY_POSTS :: int where "ERROR_TOO_MANY_POSTS = 298"




definition CloseHandle_sem :: "win_sem \<Rightarrow> int \<Rightarrow> bool \<times> win_sem" where
  "CloseHandle_sem k h =
     (case wsem_handles k h of
        None \<Rightarrow> (False, SetLastError k ERROR_INVALID_HANDLE)
      | Some i \<Rightarrow>
          (case wsems k i of
             None \<Rightarrow> (True, k\<lparr>wsem_handles := (wsem_handles k)(h := None)\<rparr>)
           | Some s \<Rightarrow>
               if wrefs s \<le> 1 then
                 (True, k\<lparr>wsem_handles := (wsem_handles k)(h := None),
                          wsems := (wsems k)(i := None),
                          wsem_names := (\<lambda>n. if wsem_names k n = Some i then None else wsem_names k n)\<rparr>)
               else
                 (True, k\<lparr>wsem_handles := (wsem_handles k)(h := None),
                          wsems := (wsems k)(i \<mapsto> s\<lparr>wrefs := wrefs s - 1\<rparr>)\<rparr>)))"

text \<open>\<^verbatim>\<open>WaitForSingleObject(sem, INFINITE)\<close> on a semaphore. \<open>None\<close>: the count is zero.\<close>

definition WaitForSingleObject_sem :: "win_sem \<Rightarrow> int \<Rightarrow> (32 word \<times> win_sem) option" where
  "WaitForSingleObject_sem k h =
     (case wsem_handles k h of
        None \<Rightarrow> Some (WAIT_FAILED, SetLastError k ERROR_INVALID_HANDLE)
      | Some i \<Rightarrow>
          (case wsems k i of
             None \<Rightarrow> Some (WAIT_FAILED, SetLastError k ERROR_INVALID_HANDLE)
           | Some s \<Rightarrow>
               if wcount s = 0 then None
               else Some (0, k\<lparr>wsems := (wsems k)(i \<mapsto> s\<lparr>wcount := wcount s - 1\<rparr>)\<rparr>)))"

definition ReleaseSemaphore :: "win_sem \<Rightarrow> int \<Rightarrow> nat \<Rightarrow> bool \<times> win_sem" where
  "ReleaseSemaphore k h n =
     (case wsem_handles k h of
        None \<Rightarrow> (False, SetLastError k ERROR_INVALID_HANDLE)
      | Some i \<Rightarrow>
          (case wsems k i of
             None \<Rightarrow> (False, SetLastError k ERROR_INVALID_HANDLE)
           | Some s \<Rightarrow>
               if wmax s < wcount s + n then (False, SetLastError k ERROR_TOO_MANY_POSTS)
               else (True, k\<lparr>wsems := (wsems k)(i \<mapsto> s\<lparr>wcount := wcount s + n\<rparr>)\<rparr>)))"

subsection \<open>The functions of the repository, Windows branch\<close>



definition cpsem_close_win :: "win_sem \<Rightarrow> int \<Rightarrow> win_sem" where
  "cpsem_close_win k sem = snd (CloseHandle_sem k sem)"

definition cpsem_wait_win :: "win_sem \<Rightarrow> int \<Rightarrow> (int \<times> win_sem) option" where
  "cpsem_wait_win k sem =
     (case WaitForSingleObject_sem k sem of
        None \<Rightarrow> None
      | Some (r0, k) \<Rightarrow> Some (if sint r0 = WAIT_OBJECT_0 then 0 else sint r0, k))"

definition cpsem_unlink_win :: "win_sem \<Rightarrow> string \<Rightarrow> int \<times> win_sem" where
  "cpsem_unlink_win k name = (0, k)"

definition cpsem_post_win :: "win_sem \<Rightarrow> int \<Rightarrow> int \<times> win_sem" where
  "cpsem_post_win k sem = (case ReleaseSemaphore k sem 1 of (ok, k) \<Rightarrow> (if ok then 0 else 1, k))"

subsection \<open>Concrete states\<close>





section \<open>CPU exceptions: \<^verbatim>\<open>src/samples/signal-cpu-exception.c\<close>\<close>

subsection \<open>What both branches share\<close>

text \<open>
  \<^verbatim>\<open>struct sig_info\<close>, and the type of the user's handler: a pointer to a function, here the
  address of the function.
\<close>

record sig_info =
  sig :: "32 word"
  addr :: "64 word"
  flags :: "32 word"

type_synonym sig_handler_t = nat

text \<open>
  The call \<^verbatim>\<open>_sig_userhandler(&i)\<close> runs the function the pointer designates. What a function
  does to the state of the process is given by the program: a table from the addresses of
  functions to state transformers. Each such call is added to the history \<open>calls\<close> of the
  state, which no code reads: the theorems tell by it how often the user's handler was run
  and with what.
\<close>

subsection \<open>Platform model, UNIX branch: signals\<close>

text \<open>The \<^verbatim>\<open>siginfo_t\<close> of a fault has the address of the fault besides.\<close>

record siginfo_fault = siginfo +
  si_addr :: "64 word"

text \<open>
  The action of a signal: the default one, which for the signals of CPU exceptions ends the
  process, or the function \<^verbatim>\<open>_sig_exc_handler\<close> (the only one this code installs) with the
  \<^verbatim>\<open>sa_flags\<close> it was installed with.
\<close>

datatype sigdisp = SIG_DFL | Handled "32 word"

record unix_sig = unix_proc +
  sig_userhandler :: sig_handler_t
  disposition :: "int \<Rightarrow> sigdisp"
  altstack :: "(addr \<times> nat) option"
  heap_free :: nat
  next_block :: addr
  calls :: "(sig_handler_t \<times> sig_info) list"
  killed :: "int option"
  printed :: "sig_info list"

type_synonym unix_prog = "sig_handler_t \<Rightarrow> sig_info \<Rightarrow> unix_sig \<Rightarrow> unix_sig"

definition SIGILL :: int where "SIGILL = 4"
definition SIGFPE :: int where "SIGFPE = 8"
definition SIGSEGV :: int where "SIGSEGV = 11"
definition SIGSTOP :: int where "SIGSTOP = 19"
definition SA_SIGINFO :: "32 word" where "SA_SIGINFO = 4"
definition SA_ONSTACK :: "32 word" where "SA_ONSTACK = 0x08000000"
definition SA_RESETHAND :: "32 word" where "SA_RESETHAND = 0x80000000"
definition SIGSTKSZ :: nat where "SIGSTKSZ = 8192"
definition MINSIGSTKSZ :: nat where "MINSIGSTKSZ = 2048"

definition malloc :: "unix_sig \<Rightarrow> nat \<Rightarrow> addr \<times> unix_sig" where
  "malloc k n =
     (if heap_free k < n then (NULL, k\<lparr>errno := ENOMEM\<rparr>)
      else (next_block k, k\<lparr>next_block := next_block k + n, heap_free := heap_free k - n\<rparr>))"

definition sigaltstack :: "unix_sig \<Rightarrow> addr \<Rightarrow> nat \<Rightarrow> int \<times> unix_sig" where
  "sigaltstack k sp sz =
     (if sz < MINSIGSTKSZ then (-1, k\<lparr>errno := ENOMEM\<rparr>)
      else (0, k\<lparr>altstack := Some (sp, sz)\<rparr>))"

text \<open>
  \<^verbatim>\<open>sigaction(signum, &sa, NULL)\<close> where \<^verbatim>\<open>sa.sa_sigaction\<close> is \<^verbatim>\<open>_sig_exc_handler\<close>: it fails
  with \<open>EINVAL\<close> for a number that is not a signal's, for \<open>SIGKILL\<close> and \<open>SIGSTOP\<close>, and for
  the two signals the C library keeps for itself.
\<close>

definition sigaction :: "unix_sig \<Rightarrow> int \<Rightarrow> 32 word \<Rightarrow> int \<times> unix_sig" where
  "sigaction k signum sa_flags =
     (if signum < 1 \<or> 64 < signum \<or> signum = SIGKILL \<or> signum = SIGSTOP
         \<or> signum = 32 \<or> signum = 33
      then (-1, k\<lparr>errno := EINVAL\<rparr>)
      else (0, k\<lparr>disposition := (disposition k)(signum := Handled sa_flags)\<rparr>))"

subsection \<open>The functions of the repository, UNIX branch\<close>

definition CPSIG_SEGV_unix :: "32 word" where "CPSIG_SEGV_unix = 11"
definition CPSIG_FPE_unix :: "32 word" where "CPSIG_FPE_unix = 8"
definition CPSIG_ILL_unix :: "32 word" where "CPSIG_ILL_unix = 4"
definition CPSIG_STACK_unix :: "32 word" where "CPSIG_STACK_unix = 0x40000000 OR 11"

definition sig_exc_handler_unix ::
  "unix_prog \<Rightarrow> unix_sig \<Rightarrow> int \<Rightarrow> siginfo_fault \<Rightarrow> unix_sig" where
  "sig_exc_handler_unix prog k signo info =
     (let i = \<lparr>sig = word_of_int signo, addr = si_addr info, flags = word_of_int (si_code info)\<rparr>
      in prog (sig_userhandler k) i (k\<lparr>calls := calls k @ [(sig_userhandler k, i)]\<rparr>))"

text \<open>
  The first loop of \<^verbatim>\<open>sig_subscribe\<close>, which stops at the first \<^verbatim>\<open>CPSIG_STACK\<close>: the result
  is the value the function returns at once, if it does, and \<^verbatim>\<open>have_stack_sig\<close>.
\<close>

fun stack_loop :: "unix_sig \<Rightarrow> 32 word list \<Rightarrow> int option \<times> bool \<times> unix_sig" where
  "stack_loop k [] = (None, False, k)"
| "stack_loop k (s # rest) =
     (if s = CPSIG_STACK_unix then
        (case malloc k SIGSTKSZ of
           (sp, k) \<Rightarrow>
             if sp = NULL then (Some (-1), False, k)
             else case sigaltstack k sp SIGSTKSZ of
               (r, k) \<Rightarrow>
                 if 0 \<noteq> r then (Some (-1), False, k)
                 else case sigaction k SIGSEGV (SA_SIGINFO OR SA_RESETHAND OR SA_ONSTACK) of
                   (r, k) \<Rightarrow> if 0 \<noteq> r then (Some (-1), False, k) else (None, True, k))
      else stack_loop k rest)"

text \<open>
  The second loop. The comparison with \<^verbatim>\<open>SIGSEGV\<close> is one of \<^verbatim>\<open>unsigned int\<close>; the signal
  number given to \<^verbatim>\<open>sigaction\<close> is the kind, read as an \<^verbatim>\<open>int\<close>.
\<close>

fun signals_loop :: "unix_sig \<Rightarrow> bool \<Rightarrow> 32 word list \<Rightarrow> int \<times> unix_sig" where
  "signals_loop k have_stack_sig [] = (0, k)"
| "signals_loop k have_stack_sig (s # rest) =
     (if s = CPSIG_STACK_unix \<or> (s = word_of_int SIGSEGV \<and> have_stack_sig)
      then signals_loop k have_stack_sig rest
      else case sigaction k (sint s) (SA_SIGINFO OR SA_RESETHAND) of
        (r, k) \<Rightarrow> if 0 \<noteq> r then (-1, k) else signals_loop k have_stack_sig rest)"

definition sig_subscribe_unix ::
  "unix_sig \<Rightarrow> sig_handler_t \<Rightarrow> 32 word list \<Rightarrow> int \<times> unix_sig" where
  "sig_subscribe_unix k handler sigs =
     (case stack_loop (k\<lparr>sig_userhandler := handler\<rparr>) sigs of
        (Some r, have_stack_sig, k) \<Rightarrow> (r, k)
      | (None, have_stack_sig, k) \<Rightarrow> signals_loop k have_stack_sig sigs)"

text \<open>\<^verbatim>\<open>sig_handler\<close> of the sample prints what it is given.\<close>

definition sig_handler_unix :: "sig_info \<Rightarrow> unix_sig \<Rightarrow> unix_sig" where
  "sig_handler_unix i k = k\<lparr>printed := printed k @ [i]\<rparr>"

subsection \<open>Platform model, UNIX branch: a fault\<close>

text \<open>
  What the kernel does when an instruction of the process faults, \<open>signo\<close> being the signal
  of the fault: nothing in a process that has ended; the default action ends the process;
  a handler is run, on the alternate stack when it was installed with \<open>SA_ONSTACK\<close> and
  there is one, after the action was set back to the default when it was installed with
  \<open>SA_RESETHAND\<close>. When the fault is the stack running out, \<open>exhausted\<close>, a handler that is
  not to run on an alternate stack has no room to run, and the process ends.
\<close>

definition fault_unix ::
  "unix_prog \<Rightarrow> unix_sig \<Rightarrow> int \<Rightarrow> siginfo_fault \<Rightarrow> bool \<Rightarrow> unix_sig" where
  "fault_unix prog k signo info exhausted =
     (if killed k \<noteq> None then k
      else case disposition k signo of
        SIG_DFL \<Rightarrow> k\<lparr>killed := Some signo\<rparr>
      | Handled sa_flags \<Rightarrow>
          if exhausted \<and> (sa_flags AND SA_ONSTACK = 0 \<or> altstack k = None)
          then k\<lparr>killed := Some signo\<rparr>
          else if sa_flags AND SA_RESETHAND \<noteq> 0
          then sig_exc_handler_unix prog (k\<lparr>disposition := (disposition k)(signo := SIG_DFL)\<rparr>)
                 signo info
          else sig_exc_handler_unix prog k signo info)"

text \<open>The signal that \<^verbatim>\<open>sig_subscribe\<close> arms for a kind it is given.\<close>

definition signal_of :: "32 word \<Rightarrow> int" where
  "signal_of kind = (if kind = CPSIG_STACK_unix then SIGSEGV else sint kind)"

subsection \<open>Platform model, Windows branch: unhandled exceptions\<close>

record exception_record =
  ExceptionCode :: "32 word"
  ExceptionInformation :: "nat \<Rightarrow> 64 word"

text \<open>The top-level exception filter: none, or the function \<^verbatim>\<open>_sig_exc_handler\<close>.\<close>

datatype exception_filter = Sig_exc_handler

record win_sig = win_proc +
  wsig_userhandler :: sig_handler_t
  top_filter :: "exception_filter option"
  wcalls :: "(sig_handler_t \<times> sig_info) list"
  ended :: "32 word option"
  wprinted :: "sig_info list"

type_synonym win_prog = "sig_handler_t \<Rightarrow> sig_info \<Rightarrow> win_sig \<Rightarrow> win_sig"

definition EXCEPTION_ACCESS_VIOLATION :: "32 word" where "EXCEPTION_ACCESS_VIOLATION = 0xC0000005"
definition EXCEPTION_ILLEGAL_INSTRUCTION :: "32 word" where "EXCEPTION_ILLEGAL_INSTRUCTION = 0xC000001D"
definition EXCEPTION_STACK_OVERFLOW :: "32 word" where "EXCEPTION_STACK_OVERFLOW = 0xC00000FD"
definition EXCEPTION_FLT_DIVIDE_BY_ZERO :: "32 word" where "EXCEPTION_FLT_DIVIDE_BY_ZERO = 0xC000008E"
definition EXCEPTION_EXECUTE_HANDLER :: int where "EXCEPTION_EXECUTE_HANDLER = 1"
definition EXCEPTION_CONTINUE_SEARCH :: int where "EXCEPTION_CONTINUE_SEARCH = 0"
definition EXCEPTION_CONTINUE_EXECUTION :: int where "EXCEPTION_CONTINUE_EXECUTION = -1"

definition SetUnhandledExceptionFilter :: "win_sig \<Rightarrow> exception_filter option \<Rightarrow> win_sig" where
  "SetUnhandledExceptionFilter k f = k\<lparr>top_filter := f\<rparr>"

subsection \<open>The functions of the repository, Windows branch\<close>

definition CPSIG_SEGV_win :: "32 word" where "CPSIG_SEGV_win = EXCEPTION_ACCESS_VIOLATION"
definition CPSIG_ILL_win :: "32 word" where "CPSIG_ILL_win = EXCEPTION_ILLEGAL_INSTRUCTION"
definition CPSIG_STACK_win :: "32 word" where "CPSIG_STACK_win = EXCEPTION_STACK_OVERFLOW"
definition CPSIG_FPE_win :: "32 word" where "CPSIG_FPE_win = EXCEPTION_FLT_DIVIDE_BY_ZERO"

definition sig_exc_handler_win ::
  "win_prog \<Rightarrow> win_sig \<Rightarrow> exception_record \<Rightarrow> int \<times> win_sig" where
  "sig_exc_handler_win prog k er =
     (let k = SetUnhandledExceptionFilter k None;
          i = \<lparr>sig = ExceptionCode er, addr = 0, flags = 0\<rparr>;
          i = (if ExceptionCode er = EXCEPTION_ACCESS_VIOLATION
               then i\<lparr>flags := ucast (ExceptionInformation er 0), addr := ExceptionInformation er 1\<rparr>
               else i)
      in (EXCEPTION_CONTINUE_SEARCH,
          prog (wsig_userhandler k) i (k\<lparr>wcalls := wcalls k @ [(wsig_userhandler k, i)]\<rparr>)))"

definition sig_subscribe_win ::
  "win_sig \<Rightarrow> sig_handler_t \<Rightarrow> 32 word list \<Rightarrow> int \<times> win_sig" where
  "sig_subscribe_win k handler sigs =
     (0, SetUnhandledExceptionFilter (k\<lparr>wsig_userhandler := handler\<rparr>) (Some Sig_exc_handler))"

definition sig_handler_win :: "sig_info \<Rightarrow> win_sig \<Rightarrow> win_sig" where
  "sig_handler_win i k = k\<lparr>wprinted := wprinted k @ [i]\<rparr>"

subsection \<open>Platform model, Windows branch: an exception\<close>

text \<open>
  What the system does with an exception that no frame of the thread handles: nothing in a
  process that has ended; without a top-level filter the process ends with the code of the
  exception; with a filter, the filter is run, and the process ends unless the filter asks
  for the execution to continue.
\<close>

definition unhandled_exception :: "win_prog \<Rightarrow> win_sig \<Rightarrow> exception_record \<Rightarrow> win_sig" where
  "unhandled_exception prog k er =
     (if ended k \<noteq> None then k
      else case top_filter k of
        None \<Rightarrow> k\<lparr>ended := Some (ExceptionCode er)\<rparr>
      | Some Sig_exc_handler \<Rightarrow>
          (case sig_exc_handler_win prog k er of
             (r, k) \<Rightarrow>
               if r = EXCEPTION_CONTINUE_EXECUTION then k
               else k\<lparr>ended := Some (ExceptionCode er)\<rparr>))"

subsection \<open>Concrete states\<close>

text \<open>
  A process that has not subscribed, the function \<^verbatim>\<open>sig_handler\<close> of the sample at address
  4198742, and the program of the sample: a pointer to anything else is not a function, and
  calling it ends the process.
\<close>

definition sig_handler_addr :: sig_handler_t where "sig_handler_addr = 4198742"

definition unix_sig0 :: unix_sig where
  "unix_sig0 =
     \<lparr>errno = 0,
      sig_userhandler = NULL,
      disposition = (\<lambda>n. SIG_DFL),
      altstack = None,
      heap_free = 1048576,
      next_block = 6295552,
      calls = [],
      killed = None,
      printed = []\<rparr>"

definition sample_unix :: unix_prog where
  "sample_unix f i k = (if f = sig_handler_addr then sig_handler_unix i k else k\<lparr>killed := Some SIGSEGV\<rparr>)"

definition win_sig0 :: win_sig where
  "win_sig0 =
     \<lparr>last_error = 0,
      cp_utf8 = ascii_utf16,
      wsig_userhandler = NULL,
      top_filter = None,
      wcalls = [],
      ended = None,
      wprinted = []\<rparr>"

definition sample_win :: win_prog where
  "sample_win f i k =
     (if f = sig_handler_addr then sig_handler_win i k
      else k\<lparr>ended := Some EXCEPTION_ACCESS_VIOLATION\<rparr>)"

text \<open>
  The kinds the sample subscribes to, and the fault it raises for \<^verbatim>\<open>CPSIG_SEGV\<close>: a write
  to the address \<^verbatim>\<open>0x16\<close>.
\<close>

definition sigs_unix :: "32 word list" where
  "sigs_unix = [CPSIG_SEGV_unix, CPSIG_STACK_unix, CPSIG_ILL_unix, CPSIG_FPE_unix]"

definition sigs_win :: "32 word list" where
  "sigs_win = [CPSIG_SEGV_win, CPSIG_STACK_win, CPSIG_ILL_win, CPSIG_FPE_win]"

definition segv_unix :: siginfo_fault where
  "segv_unix = \<lparr>si_signo = 11, si_code = 1, si_pid = 0, si_status = 0, si_addr = 22\<rparr>"

definition segv_win :: exception_record where
  "segv_win =
     \<lparr>ExceptionCode = EXCEPTION_ACCESS_VIOLATION,
      ExceptionInformation = (\<lambda>n. if n = 0 then 1 else if n = 1 then 22 else 0)\<rparr>"

chapter \<open>Theorems\<close>

section \<open>Facts about the platform models\<close>

lemma wait_options:
  "(WEXITED OR WNOHANG) AND WEXITED \<noteq> 0" "(WEXITED OR WNOHANG) AND WNOHANG \<noteq> 0"
  "WEXITED AND WEXITED \<noteq> 0" "WEXITED AND WNOHANG = 0" "WEXITED \<noteq> 0"
  by (simp_all add: WEXITED_def WNOHANG_def)

lemma id_t_id: "0 \<le> p \<Longrightarrow> p < 2 ^ 32 \<Longrightarrow> id_t p = p"
  by (simp add: id_t_def)

lemma waitid_mem: "waitid k t i s opts = Some (r, s', k') \<Longrightarrow> mem k' = mem k"
  by (auto simp: waitid_def split: if_splits option.splits child.splits)

lemma WaitForSingleObject_wmem: "WaitForSingleObject w h ms = Some (r, w') \<Longrightarrow> wmem w' = wmem w"
  by (auto simp: WaitForSingleObject_def SetLastError_def split: option.splits wstate.splits if_splits)

lemma CloseHandle_wmem: "wmem (snd (CloseHandle w h)) = wmem w"
  by (simp add: CloseHandle_def SetLastError_def split: option.splits)

lemma GetExitCodeProcess_frame:
  "GetExitCodeProcess w h ec = Some (b, w') \<Longrightarrow> a \<noteq> ec \<Longrightarrow> wmem w' a = wmem w a"
  by (auto simp: GetExitCodeProcess_def SetLastError_def store_int_def split: option.splits if_splits)

section \<open>ps_wait: what it stores through exit_code\<close>

lemma ps_wait_unix_frame:
  assumes "ps_wait_unix k p block ec = Returns (r, k')"
  shows "(r \<noteq> 0 \<longrightarrow> mem k' = mem k) \<and> (\<forall>a. a \<noteq> ec \<longrightarrow> mem k' a = mem k a)"
proof (cases "waitid k P_PID (id_t p) siginfo_zero (WEXITED OR (if block = 0 then WNOHANG else 0))")
  case None
  with assms show ?thesis by (simp add: ps_wait_unix_def Let_def)
next
  case (Some t)
  obtain r0 s0 k0 where t: "t = (r0, s0, k0)" by (cases t)
  from Some t have m: "mem k0 = mem k" by (auto dest: waitid_mem)
  from assms Some t m show ?thesis
    by (auto simp: ps_wait_unix_def Let_def store_int_def split: if_splits)
qed

lemma ps_wait_unix_NULL: "ps_wait_unix k p block NULL \<noteq> Faults"
  by (simp add: ps_wait_unix_def Let_def split: option.splits prod.splits)

lemma ps_wait_win_frame:
  assumes "ps_wait_win w p block ec = Returns (r, w')"
  shows "(r \<noteq> 0 \<longrightarrow> wmem w' = wmem w) \<and> (\<forall>a. a \<noteq> ec \<longrightarrow> wmem w' a = wmem w a)"
proof (cases "WaitForSingleObject w p (if block \<noteq> 0 then - 1 else 0)")
  case None
  with assms show ?thesis by (simp add: ps_wait_win_def Let_def)
next
  case (Some t)
  obtain r0 w0 where t: "t = (r0, w0)" by (cases t)
  from Some t have m: "wmem w0 = wmem w" by (auto dest: WaitForSingleObject_wmem)
  from assms Some t m show ?thesis
    by (auto simp: ps_wait_win_def Let_def CloseHandle_wmem SetLastError_def WAIT_OBJECT_0_def
        split: if_splits option.splits dest: GetExitCodeProcess_frame)
qed

lemma ps_wait_win_NULL: "ps_wait_win w p block NULL \<noteq> Faults"
  by (simp add: ps_wait_win_def Let_def split: option.splits prod.splits)

text \<open>
  Claim C10. On both branches \<^verbatim>\<open>ps_wait(p, block, exit_code)\<close> stores through
  \<^verbatim>\<open>exit_code\<close> only when it returns 0: when it returns anything else (the timed-out
  case of a running child included) the caller's memory is as it was, no call changes an
  object other than \<^verbatim>\<open>*exit_code\<close>, and with \<^verbatim>\<open>exit_code == NULL\<close> no store is attempted,
  so the call never faults.
\<close>

theorem ps_wait_exit_code_frame:
  "(ps_wait_unix k p block ec = Returns (r, k') \<longrightarrow>
      (r \<noteq> 0 \<longrightarrow> mem k' = mem k) \<and> (\<forall>a. a \<noteq> ec \<longrightarrow> mem k' a = mem k a))
   \<and> (ps_wait_win w h block ec = Returns (r', w') \<longrightarrow>
      (r' \<noteq> 0 \<longrightarrow> wmem w' = wmem w) \<and> (\<forall>a. a \<noteq> ec \<longrightarrow> wmem w' a = wmem w a))
   \<and> ps_wait_unix k p block NULL \<noteq> Faults
   \<and> ps_wait_win w h block NULL \<noteq> Faults"
  using ps_wait_unix_frame [of k p block ec r k'] ps_wait_win_frame [of w h block ec r' w']
    ps_wait_unix_NULL [of k p block] ps_wait_win_NULL [of w h block]
  by blast

lemma ps_wait_unix_demo_running:
  "ps_wait_unix (unix_with (Some (Running None))) 1234 0 16 =
     Returns (- 1, unix_with (Some (Running None))\<lparr>errno := ETIMEDOUT\<rparr>)"
  by (simp add: ps_wait_unix_def waitid_def unix_with_def id_t_def siginfo_zero_def wait_options Let_def)

lemma ps_wait_unix_demo_exited:
  "ps_wait_unix (unix_with (Some (Zombie (Exited 3)))) 1234 0 16 =
     Returns (0, unix_with None\<lparr>mem := (mem (unix_with None))(16 \<mapsto> 3)\<rparr>)"
  by (simp add: ps_wait_unix_def waitid_def unix_with_def id_t_def siginfo_zero_def siginfo_of_def
      wait_options Let_def store_int_def NULL_def CLD_EXITED_def fun_eq_iff)

lemma ps_wait_win_demo_running:
  "ps_wait_win (win_with (WRunning None)) 100 0 16 =
     Returns (258, win_with (WRunning None)\<lparr>last_error := WSAETIMEDOUT\<rparr>)"
  by (simp add: ps_wait_win_def WaitForSingleObject_def process_of_def win_with_def INFINITE_def
      SetLastError_def WAIT_OBJECT_0_def WAIT_TIMEOUT_def)

lemma ps_wait_win_demo_exited:
  "ps_wait_win (win_with (WExited Normal_exit 3)) 100 0 16 =
     Returns (0, win_with (WExited Normal_exit 3)
       \<lparr>handles := (handles (win_with (WExited Normal_exit 3)))(100 := None),
        wmem := (wmem (win_with (WExited Normal_exit 3)))(16 \<mapsto> 3)\<rparr>)"
  by (simp add: ps_wait_win_def WaitForSingleObject_def process_of_def win_with_def INFINITE_def
      SetLastError_def WAIT_OBJECT_0_def WAIT_TIMEOUT_def GetExitCodeProcess_def store_int_def
      NULL_def CloseHandle_def)

theorem ps_wait_exit_code_frame_witness:
  "ps_wait_unix (unix_with (Some (Running None))) 1234 0 16 =
     Returns (- 1, unix_with (Some (Running None))\<lparr>errno := ETIMEDOUT\<rparr>)
   \<and> mem (unix_with (Some (Running None))\<lparr>errno := ETIMEDOUT\<rparr>) = mem (unix_with (Some (Running None)))
   \<and> ps_wait_unix (unix_with (Some (Zombie (Exited 3)))) 1234 0 16 =
     Returns (0, unix_with None\<lparr>mem := (mem (unix_with None))(16 \<mapsto> 3)\<rparr>)
   \<and> mem (unix_with None\<lparr>mem := (mem (unix_with None))(16 \<mapsto> 3)\<rparr>) 24 =
       mem (unix_with (Some (Zombie (Exited 3)))) 24
   \<and> ps_wait_win (win_with (WRunning None)) 100 0 16 =
     Returns (258, win_with (WRunning None)\<lparr>last_error := WSAETIMEDOUT\<rparr>)
   \<and> wmem (win_with (WRunning None)\<lparr>last_error := WSAETIMEDOUT\<rparr>) = wmem (win_with (WRunning None))
   \<and> wmem (win_with (WExited Normal_exit 3)
       \<lparr>handles := (handles (win_with (WExited Normal_exit 3)))(100 := None),
        wmem := (wmem (win_with (WExited Normal_exit 3)))(16 \<mapsto> 3)\<rparr>) 24 =
       wmem (win_with (WExited Normal_exit 3)) 24
   \<and> ps_wait_unix (unix_with (Some (Zombie (Exited 3)))) 1234 0 NULL \<noteq> Faults
   \<and> ps_wait_win (win_with (WExited Normal_exit 3)) 100 0 NULL \<noteq> Faults"
proof -
  note a = ps_wait_exit_code_frame
    [of "unix_with (Some (Running None))" 1234 0 16 "- 1"
       "unix_with (Some (Running None))\<lparr>errno := ETIMEDOUT\<rparr>"
       "win_with (WRunning None)" 100 258 "win_with (WRunning None)\<lparr>last_error := WSAETIMEDOUT\<rparr>"]
  note b = ps_wait_exit_code_frame
    [of "unix_with (Some (Zombie (Exited 3)))" 1234 0 16 0
       "unix_with None\<lparr>mem := (mem (unix_with None))(16 \<mapsto> 3)\<rparr>"
       "win_with (WExited Normal_exit 3)" 100 0
       "win_with (WExited Normal_exit 3)
         \<lparr>handles := (handles (win_with (WExited Normal_exit 3)))(100 := None),
          wmem := (wmem (win_with (WExited Normal_exit 3)))(16 \<mapsto> 3)\<rparr>"]
  note au = a [THEN conjunct1, THEN mp, OF ps_wait_unix_demo_running, THEN conjunct1]
  note aw = a [THEN conjunct2, THEN conjunct1, THEN mp, OF ps_wait_win_demo_running, THEN conjunct1]
  note bu = b [THEN conjunct1, THEN mp, OF ps_wait_unix_demo_exited, THEN conjunct2, THEN spec, of 24]
  note bw = b [THEN conjunct2, THEN conjunct1, THEN mp, OF ps_wait_win_demo_exited, THEN conjunct2,
      THEN spec, of 24]
  note c1 = b [THEN conjunct2, THEN conjunct2, THEN conjunct1]
  note c2 = b [THEN conjunct2, THEN conjunct2, THEN conjunct2]
  have a1: "mem (unix_with (Some (Running None))\<lparr>errno := ETIMEDOUT\<rparr>) = mem (unix_with (Some (Running None)))"
    using au by simp
  have a2: "wmem (win_with (WRunning None)\<lparr>last_error := WSAETIMEDOUT\<rparr>) = wmem (win_with (WRunning None))"
    using aw by simp
  have b1: "mem (unix_with None\<lparr>mem := (mem (unix_with None))(16 \<mapsto> 3)\<rparr>) 24 =
       mem (unix_with (Some (Zombie (Exited 3)))) 24"
    using bu by simp
  have b3: "wmem (win_with (WExited Normal_exit 3)
       \<lparr>handles := (handles (win_with (WExited Normal_exit 3)))(100 := None),
        wmem := (wmem (win_with (WExited Normal_exit 3)))(16 \<mapsto> 3)\<rparr>) 24 =
       wmem (win_with (WExited Normal_exit 3)) 24"
    using bw by simp
  show ?thesis
    by (intro conjI ps_wait_unix_demo_running ps_wait_unix_demo_exited ps_wait_win_demo_running
        a1 a2 b1 b3 c1 c2)
qed

section \<open>ps_wait: the cases of a wait\<close>

lemma ps_wait_unix_no_child:
  "children k (id_t p) = None \<Longrightarrow> ps_wait_unix k p block ec = Returns (- 1, k\<lparr>errno := ECHILD\<rparr>)"
  by (simp add: ps_wait_unix_def Let_def waitid_def wait_options)

lemma ps_wait_unix_running_nohang:
  "children k (id_t p) = Some (Running fate) \<Longrightarrow>
   ps_wait_unix k p 0 ec = Returns (- 1, k\<lparr>errno := ETIMEDOUT\<rparr>)"
  by (simp add: ps_wait_unix_def Let_def waitid_def wait_options siginfo_zero_def)

lemma ps_wait_unix_running_forever:
  "children k (id_t p) = Some (Running None) \<Longrightarrow> block \<noteq> 0 \<Longrightarrow> ps_wait_unix k p block ec = Blocks"
  by (simp add: ps_wait_unix_def Let_def waitid_def wait_options)

text \<open>What a wait reports for an ending, and the state it leaves.\<close>

lemma ps_wait_unix_ended:
  assumes "children k (id_t p) = Some (Zombie e) \<or> children k (id_t p) = Some (Running (Some e)) \<and> block \<noteq> 0"
    and "id_t p \<noteq> 0"
  shows "ps_wait_unix k p block ec =
     (if ec = NULL then Returns (0, k\<lparr>children := (children k)(id_t p := None)\<rparr>)
      else if mem k ec = None then Faults
      else Returns (0, k\<lparr>children := (children k)(id_t p := None),
                          mem := (mem k)(ec \<mapsto> (case e of Exited c \<Rightarrow> uint c | Killed_by n \<Rightarrow> - int n))\<rparr>))"
  using assms
  by (cases e)
    (auto simp: ps_wait_unix_def Let_def waitid_def wait_options siginfo_of_def store_int_def
      CLD_EXITED_def CLD_KILLED_def)

lemma ps_wait_unix_success_reaps:
  assumes "ps_wait_unix k p block ec = Returns (0, k')"
  shows "children k' (id_t p) = None"
proof (cases "waitid k P_PID (id_t p) siginfo_zero (WEXITED OR (if block = 0 then WNOHANG else 0))")
  case None
  with assms show ?thesis by (simp add: ps_wait_unix_def Let_def)
next
  case (Some t)
  obtain r0 s0 k0 where t: "t = (r0, s0, k0)" by (cases t)
  from assms Some t have r0: "r0 = 0" and pid: "si_pid s0 \<noteq> 0" and c: "children k' = children k0"
    by (auto simp: ps_wait_unix_def Let_def store_int_def split: if_splits)
  from Some t r0 pid have "children k0 (id_t p) = None"
    by (auto simp: waitid_def siginfo_zero_def split: if_splits option.splits child.splits)
  with c show ?thesis by simp
qed

lemma process_of_closed: "handles w h = None \<Longrightarrow> process_of w h = None"
  by (simp add: process_of_def)

lemma ps_wait_win_closed:
  "handles w h = None \<Longrightarrow> ps_wait_win w h block ec = Returns (- 1, w\<lparr>last_error := ERROR_INVALID_HANDLE\<rparr>)"
  by (simp add: ps_wait_win_def WaitForSingleObject_def process_of_closed WAIT_FAILED_def
      WAIT_OBJECT_0_def WAIT_TIMEOUT_def SetLastError_def)

lemma ps_wait_win_running_nohang:
  "process_of w h = Some (i, pr) \<Longrightarrow> pstate pr = WRunning fate \<Longrightarrow>
   ps_wait_win w h 0 ec = Returns (258, w\<lparr>last_error := WSAETIMEDOUT\<rparr>)"
  by (simp add: ps_wait_win_def WaitForSingleObject_def INFINITE_def WAIT_OBJECT_0_def
      WAIT_TIMEOUT_def SetLastError_def)

lemma ps_wait_win_ended:
  assumes "process_of w h = Some (i, pr)" and "pstate pr = WExited cause code"
  shows "ps_wait_win w h block ec =
     (if ec = NULL then Returns (0, w\<lparr>handles := (handles w)(h := None)\<rparr>)
      else if wmem w ec = None then Faults
      else Returns (0, w\<lparr>wmem := (wmem w)(ec \<mapsto> sint code), handles := (handles w)(h := None)\<rparr>))"
proof -
  from assms(1) have "handles w h \<noteq> None"
    by (auto simp: process_of_def split: option.splits)
  with assms show ?thesis
    by (auto simp: ps_wait_win_def WaitForSingleObject_def WAIT_OBJECT_0_def GetExitCodeProcess_def
        store_int_def CloseHandle_def process_of_def)
qed

lemma ps_wait_win_success_closes:
  assumes "ps_wait_win w h block ec = Returns (0, w')"
  shows "handles w' h = None"
proof (cases "WaitForSingleObject w h (if block \<noteq> 0 then - 1 else 0)")
  case None
  with assms show ?thesis by (simp add: ps_wait_win_def Let_def)
next
  case (Some t)
  obtain r0 w0 where t: "t = (r0, w0)" by (cases t)
  from assms Some t obtain w1 where "w' = snd (CloseHandle w1 h)"
    by (auto simp: ps_wait_win_def Let_def WAIT_OBJECT_0_def WAIT_TIMEOUT_def
        split: if_splits option.splits)
  then show ?thesis
    by (simp add: CloseHandle_def SetLastError_def split: option.splits)
qed

text \<open>
  Claim C3. A non-blocking \<^verbatim>\<open>ps_wait(p, 0, ...)\<close> on a child that still runs returns a
  nonzero value and leaves the timed-out error for \<^verbatim>\<open>err_last\<close> (\<open>ETIMEDOUT\<close> on UNIX,
  \<open>WSAETIMEDOUT\<close> on Windows), the child and the caller's memory untouched. Once the child has
  ended, the same call returns 0 (given \<^verbatim>\<open>exit_code\<close> is \<open>NULL\<close> or points to an int) and
  consumes the handle; after any wait that returned 0, a further non-blocking wait on that
  handle returns a nonzero value.
\<close>

theorem ps_wait_nonblocking:
  "(0 < p \<and> p < 2 ^ 31 \<and> children k p = Some (Running fate) \<longrightarrow>
      (\<exists>k'. ps_wait_unix k p 0 ec = Returns (- 1, k') \<and> err_last_unix k' = ETIMEDOUT
         \<and> children k' = children k \<and> mem k' = mem k))
   \<and> (0 < p \<and> p < 2 ^ 31 \<and> children k p = Some (Zombie e) \<and> (ec = NULL \<or> mem k ec \<noteq> None) \<longrightarrow>
      (\<exists>k'. ps_wait_unix k p 0 ec = Returns (0, k') \<and> children k' p = None))
   \<and> (ps_wait_unix k p block ec = Returns (0, k1) \<longrightarrow>
      (\<exists>k'. ps_wait_unix k1 p 0 ec = Returns (- 1, k') \<and> err_last_unix k' = ECHILD))
   \<and> (process_of w h = Some (i, pr) \<and> pstate pr = WRunning wfate \<longrightarrow>
      (\<exists>w'. ps_wait_win w h 0 ec = Returns (258, w') \<and> err_last_win w' = WSAETIMEDOUT
         \<and> handles w' = handles w \<and> procs w' = procs w \<and> wmem w' = wmem w))
   \<and> (process_of w h = Some (i, pr) \<and> pstate pr = WExited cause code \<and> (ec = NULL \<or> wmem w ec \<noteq> None) \<longrightarrow>
      (\<exists>w'. ps_wait_win w h 0 ec = Returns (0, w') \<and> handles w' h = None))
   \<and> (ps_wait_win w h block ec = Returns (0, w1) \<longrightarrow>
      (\<exists>w'. ps_wait_win w1 h 0 ec = Returns (- 1, w') \<and> err_last_win w' = ERROR_INVALID_HANDLE))"
proof (intro conjI impI)
  assume a: "0 < p \<and> p < 2 ^ 31 \<and> children k p = Some (Running fate)"
  then have "id_t p = p" by (simp add: id_t_id)
  with a have "ps_wait_unix k p 0 ec = Returns (- 1, k\<lparr>errno := ETIMEDOUT\<rparr>)"
    by (simp add: ps_wait_unix_running_nohang)
  then show "\<exists>k'. ps_wait_unix k p 0 ec = Returns (- 1, k') \<and> err_last_unix k' = ETIMEDOUT
         \<and> children k' = children k \<and> mem k' = mem k"
    by (simp add: err_last_unix_def)
next
  assume a: "0 < p \<and> p < 2 ^ 31 \<and> children k p = Some (Zombie e) \<and> (ec = NULL \<or> mem k ec \<noteq> None)"
  then have i: "id_t p = p" "id_t p \<noteq> 0" by (simp_all add: id_t_id)
  with a have z: "children k (id_t p) = Some (Zombie e) \<or> children k (id_t p) = Some (Running (Some e)) \<and> (0::int) \<noteq> 0"
    by simp
  from a i show "\<exists>k'. ps_wait_unix k p 0 ec = Returns (0, k') \<and> children k' p = None"
    by (auto simp: ps_wait_unix_ended [OF z i(2)])
next
  assume "ps_wait_unix k p block ec = Returns (0, k1)"
  then have "children k1 (id_t p) = None" by (rule ps_wait_unix_success_reaps)
  then have "ps_wait_unix k1 p 0 ec = Returns (- 1, k1\<lparr>errno := ECHILD\<rparr>)"
    by (rule ps_wait_unix_no_child)
  then show "\<exists>k'. ps_wait_unix k1 p 0 ec = Returns (- 1, k') \<and> err_last_unix k' = ECHILD"
    by (simp add: err_last_unix_def)
next
  assume "process_of w h = Some (i, pr) \<and> pstate pr = WRunning wfate"
  then have "ps_wait_win w h 0 ec = Returns (258, w\<lparr>last_error := WSAETIMEDOUT\<rparr>)"
    by (simp add: ps_wait_win_running_nohang)
  then show "\<exists>w'. ps_wait_win w h 0 ec = Returns (258, w') \<and> err_last_win w' = WSAETIMEDOUT
         \<and> handles w' = handles w \<and> procs w' = procs w \<and> wmem w' = wmem w"
    by (simp add: err_last_win_def GetLastError_def)
next
  assume a: "process_of w h = Some (i, pr) \<and> pstate pr = WExited cause code \<and> (ec = NULL \<or> wmem w ec \<noteq> None)"
  then have p: "process_of w h = Some (i, pr)" and s: "pstate pr = WExited cause code" by simp_all
  from a show "\<exists>w'. ps_wait_win w h 0 ec = Returns (0, w') \<and> handles w' h = None"
    by (auto simp: ps_wait_win_ended [OF p s])
next
  assume "ps_wait_win w h block ec = Returns (0, w1)"
  then have "handles w1 h = None" by (rule ps_wait_win_success_closes)
  then have "ps_wait_win w1 h 0 ec = Returns (- 1, w1\<lparr>last_error := ERROR_INVALID_HANDLE\<rparr>)"
    by (rule ps_wait_win_closed)
  then show "\<exists>w'. ps_wait_win w1 h 0 ec = Returns (- 1, w') \<and> err_last_win w' = ERROR_INVALID_HANDLE"
    by (simp add: err_last_win_def GetLastError_def)
qed

theorem ps_wait_nonblocking_witness:
  "(\<exists>k'. ps_wait_unix (unix_with (Some (Running None))) 1234 0 16 = Returns (- 1, k')
      \<and> err_last_unix k' = ETIMEDOUT
      \<and> children k' = children (unix_with (Some (Running None)))
      \<and> mem k' = mem (unix_with (Some (Running None))))
   \<and> (\<exists>k'. ps_wait_unix (unix_with (Some (Zombie (Exited 3)))) 1234 0 16 = Returns (0, k')
      \<and> children k' 1234 = None)
   \<and> (\<exists>k'. ps_wait_unix (unix_with None\<lparr>mem := (mem (unix_with None))(16 \<mapsto> 3)\<rparr>) 1234 0 16 =
        Returns (- 1, k') \<and> err_last_unix k' = ECHILD)
   \<and> (\<exists>w'. ps_wait_win (win_with (WRunning None)) 100 0 16 = Returns (258, w')
      \<and> err_last_win w' = WSAETIMEDOUT
      \<and> handles w' = handles (win_with (WRunning None))
      \<and> procs w' = procs (win_with (WRunning None))
      \<and> wmem w' = wmem (win_with (WRunning None)))
   \<and> (\<exists>w'. ps_wait_win (win_with (WExited Normal_exit 3)) 100 0 16 = Returns (0, w')
      \<and> handles w' 100 = None)
   \<and> (\<exists>w'. ps_wait_win (win_with (WExited Normal_exit 3)
          \<lparr>handles := (handles (win_with (WExited Normal_exit 3)))(100 := None),
           wmem := (wmem (win_with (WExited Normal_exit 3)))(16 \<mapsto> 3)\<rparr>) 100 0 16 =
        Returns (- 1, w') \<and> err_last_win w' = ERROR_INVALID_HANDLE)"
proof -
  have h1: "0 < (1234::int) \<and> (1234::int) < 2 ^ 31
      \<and> children (unix_with (Some (Running None))) 1234 = Some (Running None)"
    by (simp add: unix_with_def)
  have h2: "0 < (1234::int) \<and> (1234::int) < 2 ^ 31
      \<and> children (unix_with (Some (Zombie (Exited 3)))) 1234 = Some (Zombie (Exited 3))
      \<and> ((16::nat) = NULL \<or> mem (unix_with (Some (Zombie (Exited 3)))) 16 \<noteq> None)"
    by (simp add: unix_with_def)
  have h4: "process_of (win_with (WRunning None)) 100 =
        Some (0, \<lparr>cmdline = ascii_utf16 ''std-echo'', pstate = WRunning None\<rparr>)
      \<and> pstate \<lparr>cmdline = ascii_utf16 ''std-echo'', pstate = WRunning None\<rparr> = WRunning None"
    by (simp add: win_with_def process_of_def)
  have h5: "process_of (win_with (WExited Normal_exit 3)) 100 =
        Some (0, \<lparr>cmdline = ascii_utf16 ''std-echo'', pstate = WExited Normal_exit 3\<rparr>)
      \<and> pstate \<lparr>cmdline = ascii_utf16 ''std-echo'', pstate = WExited Normal_exit 3\<rparr> = WExited Normal_exit 3
      \<and> ((16::nat) = NULL \<or> wmem (win_with (WExited Normal_exit 3)) 16 \<noteq> None)"
    by (simp add: win_with_def process_of_def)
  note c1 = ps_wait_nonblocking [THEN conjunct1, THEN mp, OF h1]
  note c2 = ps_wait_nonblocking [THEN conjunct2, THEN conjunct1, THEN mp, OF h2]
  note c3 = ps_wait_nonblocking [THEN conjunct2, THEN conjunct2, THEN conjunct1, THEN mp,
      OF ps_wait_unix_demo_exited]
  note c4 = ps_wait_nonblocking [THEN conjunct2, THEN conjunct2, THEN conjunct2, THEN conjunct1,
      THEN mp, OF h4]
  note c5 = ps_wait_nonblocking [THEN conjunct2, THEN conjunct2, THEN conjunct2, THEN conjunct2,
      THEN conjunct1, THEN mp, OF h5]
  note c6 = ps_wait_nonblocking [THEN conjunct2, THEN conjunct2, THEN conjunct2, THEN conjunct2,
      THEN conjunct2, THEN mp, OF ps_wait_win_demo_exited]
  show ?thesis
    by (intro conjI c1 c2 c3 c4 c5 c6)
qed

section \<open>ps_wait and ps_kill: the exit status reported\<close>

lemma ps_kill_unix_running:
  "0 < p \<Longrightarrow> children k p = Some (Running fate) \<Longrightarrow>
   ps_kill_unix k p = (0, k\<lparr>children := (children k)(p \<mapsto> Zombie (Killed_by 9))\<rparr>)"
  by (simp add: ps_kill_unix_def sys_kill_def SIGKILL_def)

lemma ps_kill_win_running:
  "process_of w h = Some (i, pr) \<Longrightarrow> pstate pr = WRunning fate \<Longrightarrow>
   ps_kill_win w h = (0, w\<lparr>procs := (procs w)(i \<mapsto> pr\<lparr>pstate := WExited Terminated (- 9)\<rparr>)\<rparr>)"
  by (simp add: ps_kill_win_def TerminateProcess_def)

lemma process_of_procs_update:
  "process_of w h = Some (i, pr) \<Longrightarrow>
   process_of (w\<lparr>procs := (procs w)(i \<mapsto> pr')\<rparr>) h = Some (i, pr')"
  by (auto simp: process_of_def split: option.splits whandle.splits)

lemma ps_wait_win_running_block:
  assumes "process_of w h = Some (i, pr)" and "pstate pr = WRunning (Some code)" and "block \<noteq> 0"
    and "ec \<noteq> NULL" and "wmem w ec \<noteq> None"
  shows "\<exists>w'. ps_wait_win w h block ec = Returns (0, w') \<and> wmem w' ec = Some (sint code)"
proof -
  let ?w1 = "w\<lparr>procs := (procs w)(i \<mapsto> pr\<lparr>pstate := WExited Normal_exit code\<rparr>)\<rparr>"
  from assms have 1: "WaitForSingleObject w h (- 1) = Some (0, ?w1)"
    by (simp add: WaitForSingleObject_def INFINITE_def)
  from assms(1) have 2: "process_of ?w1 h = Some (i, pr\<lparr>pstate := WExited Normal_exit code\<rparr>)"
    by (rule process_of_procs_update)
  from assms 2 have 3: "GetExitCodeProcess ?w1 h ec =
      Some (True, ?w1\<lparr>wmem := (wmem w)(ec \<mapsto> sint code)\<rparr>)"
    by (simp add: GetExitCodeProcess_def store_int_def)
  from assms 1 3 show ?thesis
    by (simp add: ps_wait_win_def WAIT_OBJECT_0_def CloseHandle_wmem)
qed

text \<open>
  Claim C4, as amended. On the UNIX branch a successful \<^verbatim>\<open>ps_wait\<close> reports a normal exit as
  the exit status, a value in \<open>[0, 255]\<close>, and an end by signal \<open>n\<close> as \<open>- n\<close>, a value in
  \<open>[-64, -1]\<close>; \<^verbatim>\<open>ps_kill\<close> followed by a blocking \<^verbatim>\<open>ps_wait\<close> reports \<open>-9\<close>. On the
  Windows branch \<^verbatim>\<open>ps_wait\<close> reports the 32-bit exit code of the process read as a signed
  int, whatever ended the process; \<^verbatim>\<open>ps_kill\<close> followed by a blocking \<^verbatim>\<open>ps_wait\<close> reports
  \<open>-9\<close> there too.
\<close>

theorem ps_wait_exit_status:
  "(0 < p \<and> p < 2 ^ 31 \<and> ec \<noteq> NULL \<and> mem k ec \<noteq> None \<and> valid_ending e
      \<and> (children k p = Some (Zombie e) \<or> children k p = Some (Running (Some e)) \<and> block \<noteq> 0) \<longrightarrow>
      (\<exists>v k'. ps_wait_unix k p block ec = Returns (0, k') \<and> mem k' ec = Some v
         \<and> (case e of Exited c \<Rightarrow> v = uint c \<and> 0 \<le> v \<and> v \<le> 255
             | Killed_by n \<Rightarrow> v = - int n \<and> - 64 \<le> v \<and> v < 0)))
   \<and> (0 < p \<and> p < 2 ^ 31 \<and> ec \<noteq> NULL \<and> mem k ec \<noteq> None \<and> children k p = Some (Running fate) \<longrightarrow>
      (\<exists>k1 k2. ps_kill_unix k p = (0, k1) \<and> ps_wait_unix k1 p 1 ec = Returns (0, k2)
         \<and> mem k2 ec = Some (- 9)))
   \<and> (ec \<noteq> NULL \<and> wmem w ec \<noteq> None \<and> process_of w h = Some (i, pr)
      \<and> (pstate pr = WExited cause code \<or> pstate pr = WRunning (Some code) \<and> block \<noteq> 0) \<longrightarrow>
      (\<exists>w'. ps_wait_win w h block ec = Returns (0, w') \<and> wmem w' ec = Some (sint code)))
   \<and> (ec \<noteq> NULL \<and> wmem w ec \<noteq> None \<and> process_of w h = Some (i, pr)
      \<and> pstate pr = WRunning wfate \<longrightarrow>
      (\<exists>w1 w2. ps_kill_win w h = (0, w1) \<and> ps_wait_win w1 h 1 ec = Returns (0, w2)
         \<and> wmem w2 ec = Some (- 9)))"
proof (intro conjI impI)
  assume a: "0 < p \<and> p < 2 ^ 31 \<and> ec \<noteq> NULL \<and> mem k ec \<noteq> None \<and> valid_ending e
      \<and> (children k p = Some (Zombie e) \<or> children k p = Some (Running (Some e)) \<and> block \<noteq> 0)"
  then have i: "id_t p = p" "id_t p \<noteq> 0" by (simp_all add: id_t_id)
  with a have z: "children k (id_t p) = Some (Zombie e)
      \<or> children k (id_t p) = Some (Running (Some e)) \<and> block \<noteq> 0"
    by simp
  have b: "uint c \<le> 255" for c :: "8 word"
    using uint_bounded [of c] by simp
  from a show "\<exists>v k'. ps_wait_unix k p block ec = Returns (0, k') \<and> mem k' ec = Some v
         \<and> (case e of Exited c \<Rightarrow> v = uint c \<and> 0 \<le> v \<and> v \<le> 255
             | Killed_by n \<Rightarrow> v = - int n \<and> - 64 \<le> v \<and> v < 0)"
    by (cases e) (auto simp: ps_wait_unix_ended [OF z i(2)] valid_ending_def b)
next
  assume a: "0 < p \<and> p < 2 ^ 31 \<and> ec \<noteq> NULL \<and> mem k ec \<noteq> None \<and> children k p = Some (Running fate)"
  let ?k1 = "k\<lparr>children := (children k)(p \<mapsto> Zombie (Killed_by 9))\<rparr>"
  from a have i: "id_t p = p" "id_t p \<noteq> 0" by (simp_all add: id_t_id)
  from a have 1: "ps_kill_unix k p = (0, ?k1)" by (simp add: ps_kill_unix_running)
  from i have z: "children ?k1 (id_t p) = Some (Zombie (Killed_by 9))
      \<or> children ?k1 (id_t p) = Some (Running (Some (Killed_by 9))) \<and> (1::int) \<noteq> 0"
    by simp
  from a 1 show "\<exists>k1 k2. ps_kill_unix k p = (0, k1) \<and> ps_wait_unix k1 p 1 ec = Returns (0, k2)
         \<and> mem k2 ec = Some (- 9)"
    by (simp add: ps_wait_unix_ended [OF z i(2)])
next
  assume a: "ec \<noteq> NULL \<and> wmem w ec \<noteq> None \<and> process_of w h = Some (i, pr)
      \<and> (pstate pr = WExited cause code \<or> pstate pr = WRunning (Some code) \<and> block \<noteq> 0)"
  then have p: "process_of w h = Some (i, pr)" by simp
  from a consider "pstate pr = WExited cause code" | "pstate pr = WRunning (Some code)" "block \<noteq> 0"
    by blast
  then show "\<exists>w'. ps_wait_win w h block ec = Returns (0, w') \<and> wmem w' ec = Some (sint code)"
  proof cases
    case 1
    from a show ?thesis by (simp add: ps_wait_win_ended [OF p 1])
  next
    case 2
    from a show ?thesis by (simp add: ps_wait_win_running_block [OF p 2])
  qed
next
  assume a: "ec \<noteq> NULL \<and> wmem w ec \<noteq> None \<and> process_of w h = Some (i, pr)
      \<and> pstate pr = WRunning wfate"
  let ?pr = "pr\<lparr>pstate := WExited Terminated (- 9)\<rparr>"
  let ?w1 = "w\<lparr>procs := (procs w)(i \<mapsto> ?pr)\<rparr>"
  from a have 1: "ps_kill_win w h = (0, ?w1)" by (simp add: ps_kill_win_running)
  from a have 2: "process_of ?w1 h = Some (i, ?pr)" by (simp add: process_of_procs_update)
  have 3: "pstate ?pr = WExited Terminated (- 9)" by simp
  from a 1 show "\<exists>w1 w2. ps_kill_win w h = (0, w1) \<and> ps_wait_win w1 h 1 ec = Returns (0, w2)
         \<and> wmem w2 ec = Some (- 9)"
    by (simp add: ps_wait_win_ended [OF 2 3])
qed

theorem ps_wait_exit_status_witness:
  "(\<exists>v k'. ps_wait_unix (unix_with (Some (Zombie (Exited 3)))) 1234 0 16 = Returns (0, k')
      \<and> mem k' 16 = Some v \<and> v = 3)
   \<and> (\<exists>v k'. ps_wait_unix (unix_with (Some (Running (Some (Killed_by 11))))) 1234 1 16 = Returns (0, k')
      \<and> mem k' 16 = Some v \<and> v = - 11)
   \<and> (\<exists>k1 k2. ps_kill_unix (unix_with (Some (Running None))) 1234 = (0, k1)
      \<and> ps_wait_unix k1 1234 1 16 = Returns (0, k2) \<and> mem k2 16 = Some (- 9))
   \<and> (\<exists>w'. ps_wait_win (win_with (WExited Normal_exit 3)) 100 0 16 = Returns (0, w')
      \<and> wmem w' 16 = Some 3)
   \<and> (\<exists>w1 w2. ps_kill_win (win_with (WRunning None)) 100 = (0, w1)
      \<and> ps_wait_win w1 100 1 16 = Returns (0, w2) \<and> wmem w2 16 = Some (- 9))"
proof -
  have h1: "0 < (1234::int) \<and> (1234::int) < 2 ^ 31 \<and> (16::nat) \<noteq> NULL
      \<and> mem (unix_with (Some (Zombie (Exited 3)))) 16 \<noteq> None \<and> valid_ending (Exited 3)
      \<and> (children (unix_with (Some (Zombie (Exited 3)))) 1234 = Some (Zombie (Exited 3))
         \<or> children (unix_with (Some (Zombie (Exited 3)))) 1234 = Some (Running (Some (Exited 3)))
           \<and> (0::int) \<noteq> 0)"
    by (simp add: unix_with_def NULL_def valid_ending_def)
  have h1': "0 < (1234::int) \<and> (1234::int) < 2 ^ 31 \<and> (16::nat) \<noteq> NULL
      \<and> mem (unix_with (Some (Running (Some (Killed_by 11))))) 16 \<noteq> None \<and> valid_ending (Killed_by 11)
      \<and> (children (unix_with (Some (Running (Some (Killed_by 11))))) 1234 = Some (Zombie (Killed_by 11))
         \<or> children (unix_with (Some (Running (Some (Killed_by 11))))) 1234
              = Some (Running (Some (Killed_by 11)))
           \<and> (1::int) \<noteq> 0)"
    by (simp add: unix_with_def NULL_def valid_ending_def)
  have h2: "0 < (1234::int) \<and> (1234::int) < 2 ^ 31 \<and> (16::nat) \<noteq> NULL
      \<and> mem (unix_with (Some (Running None))) 16 \<noteq> None
      \<and> children (unix_with (Some (Running None))) 1234 = Some (Running None)"
    by (simp add: unix_with_def NULL_def)
  have h3: "(16::nat) \<noteq> NULL \<and> wmem (win_with (WExited Normal_exit 3)) 16 \<noteq> None
      \<and> process_of (win_with (WExited Normal_exit 3)) 100 =
          Some (0, \<lparr>cmdline = ascii_utf16 ''std-echo'', pstate = WExited Normal_exit 3\<rparr>)
      \<and> (pstate \<lparr>cmdline = ascii_utf16 ''std-echo'', pstate = WExited Normal_exit 3\<rparr> = WExited Normal_exit 3
         \<or> pstate \<lparr>cmdline = ascii_utf16 ''std-echo'', pstate = WExited Normal_exit 3\<rparr> = WRunning (Some 3)
           \<and> (0::int) \<noteq> 0)"
    by (simp add: win_with_def process_of_def NULL_def)
  have h4: "(16::nat) \<noteq> NULL \<and> wmem (win_with (WRunning None)) 16 \<noteq> None
      \<and> process_of (win_with (WRunning None)) 100 =
          Some (0, \<lparr>cmdline = ascii_utf16 ''std-echo'', pstate = WRunning None\<rparr>)
      \<and> pstate \<lparr>cmdline = ascii_utf16 ''std-echo'', pstate = WRunning None\<rparr> = WRunning None"
    by (simp add: win_with_def process_of_def NULL_def)
  note c1 = ps_wait_exit_status [THEN conjunct1, THEN mp, OF h1]
  note c1' = ps_wait_exit_status [THEN conjunct1, THEN mp, OF h1']
  note c2 = ps_wait_exit_status [THEN conjunct2, THEN conjunct1, THEN mp, OF h2]
  note c3 = ps_wait_exit_status [THEN conjunct2, THEN conjunct2, THEN conjunct1, THEN mp, OF h3]
  note c4 = ps_wait_exit_status [THEN conjunct2, THEN conjunct2, THEN conjunct2, THEN mp, OF h4]
  have d1: "\<exists>v k'. ps_wait_unix (unix_with (Some (Zombie (Exited 3)))) 1234 0 16 = Returns (0, k')
      \<and> mem k' 16 = Some v \<and> v = 3"
    using c1 by auto
  have d1': "\<exists>v k'. ps_wait_unix (unix_with (Some (Running (Some (Killed_by 11))))) 1234 1 16 = Returns (0, k')
      \<and> mem k' 16 = Some v \<and> v = - 11"
    using c1' by auto
  have d3: "\<exists>w'. ps_wait_win (win_with (WExited Normal_exit 3)) 100 0 16 = Returns (0, w')
      \<and> wmem w' 16 = Some 3"
    using c3 by simp
  show ?thesis
    by (intro conjI d1 d1' c2 d3 c4)
qed

text \<open>
  Claim C4 as stated fails on the Windows branch: a child that ends by itself with exit code
  1000 is reported as 1000, outside \<open>[0, 255]\<close>; and a child that ends by itself with exit
  code \<open>0xFFFFFFF7\<close> is reported as \<open>-9\<close>, the very value reported after \<^verbatim>\<open>ps_kill\<close>.
\<close>

theorem ps_wait_win_exit_code_counterexample:
  "pstate \<lparr>cmdline = ascii_utf16 ''std-echo'', pstate = WExited Normal_exit 1000\<rparr> = WExited Normal_exit 1000
   \<and> process_of (win_with (WExited Normal_exit 1000)) 100 =
       Some (0, \<lparr>cmdline = ascii_utf16 ''std-echo'', pstate = WExited Normal_exit 1000\<rparr>)
   \<and> ps_wait_win (win_with (WExited Normal_exit 1000)) 100 1 16 =
       Returns (0, win_with (WExited Normal_exit 1000)
         \<lparr>handles := (handles (win_with (WExited Normal_exit 1000)))(100 := None),
          wmem := (wmem (win_with (WExited Normal_exit 1000)))(16 \<mapsto> 1000)\<rparr>)
   \<and> \<not> (1000 \<le> (255::int))
   \<and> ps_wait_win (win_with (WExited Normal_exit 0xFFFFFFF7)) 100 1 16 =
       Returns (0, win_with (WExited Normal_exit 0xFFFFFFF7)
         \<lparr>handles := (handles (win_with (WExited Normal_exit 0xFFFFFFF7)))(100 := None),
          wmem := (wmem (win_with (WExited Normal_exit 0xFFFFFFF7)))(16 \<mapsto> - 9)\<rparr>)
   \<and> ps_wait_win (snd (ps_kill_win (win_with (WRunning None)) 100)) 100 1 16 =
       Returns (0, win_with (WExited Terminated (- 9))
         \<lparr>handles := (handles (win_with (WExited Terminated (- 9))))(100 := None),
          wmem := (wmem (win_with (WExited Terminated (- 9))))(16 \<mapsto> - 9)\<rparr>)"
  by (simp add: ps_wait_win_def WaitForSingleObject_def process_of_def win_with_def INFINITE_def
      SetLastError_def WAIT_OBJECT_0_def WAIT_TIMEOUT_def GetExitCodeProcess_def store_int_def
      NULL_def CloseHandle_def ps_kill_win_def TerminateProcess_def fun_eq_iff)

section \<open>ps_exec: what spawn returns\<close>

lemma MultiByteToWideChar_written:
  assumes "MultiByteToWideChar k src buf pos cch = (r, buf', k')" and "r \<noteq> 0" and "0 < cch"
  shows "buf' = write_at buf pos (map Some (cp_utf8 k src @ [0])) \<and> k' = k
    \<and> r = int (length (cp_utf8 k src)) + 1 \<and> r \<le> cch"
  using assms by (auto simp: MultiByteToWideChar_def Let_def split: if_splits)

lemma wcs_terminated: "wcs (map Some xs @ Some 0 # rest) = Some (takeWhile (\<lambda>c. c \<noteq> 0) xs)"
  by (induction xs) simp_all

lemma wcs_write_at_0:
  "wcs (write_at buf 0 (map Some xs @ [Some 0])) = Some (takeWhile (\<lambda>c. c \<noteq> 0) xs)"
  by (simp add: write_at_def wcs_terminated)

lemma MultiByteToWideChar_fields:
  "MultiByteToWideChar (k::win_ps) src buf pos cch = (r, buf', k') \<Longrightarrow>
   wexes k' = wexes k \<and> cp_utf8 k' = cp_utf8 k \<and> handles k' = handles k \<and> procs k' = procs k
   \<and> next_handle k' = next_handle k \<and> next_proc k' = next_proc k \<and> wmem k' = wmem k"
  by (auto simp: MultiByteToWideChar_def Let_def SetLastError_def split: if_splits)

lemma args_loop_fields:
  "args_loop (k::win_ps) argv i n wargs = Returns (x, k') \<Longrightarrow>
   wexes k' = wexes k \<and> cp_utf8 k' = cp_utf8 k \<and> handles k' = handles k \<and> procs k' = procs k
   \<and> next_handle k' = next_handle k \<and> next_proc k' = next_proc k \<and> wmem k' = wmem k"
proof (induction argv arbitrary: k i n wargs)
  case Nil
  then show ?case by simp
next
  case (Cons a argv)
  let ?wargs1 = "if i \<noteq> 0 then wargs[n := Some 0x20] else wargs"
  let ?n1 = "if i \<noteq> 0 then n + 1 else n"
  obtain r wargs2 k2 where m: "MultiByteToWideChar k a ?wargs1 ?n1 (1000 - int ?n1) = (r, wargs2, k2)"
    by (cases "MultiByteToWideChar k a ?wargs1 ?n1 (1000 - int ?n1)") auto
  note f = MultiByteToWideChar_fields [OF m]
  from Cons.prems m have nf: "\<not> (i \<noteq> 0 \<and> length wargs \<le> n)"
    by (auto split: if_splits)
  show ?case
  proof (cases "r = 0")
    case True
    with Cons.prems m nf have "k' = k2" by (auto simp: Let_def split: if_splits)
    with f show ?thesis by simp
  next
    case False
    with Cons.prems m nf have "args_loop k2 argv (i + 1) (?n1 + nat (r - 1)) wargs2 = Returns (x, k')"
      by (auto simp: Let_def split: if_splits)
    from Cons.IH [OF this] f show ?thesis by simp
  qed
qed

lemma ps_exec_win_Returns:
  assumes "ps_exec_win w f argv = Returns (h, w')"
  shows "h = INVALID_HANDLE_VALUE
    \<or> (\<exists>fate args. wexes w (takeWhile (\<lambda>c. c \<noteq> 0) (cp_utf8 w f)) = Some fate
          \<and> h = next_handle w
          \<and> process_of w' h = Some (next_proc w, \<lparr>cmdline = args, pstate = WRunning fate\<rparr>))"
proof -
  obtain r wfn k1 where m: "MultiByteToWideChar w f (replicate 1000 None) 0 1000 = (r, wfn, k1)"
    by (cases "MultiByteToWideChar w f (replicate 1000 None) 0 1000") auto
  show ?thesis
  proof (cases "r = 0")
    case True
    with assms m show ?thesis by (simp add: ps_exec_win_def)
  next
    case False
    from MultiByteToWideChar_written [OF m False]
    have wfn: "wcs wfn = Some (takeWhile (\<lambda>c. c \<noteq> 0) (cp_utf8 w f))" and k1: "k1 = w"
      by (simp_all add: wcs_write_at_0)
    show ?thesis
    proof (cases "args_loop w argv 0 0 (replicate 1000 None)")
      case (Returns t)
      obtain x k2 where t: "t = (x, k2)" by (cases t)
      note f = args_loop_fields [OF Returns [unfolded t]]
      show ?thesis
      proof (cases x)
        case None
        with assms m False k1 Returns t show ?thesis by (simp add: ps_exec_win_def)
      next
        case (Some wargs)
        show ?thesis
        proof (cases "CreateProcessW k2 wfn wargs")
          case None
          with assms m False k1 Returns t Some show ?thesis by (simp add: ps_exec_win_def)
        next
          case cp: (Some u)
          obtain ok hp ht k3 where u: "u = (ok, hp, ht, k3)" by (cases u)
          show ?thesis
          proof (cases ok)
            case False
            with assms m \<open>r \<noteq> 0\<close> k1 Returns t Some cp u show ?thesis by (simp add: ps_exec_win_def)
          next
            case True
            with assms m \<open>r \<noteq> 0\<close> k1 Returns t Some cp u
            have h: "h = hp" and w': "w' = snd (CloseHandle k3 ht)"
              by (simp_all add: ps_exec_win_def)
            from cp u True wfn f obtain fate args where
              e: "wexes w (takeWhile (\<lambda>c. c \<noteq> 0) (cp_utf8 w f)) = Some fate"
              and hp: "hp = next_handle w" and ht: "ht = next_handle w + 1"
              and k3: "k3 = k2\<lparr>handles := (handles k2)(hp \<mapsto> To_process (next_proc w), ht \<mapsto> To_thread (next_proc w)),
                   procs := (procs k2)(next_proc w \<mapsto> \<lparr>cmdline = args, pstate = WRunning fate\<rparr>),
                   next_handle := next_handle k2 + 2,
                   next_proc := next_proc k2 + 1\<rparr>"
              by (auto simp: CreateProcessW_def Let_def split: option.splits)
            from hp ht k3 have "process_of (snd (CloseHandle k3 ht)) hp =
                Some (next_proc w, \<lparr>cmdline = args, pstate = WRunning fate\<rparr>)"
              by (simp add: CloseHandle_def process_of_def)
            with e h hp w' show ?thesis by blast
          qed
        qed
      qed
    next
      case Blocks
      with assms m False k1 show ?thesis by (simp add: ps_exec_win_def)
    next
      case Faults
      with assms m False k1 show ?thesis by (simp add: ps_exec_win_def)
    qed
  qed
qed

text \<open>
  Claim C2, as amended. \<^verbatim>\<open>ps_exec\<close> returns \<^verbatim>\<open>_PS_NULL\<close> or the handle of a child that was
  created. On the UNIX branch it returns \<^verbatim>\<open>_PS_NULL\<close> exactly when \<^verbatim>\<open>vfork\<close> creates no
  process; when a process is created the result is its pid, whether or not \<^verbatim>\<open>execve\<close>
  succeeds in it, and a child in which \<^verbatim>\<open>execve\<close> fails (the file is missing or cannot be
  executed) ends with exit status 255. On the Windows branch a file name that names no
  executable gives \<^verbatim>\<open>_PS_NULL\<close>, and every other value returned is a handle to a running
  process.
\<close>

theorem ps_exec_result:
  "(\<not> may_fork k \<longrightarrow> ps_exec_unix k f argv = (PS_NULL, k\<lparr>errno := EAGAIN\<rparr>))
   \<and> (may_fork k \<and> 0 < next_pid k \<longrightarrow>
        (\<exists>k'. ps_exec_unix k f argv = (next_pid k, k') \<and> next_pid k \<noteq> PS_NULL
           \<and> children k' (next_pid k) =
               Some (case exes k f of Some fate \<Rightarrow> Running fate | None \<Rightarrow> Zombie (Exited 255))))
   \<and> (wexes w (takeWhile (\<lambda>c. c \<noteq> 0) (cp_utf8 w f)) = None \<and> ps_exec_win w f argv = Returns (h, w') \<longrightarrow>
        h = INVALID_HANDLE_VALUE)
   \<and> (ps_exec_win w f argv = Returns (h, w') \<and> h \<noteq> INVALID_HANDLE_VALUE \<longrightarrow>
        (\<exists>i pr fate. process_of w' h = Some (i, pr) \<and> pstate pr = WRunning fate))"
proof (intro conjI impI)
  assume "\<not> may_fork k"
  then show "ps_exec_unix k f argv = (PS_NULL, k\<lparr>errno := EAGAIN\<rparr>)"
    by (simp add: ps_exec_unix_def vfork_def PS_NULL_def)
next
  assume "may_fork k \<and> 0 < next_pid k"
  then show "\<exists>k'. ps_exec_unix k f argv = (next_pid k, k') \<and> next_pid k \<noteq> PS_NULL
           \<and> children k' (next_pid k) =
               Some (case exes k f of Some fate \<Rightarrow> Running fate | None \<Rightarrow> Zombie (Exited 255))"
    by (auto simp: ps_exec_unix_def vfork_def PS_NULL_def execve_def split: option.splits)
next
  assume "wexes w (takeWhile (\<lambda>c. c \<noteq> 0) (cp_utf8 w f)) = None \<and> ps_exec_win w f argv = Returns (h, w')"
  with ps_exec_win_Returns [of w f argv h w'] show "h = INVALID_HANDLE_VALUE"
    by auto
next
  assume "ps_exec_win w f argv = Returns (h, w') \<and> h \<noteq> INVALID_HANDLE_VALUE"
  with ps_exec_win_Returns [of w f argv h w']
  show "\<exists>i pr fate. process_of w' h = Some (i, pr) \<and> pstate pr = WRunning fate"
    by fastforce
qed

section \<open>ps_exec on Windows: the command line\<close>

lemma write_at_length: "pos + length xs \<le> length buf \<Longrightarrow> length (write_at buf pos xs) = length buf"
  by (simp add: write_at_def)

lemma args_loop_rest:
  assumes "length pre + cells_needed (map (cp_utf8 k) argv) < 1000"
    and "length (map Some pre @ Some 0 # rest) = 1000" and "i \<noteq> 0"
  shows "\<exists>rest'. args_loop k argv i (length pre) (map Some pre @ Some 0 # rest) =
      Returns (Some (map Some (pre @ concat (map (\<lambda>a. 0x20 # cp_utf8 k a) argv)) @ Some 0 # rest'), k)"
  using assms
proof (induction argv arbitrary: pre rest i)
  case Nil
  then show ?case by simp
next
  case (Cons a argv)
  let ?wargs = "map Some pre @ Some 0 # rest"
  let ?wargs1 = "map Some pre @ Some 0x20 # rest"
  let ?n1 = "length pre + 1"
  let ?w = "cp_utf8 k a"
  let ?pre' = "pre @ 0x20 # ?w"
  let ?rest' = "drop (?n1 + (length ?w + 1)) ?wargs1"
  from Cons.prems have fit: "length pre + 1 + length ?w + cells_needed (map (cp_utf8 k) argv) < 1000"
    by (simp add: cells_needed_def)
  have u: "?wargs[length pre := Some 0x20] = ?wargs1"
    by (simp add: list_update_append)
  from fit have m: "MultiByteToWideChar k a ?wargs1 ?n1 (1000 - int ?n1) =
      (int (length ?w) + 1, write_at ?wargs1 ?n1 (map Some ?w @ [Some 0]), k)"
    by (simp add: MultiByteToWideChar_def Let_def)
  have wa: "write_at ?wargs1 ?n1 (map Some ?w @ [Some 0]) = map Some ?pre' @ Some 0 # ?rest'"
    by (simp add: write_at_def)
  from Cons.prems(2) fit have len: "length (map Some ?pre' @ Some 0 # ?rest') = 1000"
    by simp
  from fit have fit': "length ?pre' + cells_needed (map (cp_utf8 k) argv) < 1000"
    by simp
  from Cons.IH [OF fit' len, of "i + 1"] obtain rest' where
    ih: "args_loop k argv (i + 1) (length ?pre') (map Some ?pre' @ Some 0 # ?rest') =
      Returns (Some (map Some (?pre' @ concat (map (\<lambda>a. 0x20 # cp_utf8 k a) argv)) @ Some 0 # rest'), k)"
    by auto
  from Cons.prems have nf: "\<not> (i \<noteq> 0 \<and> length ?wargs \<le> length pre)"
    by simp
  have "args_loop k (a # argv) i (length pre) ?wargs =
      args_loop k argv (i + 1) (length ?pre') (map Some ?pre' @ Some 0 # ?rest')"
    using Cons.prems(3) nf u m wa by (simp del: list_update_append add: Let_def)
  with ih show ?case by auto
qed

lemma length_join_with_spaces:
  "length (join_with_spaces (v # rest)) = length v + cells_needed rest"
  by (induction rest arbitrary: v) (simp_all add: join_with_spaces_def cells_needed_def length_concat comp_def)

lemma args_loop_fits:
  assumes "length (join_with_spaces (map (cp_utf8 k) (a # argv))) < 1000"
  shows "\<exists>rest'. args_loop k (a # argv) 0 0 (replicate 1000 None) =
      Returns (Some (map Some (join_with_spaces (map (cp_utf8 k) (a # argv))) @ Some 0 # rest'), k)"
proof -
  let ?w = "cp_utf8 k a"
  let ?rest = "drop (length ?w + 1) (replicate 1000 None :: wbuf)"
  from assms have fit: "length ?w + cells_needed (map (cp_utf8 k) argv) < 1000"
    by (simp add: length_join_with_spaces)
  then have m: "MultiByteToWideChar k a (replicate 1000 None) 0 1000 =
      (int (length ?w) + 1, write_at (replicate 1000 None) 0 (map Some ?w @ [Some 0]), k)"
    by (simp add: MultiByteToWideChar_def Let_def)
  have wa: "write_at (replicate 1000 None) 0 (map Some ?w @ [Some 0]) = map Some ?w @ Some 0 # ?rest"
    by (simp add: write_at_def)
  from fit have len: "length (map Some ?w @ Some 0 # ?rest) = 1000"
    by simp
  from args_loop_rest [OF fit len, of 1] obtain rest' where
    r: "args_loop k argv 1 (length ?w) (map Some ?w @ Some 0 # ?rest) =
      Returns (Some (map Some (?w @ concat (map (\<lambda>a. 0x20 # cp_utf8 k a) argv)) @ Some 0 # rest'), k)"
    by auto
  have "args_loop k (a # argv) 0 0 (replicate 1000 None) =
      args_loop k argv 1 (length ?w) (map Some ?w @ Some 0 # ?rest)"
    using m wa by (simp add: Let_def)
  with r show ?thesis
    by (auto simp: join_with_spaces_def comp_def)
qed

lemma takeWhile_nonzero: "0 \<notin> set xs \<Longrightarrow> takeWhile (\<lambda>c. c \<noteq> 0) xs = xs"
  by (induction xs) auto

lemma join_with_spaces_nonzero:
  "\<forall>u\<in>set ws. (0::wchar) \<notin> set u \<Longrightarrow> 0 \<notin> set (join_with_spaces ws)"
  by (cases ws) (auto simp: join_with_spaces_def)

text \<open>
  When the file name and the joined arguments, each with its terminating zero, fit in their
  arrays of 1000 cells, \<^verbatim>\<open>ps_exec\<close> starts the program with exactly the arguments joined by
  single spaces as its command line.
\<close>

theorem ps_exec_win_command_line:
  assumes "length (cp_utf8 w f) < 1000"
    and "length (join_with_spaces (map (cp_utf8 w) (a # argv))) < 1000"
    and "\<forall>x\<in>set (a # argv). 0 \<notin> set (cp_utf8 w x)"
    and "wexes w (takeWhile (\<lambda>c. c \<noteq> 0) (cp_utf8 w f)) = Some fate"
  shows "\<exists>w'. ps_exec_win w f (a # argv) = Returns (next_handle w, w')
    \<and> process_of w' (next_handle w) =
        Some (next_proc w, \<lparr>cmdline = join_with_spaces (map (cp_utf8 w) (a # argv)), pstate = WRunning fate\<rparr>)"
proof -
  let ?wfn = "write_at (replicate 1000 None) 0 (map Some (cp_utf8 w f) @ [Some 0])"
  let ?j = "join_with_spaces (cp_utf8 w a # map (cp_utf8 w) argv)"
  from assms(1) have m: "MultiByteToWideChar w f (replicate 1000 None) 0 1000 =
      (int (length (cp_utf8 w f)) + 1, ?wfn, w)"
    by (simp add: MultiByteToWideChar_def Let_def)
  from args_loop_fits [OF assms(2)] obtain rest' where
    l: "args_loop w (a # argv) 0 0 (replicate 1000 None) = Returns (Some (map Some ?j @ Some 0 # rest'), w)"
    by auto
  from assms(3) have "0 \<notin> set ?j"
    by (intro join_with_spaces_nonzero) auto
  then have c: "wcs (map Some ?j @ Some 0 # rest') = Some ?j"
    by (simp add: wcs_terminated takeWhile_nonzero)
  have n: "wcs ?wfn = Some (takeWhile (\<lambda>c. c \<noteq> 0) (cp_utf8 w f))"
    by (rule wcs_write_at_0)
  from assms(4) c n have cp: "CreateProcessW w ?wfn (map Some ?j @ Some 0 # rest') =
      Some (True, next_handle w, next_handle w + 1,
        w\<lparr>handles := (handles w)(next_handle w \<mapsto> To_process (next_proc w),
                                 next_handle w + 1 \<mapsto> To_thread (next_proc w)),
          procs := (procs w)(next_proc w \<mapsto> \<lparr>cmdline = ?j, pstate = WRunning fate\<rparr>),
          next_handle := next_handle w + 2,
          next_proc := next_proc w + 1\<rparr>)"
    by (simp add: CreateProcessW_def Let_def)
  show ?thesis
    by (simp add: ps_exec_win_def m l cp CloseHandle_def process_of_def del: args_loop.simps)
qed

lemma wcs_unterminated: "0 \<notin> set xs \<Longrightarrow> wcs (map Some xs) = None"
  by (induction xs) auto

lemma args_loop_boundary:
  assumes "length (cp_utf8 k a0) = 999"
  shows "args_loop k [a0, a1] 0 0 (replicate 1000 None) =
      Returns (Some (map Some (cp_utf8 k a0) @ [Some 0x20]), k)"
proof -
  let ?w = "cp_utf8 k a0"
  from assms have m0: "MultiByteToWideChar k a0 (replicate 1000 None) 0 1000 =
      (1000, write_at (replicate 1000 None) 0 (map Some ?w @ [Some 0]), k)"
    by (simp add: MultiByteToWideChar_def Let_def)
  from assms have wa: "write_at (replicate 1000 None) 0 (map Some ?w @ [Some 0]) = map Some ?w @ [Some 0]"
    by (simp add: write_at_def)
  from assms have u: "(map Some ?w @ [Some 0])[999 := Some 0x20] = map Some ?w @ [Some 0x20]"
    by (simp add: list_update_append)
  have m1: "MultiByteToWideChar k a1 (map Some ?w @ [Some 0x20]) 1000 0 =
      (int (length (cp_utf8 k a1)) + 1, map Some ?w @ [Some 0x20], k)"
    by (simp add: MultiByteToWideChar_def Let_def)
  have s1: "args_loop k [a1] 1 999 (map Some ?w @ [Some 0]) =
      Returns (Some (map Some ?w @ [Some 0x20]), k)"
    using assms u m1 by (simp del: list_update_append add: Let_def)
  have "args_loop k [a0, a1] 0 0 (replicate 1000 None) = args_loop k [a1] 1 999 (map Some ?w @ [Some 0])"
    using m0 wa by (simp add: Let_def)
  with s1 show ?thesis by simp
qed

lemma ps_exec_win_not_found:
  assumes "length (cp_utf8 w f) < 1000"
    and "length (join_with_spaces (map (cp_utf8 w) (a # argv))) < 1000"
    and "\<forall>x\<in>set (a # argv). 0 \<notin> set (cp_utf8 w x)"
    and "wexes w (takeWhile (\<lambda>c. c \<noteq> 0) (cp_utf8 w f)) = None"
  shows "ps_exec_win w f (a # argv) = Returns (INVALID_HANDLE_VALUE, w\<lparr>last_error := ERROR_FILE_NOT_FOUND\<rparr>)"
proof -
  let ?wfn = "write_at (replicate 1000 None) 0 (map Some (cp_utf8 w f) @ [Some 0])"
  let ?j = "join_with_spaces (cp_utf8 w a # map (cp_utf8 w) argv)"
  from assms(1) have m: "MultiByteToWideChar w f (replicate 1000 None) 0 1000 =
      (int (length (cp_utf8 w f)) + 1, ?wfn, w)"
    by (simp add: MultiByteToWideChar_def Let_def)
  from args_loop_fits [OF assms(2)] obtain rest' where
    l: "args_loop w (a # argv) 0 0 (replicate 1000 None) = Returns (Some (map Some ?j @ Some 0 # rest'), w)"
    by auto
  from assms(3) have "0 \<notin> set ?j"
    by (intro join_with_spaces_nonzero) auto
  then have c: "wcs (map Some ?j @ Some 0 # rest') = Some ?j"
    by (simp add: wcs_terminated takeWhile_nonzero)
  have n: "wcs ?wfn = Some (takeWhile (\<lambda>c. c \<noteq> 0) (cp_utf8 w f))"
    by (rule wcs_write_at_0)
  from assms(4) c n have cp: "CreateProcessW w ?wfn (map Some ?j @ Some 0 # rest') =
      Some (False, 0, 0, w\<lparr>last_error := ERROR_FILE_NOT_FOUND\<rparr>)"
    by (simp add: CreateProcessW_def SetLastError_def)
  show ?thesis
    by (simp add: ps_exec_win_def m l cp del: args_loop.simps)
qed

lemma ps_exec_win_boundary:
  assumes "length (cp_utf8 w f) < 1000" and "length (cp_utf8 w a0) = 999" and "0 \<notin> set (cp_utf8 w a0)"
  shows "ps_exec_win w f [a0, a1] = Faults"
proof -
  let ?wfn = "write_at (replicate 1000 None) 0 (map Some (cp_utf8 w f) @ [Some 0])"
  from assms(1) have m: "MultiByteToWideChar w f (replicate 1000 None) 0 1000 =
      (int (length (cp_utf8 w f)) + 1, ?wfn, w)"
    by (simp add: MultiByteToWideChar_def Let_def)
  note l = args_loop_boundary [OF assms(2), of a1]
  from assms(3) have "wcs (map Some (cp_utf8 w a0 @ [0x20])) = None"
    by (intro wcs_unterminated) simp
  then have "CreateProcessW w ?wfn (map Some (cp_utf8 w a0) @ [Some 0x20]) = None"
    by (simp add: CreateProcessW_def split: option.splits)
  then show ?thesis
    by (simp add: ps_exec_win_def m l del: args_loop.simps)
qed

lemma ascii_utf16_a: "ascii_utf16 (replicate n CHR ''a'') = replicate n 0x61"
  by (simp add: ascii_utf16_def)

lemma cp_utf8_win_with: "cp_utf8 (win_with st) = ascii_utf16"
  by (simp add: win_with_def)

text \<open>
  Claim C8 at the boundary of the array. With a first argument of 999 characters and a
  second argument \<^verbatim>\<open>b\<close>, the loop overwrites the terminating zero in the last cell with
  the space, offers \<^verbatim>\<open>MultiByteToWideChar\<close> a destination of \<open>0\<close> cells (which only
  asks for the size needed, so nothing is written and the result is not \<open>0\<close>) and ends
  normally: the array holds the first argument and one space, with no terminating zero and
  without the second argument, and is passed to \<^verbatim>\<open>CreateProcessW\<close> as it is. The joined
  string the claim describes has 1001 characters and ends in \<^verbatim>\<open> b\<close>.
\<close>

theorem ps_exec_win_command_line_at_boundary:
  "args_loop (win_with (WRunning None)) [replicate 999 CHR ''a'', ''b''] 0 0 (replicate 1000 None) =
      Returns (Some (map Some (replicate 999 0x61) @ [Some 0x20]), win_with (WRunning None))
   \<and> wcs (map Some (replicate 999 0x61) @ [Some 0x20]) = None
   \<and> ps_exec_win (win_with (WRunning None)) ''std-echo.exe'' [replicate 999 CHR ''a'', ''b''] = Faults
   \<and> join_with_spaces (map (cp_utf8 (win_with (WRunning None))) [replicate 999 CHR ''a'', ''b'']) =
      replicate 999 0x61 @ [0x20, 0x62]"
proof -
  have len: "length (cp_utf8 (win_with (WRunning None)) (replicate 999 CHR ''a'')) = 999"
    by (simp add: cp_utf8_win_with ascii_utf16_a)
  have nz: "0 \<notin> set (cp_utf8 (win_with (WRunning None)) (replicate 999 CHR ''a''))"
    by (simp add: cp_utf8_win_with ascii_utf16_a)
  have f: "length (cp_utf8 (win_with (WRunning None)) ''std-echo.exe'') < 1000"
    by (simp add: cp_utf8_win_with ascii_utf16_def)
  have 1: "args_loop (win_with (WRunning None)) [replicate 999 CHR ''a'', ''b''] 0 0 (replicate 1000 None) =
      Returns (Some (map Some (replicate 999 0x61) @ [Some 0x20]), win_with (WRunning None))"
    using args_loop_boundary [OF len, of "''b''"] by (simp only: cp_utf8_win_with ascii_utf16_a)
  have "wcs (map Some (replicate 999 0x61 @ [0x20])) = None"
    by (intro wcs_unterminated) simp
  then have 2: "wcs (map Some (replicate 999 0x61) @ [Some 0x20]) = None"
    by simp
  note 3 = ps_exec_win_boundary [OF f len nz, of "''b''"]
  have 4: "join_with_spaces (map (cp_utf8 (win_with (WRunning None))) [replicate 999 CHR ''a'', ''b'']) =
      replicate 999 0x61 @ [0x20, 0x62]"
    by (simp add: cp_utf8_win_with ascii_utf16_a join_with_spaces_def) (simp add: ascii_utf16_def)
  from 1 2 3 4 show ?thesis by (intro conjI)
qed

text \<open>The statement on \<^verbatim>\<open>ps_exec\<close>'s command line at the arguments of the sample's \<^verbatim>\<open>main\<close>.\<close>

theorem ps_exec_win_command_line_witness:
  "\<exists>w'. ps_exec_win (win_with (WRunning None)) ''std-echo.exe'' [''std-echo'', ''-n'', ''hello world''] =
        Returns (104, w')
     \<and> process_of w' 104 =
        Some (1, \<lparr>cmdline = ascii_utf16 ''std-echo -n hello world'', pstate = WRunning None\<rparr>)"
proof -
  have 1: "length (cp_utf8 (win_with (WRunning None)) ''std-echo.exe'') < 1000"
    by (simp add: cp_utf8_win_with ascii_utf16_def)
  have j: "join_with_spaces (map (cp_utf8 (win_with (WRunning None))) [''std-echo'', ''-n'', ''hello world''])
      = ascii_utf16 ''std-echo -n hello world''"
    by (simp add: cp_utf8_win_with ascii_utf16_def join_with_spaces_def)
  then have 2: "length (join_with_spaces
      (map (cp_utf8 (win_with (WRunning None))) [''std-echo'', ''-n'', ''hello world''])) < 1000"
    by (simp add: ascii_utf16_def)
  have 3: "\<forall>x\<in>set [''std-echo'', ''-n'', ''hello world'']. 0 \<notin> set (cp_utf8 (win_with (WRunning None)) x)"
    by (simp add: cp_utf8_win_with ascii_utf16_def)
  have 4: "wexes (win_with (WRunning None))
      (takeWhile (\<lambda>c. c \<noteq> 0) (cp_utf8 (win_with (WRunning None)) ''std-echo.exe'')) = Some None"
    by (simp add: win_with_def ascii_utf16_def)
  have n: "next_handle (win_with (WRunning None)) = 104" "next_proc (win_with (WRunning None)) = 1"
    by (simp_all add: win_with_def)
  from ps_exec_win_command_line [OF 1 2 3 4] show ?thesis
    by (simp only: j n)
qed

theorem ps_exec_result_witness:
  "ps_exec_unix (unix_with None\<lparr>may_fork := False\<rparr>) ''std-echo'' [''std-echo''] =
      (PS_NULL, unix_with None\<lparr>may_fork := False, errno := EAGAIN\<rparr>)
   \<and> (\<exists>k'. ps_exec_unix (unix_with None) ''std-echo'' [''std-echo''] = (1235, k')
        \<and> (1235::int) \<noteq> PS_NULL \<and> children k' 1235 = Some (Running None))
   \<and> (\<exists>k'. ps_exec_unix (unix_with None) ''dir-list'' [''dir-list''] = (1235, k')
        \<and> (1235::int) \<noteq> PS_NULL \<and> children k' 1235 = Some (Zombie (Exited 255)))
   \<and> ps_exec_win (win_with (WRunning None)) ''dir-list.exe'' [''dir-list''] =
        Returns (INVALID_HANDLE_VALUE, win_with (WRunning None)\<lparr>last_error := ERROR_FILE_NOT_FOUND\<rparr>)
   \<and> (\<exists>w'. ps_exec_win (win_with (WRunning None)) ''std-echo.exe'' [''std-echo''] = Returns (104, w')
        \<and> (\<exists>i pr fate. process_of w' 104 = Some (i, pr) \<and> pstate pr = WRunning fate))"
proof -
  have u1: "\<not> may_fork (unix_with None\<lparr>may_fork := False\<rparr>)"
    by simp
  have u2: "may_fork (unix_with None) \<and> 0 < next_pid (unix_with None)"
    by (simp add: unix_with_def)
  have n: "next_pid (unix_with None) = 1235"
    by (simp add: unix_with_def)
  have e1: "exes (unix_with None) ''std-echo'' = Some None"
    by (simp add: unix_with_def)
  have e2: "exes (unix_with None) ''dir-list'' = None"
    by (simp add: unix_with_def)
  note c1 = ps_exec_result [THEN conjunct1, THEN mp, OF u1]
  note c2 = ps_exec_result [THEN conjunct2, THEN conjunct1, THEN mp, OF u2]
  have d1: "ps_exec_unix (unix_with None\<lparr>may_fork := False\<rparr>) ''std-echo'' [''std-echo''] =
      (PS_NULL, unix_with None\<lparr>may_fork := False, errno := EAGAIN\<rparr>)"
    using c1 [of "''std-echo''" "[''std-echo'']"] by simp
  have d2: "\<exists>k'. ps_exec_unix (unix_with None) ''std-echo'' [''std-echo''] = (1235, k')
        \<and> (1235::int) \<noteq> PS_NULL \<and> children k' 1235 = Some (Running None)"
    using c2 [of "''std-echo''" "[''std-echo'']"] by (simp add: n e1)
  have d3: "\<exists>k'. ps_exec_unix (unix_with None) ''dir-list'' [''dir-list''] = (1235, k')
        \<and> (1235::int) \<noteq> PS_NULL \<and> children k' 1235 = Some (Zombie (Exited 255))"
    using c2 [of "''dir-list''" "[''dir-list'']"] by (simp add: n e2)
  have f1: "length (cp_utf8 (win_with (WRunning None)) ''dir-list.exe'') < 1000"
    and f2: "length (cp_utf8 (win_with (WRunning None)) ''std-echo.exe'') < 1000"
    by (simp_all add: cp_utf8_win_with ascii_utf16_def)
  have j1: "length (join_with_spaces (map (cp_utf8 (win_with (WRunning None))) [''dir-list''])) < 1000"
    and j2: "length (join_with_spaces (map (cp_utf8 (win_with (WRunning None))) [''std-echo''])) < 1000"
    by (simp_all add: cp_utf8_win_with ascii_utf16_def join_with_spaces_def)
  have z1: "\<forall>x\<in>set [''dir-list'']. 0 \<notin> set (cp_utf8 (win_with (WRunning None)) x)"
    and z2: "\<forall>x\<in>set [''std-echo'']. 0 \<notin> set (cp_utf8 (win_with (WRunning None)) x)"
    by (simp_all add: cp_utf8_win_with ascii_utf16_def)
  have x1: "wexes (win_with (WRunning None))
      (takeWhile (\<lambda>c. c \<noteq> 0) (cp_utf8 (win_with (WRunning None)) ''dir-list.exe'')) = None"
    and x2: "wexes (win_with (WRunning None))
      (takeWhile (\<lambda>c. c \<noteq> 0) (cp_utf8 (win_with (WRunning None)) ''std-echo.exe'')) = Some None"
    by (simp_all add: win_with_def ascii_utf16_def)
  note r1 = ps_exec_win_not_found [OF f1 j1 z1 x1]
  from ps_exec_win_command_line [OF f2 j2 z2 x2] obtain w' where
    r2: "ps_exec_win (win_with (WRunning None)) ''std-echo.exe'' [''std-echo''] = Returns (104, w')"
    by (auto simp: win_with_def)
  have "(104::int) \<noteq> INVALID_HANDLE_VALUE"
    by (simp add: INVALID_HANDLE_VALUE_def)
  with r2 have "\<exists>i pr fate. process_of w' 104 = Some (i, pr) \<and> pstate pr = WRunning fate"
    by (intro ps_exec_result [THEN conjunct2, THEN conjunct2, THEN conjunct2, THEN mp]) simp
  with r2 have d5: "\<exists>w'. ps_exec_win (win_with (WRunning None)) ''std-echo.exe'' [''std-echo''] = Returns (104, w')
        \<and> (\<exists>i pr fate. process_of w' 104 = Some (i, pr) \<and> pstate pr = WRunning fate)"
    by blast
  from d1 d2 d3 r1 d5 show ?thesis by (intro conjI)
qed

text \<open>
  Claim C2 as stated fails on the UNIX branch: with no executable file \<^verbatim>\<open>dir-list\<close>,
  \<^verbatim>\<open>ps_exec\<close> returns pid 1235, not \<^verbatim>\<open>_PS_NULL\<close>; the child never runs \<^verbatim>\<open>dir-list\<close> and
  has ended with status 255.
\<close>

theorem ps_exec_unix_missing_file_counterexample:
  "exes (unix_with None) ''dir-list'' = None
   \<and> ps_exec_unix (unix_with None) ''dir-list'' [''dir-list''] =
       (1235, unix_with None
          \<lparr>children := (children (unix_with None))(1235 \<mapsto> Zombie (Exited 255)), next_pid := 1236\<rparr>)
   \<and> (1235::int) \<noteq> PS_NULL"
  by (simp add: ps_exec_unix_def vfork_def execve_def unix_with_def PS_NULL_def)

section \<open>Unnamed pipes: what the reader sees after the writer closed\<close>

lemma lowest_free_free: "lowest_free t fd n = Some r \<Longrightarrow> t r = None"
  by (induction n arbitrary: fd) (auto split: if_splits)

lemma concat_pieces: "concat (pieces caps s) = take (sum_list caps) s"
proof (induction caps arbitrary: s)
  case Nil
  then show ?case by simp
next
  case (Cons c cs)
  have "take c s @ take (sum_list cs) (drop c s) = take (c + sum_list cs) s"
    by (simp add: take_add)
  with Cons show ?case by simp
qed

lemma pieces_empty_late:
  "\<forall>c\<in>set caps. 0 < c \<Longrightarrow> j < length caps \<Longrightarrow> pieces caps s ! j = [] \<Longrightarrow>
   length s \<le> sum_list (take j caps)"
proof (induction caps arbitrary: j s)
  case Nil
  then show ?case by simp
next
  case (Cons c cs)
  show ?case
  proof (cases j)
    case 0
    with Cons.prems show ?thesis by simp
  next
    case (Suc j')
    with Cons.prems have "length (drop c s) \<le> sum_list (take j' cs)"
      by (intro Cons.IH) simp_all
    with Suc show ?thesis by simp
  qed
qed

lemma pieces_Nil: "pieces caps [] = replicate (length caps) []"
  by (induction caps) simp_all

text \<open>Reads on a pipe with no open write end: the UNIX branch.\<close>

lemma pipe_reads_unix_closed:
  assumes "fdt k r = Some (Read_end i)" and "pipes k i = Some po" and "writers po = 0"
    and "\<forall>c\<in>set caps. 0 < c"
  shows "pipe_reads_unix k r caps =
     Some (map (\<lambda>d. (int (length d), d)) (pieces caps (pdata po)),
           k\<lparr>pipes := (pipes k)(i \<mapsto> po\<lparr>pdata := drop (sum_list caps) (pdata po)\<rparr>)\<rparr>)"
  using assms
proof (induction caps arbitrary: k po)
  case Nil
  then have "(pipes k)(i \<mapsto> po) = pipes k" by (simp add: fun_upd_idem)
  then show ?case by simp
next
  case (Cons c cs)
  let ?po = "po\<lparr>pdata := drop c (pdata po)\<rparr>"
  let ?k = "k\<lparr>pipes := (pipes k)(i \<mapsto> ?po)\<rparr>"
  from Cons.prems have c: "0 < c" by simp
  have t: "take (min c (length (pdata po))) (pdata po) = take c (pdata po)"
    and d: "drop (min c (length (pdata po))) (pdata po) = drop c (pdata po)"
    by (simp_all add: min_def)
  have e: "pdata po = [] \<Longrightarrow> ?k = k"
    using Cons.prems(2) by (simp add: fun_upd_idem)
  from Cons.prems c have rd: "pipe_read_unix k r c = Some (int (min (length (pdata po)) c), take c (pdata po), ?k)"
    using e by (auto simp: pipe_read_unix_def sys_read_def Let_def t d min.commute)
  have dd: "drop (sum_list cs) (drop c (pdata po)) = drop (sum_list (c # cs)) (pdata po)"
    by (simp add: add.commute)
  have st: "?k\<lparr>pipes := (pipes ?k)(i \<mapsto> ?po\<lparr>pdata := drop (sum_list cs) (pdata ?po)\<rparr>)\<rparr> =
      k\<lparr>pipes := (pipes k)(i \<mapsto> po\<lparr>pdata := drop (sum_list (c # cs)) (pdata po)\<rparr>)\<rparr>"
    using dd by simp
  from Cons.prems have "pipe_reads_unix ?k r cs =
     Some (map (\<lambda>d. (int (length d), d)) (pieces cs (pdata ?po)),
           ?k\<lparr>pipes := (pipes ?k)(i \<mapsto> ?po\<lparr>pdata := drop (sum_list cs) (pdata ?po)\<rparr>)\<rparr>)"
    by (intro Cons.IH) simp_all
  then have "pipe_reads_unix ?k r cs =
     Some (map (\<lambda>d. (int (length d), d)) (pieces cs (drop c (pdata po))),
           k\<lparr>pipes := (pipes k)(i \<mapsto> po\<lparr>pdata := drop (sum_list (c # cs)) (pdata po)\<rparr>)\<rparr>)"
    by (simp only: st) simp
  with rd show ?case
    by (simp only: pipe_reads_unix.simps option.case prod.case list.map pieces.simps length_take)
qed

lemma pipe_reads_unix_eof:
  assumes "fdt k r = Some (Read_end i)" and "pipes k i = Some po" and "writers po = 0"
    and "pdata po = []"
  shows "pipe_reads_unix k r cs = Some (replicate (length cs) (0, []), k)"
  using assms
  by (induction cs) (simp_all add: pipe_read_unix_def sys_read_def)

lemma pipe_create_unix_ok:
  assumes "pipe_create_unix k = (0, r, w, k1)"
  shows "r \<noteq> w \<and> fdt k1 = (fdt k)(r \<mapsto> Read_end (next_pipe k), w \<mapsto> Write_end (next_pipe k))
    \<and> pipes k1 = (pipes k)(next_pipe k \<mapsto> \<lparr>pdata = [], readers = 1, writers = 1\<rparr>)
    \<and> pipe_capacity k1 = pipe_capacity k"
proof -
  from assms obtain r' where r': "lowest_free (fdt k) 0 (nfile k) = Some r'"
    by (auto simp: pipe_create_unix_def sys_pipe_def split: option.splits)
  with assms obtain w' where w': "lowest_free ((fdt k)(r' \<mapsto> Read_end (next_pipe k))) 0 (nfile k) = Some w'"
    by (auto simp: pipe_create_unix_def sys_pipe_def split: option.splits)
  from lowest_free_free [OF w'] have "r' \<noteq> w'"
    by (auto split: if_splits)
  with assms r' w' show ?thesis
    by (auto simp: pipe_create_unix_def sys_pipe_def)
qed

lemma unix_written_closed:
  assumes "pipe_create_unix k = (0, r, w, k1)"
    and "pipe_write_unix k1 w s = Some (int (length s), k2)"
  shows "fdt (pipe_close_unix k2 w) r = Some (Read_end (next_pipe k))
    \<and> pipes (pipe_close_unix k2 w) (next_pipe k) = Some \<lparr>pdata = s, readers = 1, writers = 0\<rparr>"
proof -
  note c = pipe_create_unix_ok [OF assms(1)]
  from c have w: "fdt k1 w = Some (Write_end (next_pipe k))"
    and p: "pipes k1 (next_pipe k) = Some \<lparr>pdata = [], readers = 1, writers = 1\<rparr>"
    by simp_all
  from assms(2) w p have k2: "k2 = k1\<lparr>pipes := (pipes k1)(next_pipe k \<mapsto> \<lparr>pdata = s, readers = 1, writers = 1\<rparr>)\<rparr>"
    by (auto simp: pipe_write_unix_def sys_write_def split: if_splits)
  from c k2 show ?thesis
    by (simp add: pipe_close_unix_def sys_close_def drop_end_def)
qed

text \<open>Reads on a pipe with no open write end: the Windows branch.\<close>

lemma pipe_read_win_closed:
  assumes "htab k r = Some (Read_end i)" and "wpipes k i = Some po" and "writers po = 0"
    and "0 < c" and "c < 2 ^ 32"
  shows "\<exists>k'. pipe_read_win k r c = Some (int (length (take c (pdata po))), take c (pdata po), k')
    \<and> htab k' = htab k \<and> wpipes k' = (wpipes k)(i \<mapsto> po\<lparr>pdata := drop c (pdata po)\<rparr>)"
proof (cases "pdata po = []")
  case True
  with assms have "(wpipes k)(i \<mapsto> po\<lparr>pdata := drop c (pdata po)\<rparr>) = wpipes k"
    by (simp add: fun_upd_idem)
  with assms True show ?thesis
    by (simp add: pipe_read_win_def ReadFile_def SetLastError_def GetLastError_def)
next
  case False
  let ?m = "min c (length (pdata po))"
  from assms have u: "unat (of_nat c :: 32 word) = c"
    by (simp add: unat_of_nat)
  from assms have "?m < 2 ^ 32" by simp
  then have v: "uint (of_nat ?m :: 32 word) = int ?m"
    by (simp add: uint_nat unat_of_nat)
  have t: "take ?m (pdata po) = take c (pdata po)" and d: "drop ?m (pdata po) = drop c (pdata po)"
    by (simp_all add: min_def)
  from assms False u v show ?thesis
    by (simp add: pipe_read_win_def ReadFile_def Let_def t d min.commute)
qed

lemma pipe_reads_win_closed:
  assumes "htab k r = Some (Read_end i)" and "wpipes k i = Some po" and "writers po = 0"
    and "\<forall>c\<in>set caps. 0 < c \<and> c < 2 ^ 32"
  shows "\<exists>k'. pipe_reads_win k r caps = Some (map (\<lambda>d. (int (length d), d)) (pieces caps (pdata po)), k')
    \<and> htab k' = htab k \<and> wpipes k' = (wpipes k)(i \<mapsto> po\<lparr>pdata := drop (sum_list caps) (pdata po)\<rparr>)"
  using assms
proof (induction caps arbitrary: k po)
  case Nil
  then show ?case by (simp add: fun_upd_idem)
next
  case (Cons c cs)
  let ?po = "po\<lparr>pdata := drop c (pdata po)\<rparr>"
  from Cons.prems have c: "0 < c" "c < 2 ^ 32" by simp_all
  from pipe_read_win_closed [OF Cons.prems(1-3) c] obtain k1 where
    rd: "pipe_read_win k r c = Some (int (length (take c (pdata po))), take c (pdata po), k1)"
    and h1: "htab k1 = htab k" and p1: "wpipes k1 = (wpipes k)(i \<mapsto> ?po)"
    by blast
  from Cons.prems h1 p1 have "\<exists>k'. pipe_reads_win k1 r cs =
        Some (map (\<lambda>d. (int (length d), d)) (pieces cs (pdata ?po)), k')
      \<and> htab k' = htab k1 \<and> wpipes k' = (wpipes k1)(i \<mapsto> ?po\<lparr>pdata := drop (sum_list cs) (pdata ?po)\<rparr>)"
    by (intro Cons.IH) simp_all
  then obtain k2 where
    rs: "pipe_reads_win k1 r cs = Some (map (\<lambda>d. (int (length d), d)) (pieces cs (drop c (pdata po))), k2)"
    and h2: "htab k2 = htab k1"
    and p2: "wpipes k2 = (wpipes k1)(i \<mapsto> ?po\<lparr>pdata := drop (sum_list cs) (pdata ?po)\<rparr>)"
    by auto
  from p1 p2 have p: "wpipes k2 = (wpipes k)(i \<mapsto> po\<lparr>pdata := drop (sum_list (c # cs)) (pdata po)\<rparr>)"
    by (simp add: add.commute)
  from rd rs have "pipe_reads_win k r (c # cs) =
      Some (map (\<lambda>d. (int (length d), d)) (pieces (c # cs) (pdata po)), k2)"
    by (simp only: pipe_reads_win.simps option.case prod.case list.map pieces.simps)
  moreover from h1 h2 have "htab k2 = htab k" by simp
  ultimately show ?case using p by blast
qed

lemma pipe_reads_win_eof:
  assumes "htab k r = Some (Read_end i)" and "wpipes k i = Some po" and "writers po = 0"
    and "pdata po = []"
  shows "\<exists>k'. pipe_reads_win k r cs = Some (replicate (length cs) (0, []), k')"
  using assms
proof (induction cs arbitrary: k)
  case Nil
  then show ?case by simp
next
  case (Cons c cs)
  let ?k = "k\<lparr>last_error := ERROR_BROKEN_PIPE\<rparr>"
  from Cons.prems have rd: "pipe_read_win k r c = Some (0, [], ?k)"
    by (simp add: pipe_read_win_def ReadFile_def SetLastError_def GetLastError_def)
  from Cons.prems have "\<exists>k'. pipe_reads_win ?k r cs = Some (replicate (length cs) (0, []), k')"
    by (intro Cons.IH) simp_all
  with rd show ?case by auto
qed

lemma win_written_closed:
  assumes "pipe_create_win k = (0, r, w, k1)"
    and "pipe_write_win k1 w s = Some (int (length s), k2)"
  shows "htab (pipe_close_win k2 w) r = Some (Read_end (wnext_pipe k))
    \<and> wpipes (pipe_close_win k2 w) (wnext_pipe k) = Some \<lparr>pdata = s, readers = 1, writers = 0\<rparr>"
proof -
  from assms(1) have r: "r = wnext_handle k" and w: "w = wnext_handle k + 4"
    and k1: "k1 = k\<lparr>htab := (htab k)(r \<mapsto> Read_end (wnext_pipe k), w \<mapsto> Write_end (wnext_pipe k)),
        wpipes := (wpipes k)(wnext_pipe k \<mapsto> \<lparr>pdata = [], readers = 1, writers = 1\<rparr>),
        wnext_pipe := wnext_pipe k + 1,
        wnext_handle := wnext_handle k + 8\<rparr>"
    by (auto simp: pipe_create_win_def CreatePipe_def)
  from assms(2) k1 have k2: "wpipes k2 = (wpipes k1)(wnext_pipe k \<mapsto> \<lparr>pdata = s, readers = 1, writers = 1\<rparr>)"
    and h2: "htab k2 = htab k1"
    by (auto simp: pipe_write_win_def WriteFile_def SetLastError_def split: if_splits)
  from r w k1 k2 h2 show ?thesis
    by (simp add: pipe_close_win_def CloseHandle_io_def drop_end_def)
qed

text \<open>
  After a byte sequence \<open>s\<close> was written with one \<^verbatim>\<open>pipe_write\<close> to the write end of a new
  pipe and the write end was closed, successive calls of \<^verbatim>\<open>pipe_read\<close> on the read end with
  buffers of any sizes from 1 (and below \<open>2\<^sup>3\<^sup>2\<close> on Windows, where the size is passed for a
  \<^verbatim>\<open>DWORD\<close>) return the consecutive pieces of \<open>s\<close> of those sizes, each with its length as
  result: together the pieces are \<open>s\<close> from its start, and a piece is empty only once all of
  \<open>s\<close> has been delivered. From then on every \<^verbatim>\<open>pipe_read\<close>, with a buffer of any size,
  returns 0: no read returns a negative value.
\<close>

theorem pipe_delivers_then_eof:
  "(pipe_create_unix k = (0, r, w, k1) \<and> pipe_write_unix k1 w s = Some (int (length s), k2)
      \<and> (\<forall>c\<in>set caps. 0 < c) \<longrightarrow>
      (\<exists>k4. pipe_reads_unix (pipe_close_unix k2 w) r caps =
               Some (map (\<lambda>d. (int (length d), d)) (pieces caps s), k4)
         \<and> (length s \<le> sum_list caps \<longrightarrow>
              (\<forall>cs. \<exists>k5. pipe_reads_unix k4 r cs = Some (replicate (length cs) (0, []), k5)))))
   \<and> (pipe_create_win wk = (0, wr, ww, wk1) \<and> pipe_write_win wk1 ww s = Some (int (length s), wk2)
      \<and> (\<forall>c\<in>set caps. 0 < c \<and> c < 2 ^ 32) \<longrightarrow>
      (\<exists>wk4. pipe_reads_win (pipe_close_win wk2 ww) wr caps =
               Some (map (\<lambda>d. (int (length d), d)) (pieces caps s), wk4)
         \<and> (length s \<le> sum_list caps \<longrightarrow>
              (\<forall>cs. \<exists>wk5. pipe_reads_win wk4 wr cs = Some (replicate (length cs) (0, []), wk5)))))
   \<and> concat (pieces caps s) = take (sum_list caps) s
   \<and> (\<forall>j. (\<forall>c\<in>set caps. 0 < c) \<and> j < length caps \<and> pieces caps s ! j = [] \<longrightarrow>
         length s \<le> sum_list (take j caps))"
proof (intro conjI impI allI)
  assume a: "pipe_create_unix k = (0, r, w, k1) \<and> pipe_write_unix k1 w s = Some (int (length s), k2)
      \<and> (\<forall>c\<in>set caps. 0 < c)"
  let ?k3 = "pipe_close_unix k2 w"
  let ?po = "\<lparr>pdata = s, readers = 1, writers = 0\<rparr>"
  let ?k4 = "?k3\<lparr>pipes := (pipes ?k3)(next_pipe k \<mapsto> ?po\<lparr>pdata := drop (sum_list caps) (pdata ?po)\<rparr>)\<rparr>"
  from a have c: "pipe_create_unix k = (0, r, w, k1)"
    and wr: "pipe_write_unix k1 w s = Some (int (length s), k2)" and caps: "\<forall>c\<in>set caps. 0 < c"
    by simp_all
  from unix_written_closed [OF c wr] have f: "fdt ?k3 r = Some (Read_end (next_pipe k))"
    and p: "pipes ?k3 (next_pipe k) = Some ?po"
    by simp_all
  have w0: "writers ?po = 0" by simp
  from pipe_reads_unix_closed [OF f p w0 caps]
  have 1: "pipe_reads_unix ?k3 r caps = Some (map (\<lambda>d. (int (length d), d)) (pieces caps s), ?k4)"
    by simp
  have 2: "\<exists>k5. pipe_reads_unix ?k4 r cs = Some (replicate (length cs) (0, []), k5)"
    if "length s \<le> sum_list caps" for cs
  proof -
    let ?po' = "?po\<lparr>pdata := drop (sum_list caps) (pdata ?po)\<rparr>"
    from f have f': "fdt ?k4 r = Some (Read_end (next_pipe k))" by simp
    have p': "pipes ?k4 (next_pipe k) = Some ?po'" by simp
    have w': "writers ?po' = 0" by simp
    from that have d': "pdata ?po' = []" by simp
    from pipe_reads_unix_eof [OF f' p' w' d'] show ?thesis by blast
  qed
  from 1 2 show "\<exists>k4. pipe_reads_unix ?k3 r caps = Some (map (\<lambda>d. (int (length d), d)) (pieces caps s), k4)
         \<and> (length s \<le> sum_list caps \<longrightarrow>
              (\<forall>cs. \<exists>k5. pipe_reads_unix k4 r cs = Some (replicate (length cs) (0, []), k5)))"
    by blast
next
  assume a: "pipe_create_win wk = (0, wr, ww, wk1) \<and> pipe_write_win wk1 ww s = Some (int (length s), wk2)
      \<and> (\<forall>c\<in>set caps. 0 < c \<and> c < 2 ^ 32)"
  let ?k3 = "pipe_close_win wk2 ww"
  let ?po = "\<lparr>pdata = s, readers = 1, writers = 0\<rparr>"
  from a have c: "pipe_create_win wk = (0, wr, ww, wk1)"
    and wrt: "pipe_write_win wk1 ww s = Some (int (length s), wk2)"
    and caps: "\<forall>c\<in>set caps. 0 < c \<and> c < 2 ^ 32"
    by simp_all
  from win_written_closed [OF c wrt] have f: "htab ?k3 wr = Some (Read_end (wnext_pipe wk))"
    and p: "wpipes ?k3 (wnext_pipe wk) = Some ?po"
    by simp_all
  have w0: "writers ?po = 0" by simp
  from pipe_reads_win_closed [OF f p w0 caps] obtain k4 where
    1: "pipe_reads_win ?k3 wr caps = Some (map (\<lambda>d. (int (length d), d)) (pieces caps s), k4)"
    and h4: "htab k4 = htab ?k3"
    and p4: "wpipes k4 = (wpipes ?k3)(wnext_pipe wk \<mapsto> ?po\<lparr>pdata := drop (sum_list caps) (pdata ?po)\<rparr>)"
    by auto
  have 2: "\<exists>k5. pipe_reads_win k4 wr cs = Some (replicate (length cs) (0, []), k5)"
    if "length s \<le> sum_list caps" for cs
  proof -
    let ?po' = "?po\<lparr>pdata := drop (sum_list caps) (pdata ?po)\<rparr>"
    from f h4 have f': "htab k4 wr = Some (Read_end (wnext_pipe wk))" by simp
    from p4 have p': "wpipes k4 (wnext_pipe wk) = Some ?po'" by simp
    have w': "writers ?po' = 0" by simp
    from that have d': "pdata ?po' = []" by simp
    from pipe_reads_win_eof [OF f' p' w' d'] show ?thesis by blast
  qed
  from 1 2 show "\<exists>wk4. pipe_reads_win ?k3 wr caps = Some (map (\<lambda>d. (int (length d), d)) (pieces caps s), wk4)
         \<and> (length s \<le> sum_list caps \<longrightarrow>
              (\<forall>cs. \<exists>wk5. pipe_reads_win wk4 wr cs = Some (replicate (length cs) (0, []), wk5)))"
    by blast
next
  show "concat (pieces caps s) = take (sum_list caps) s"
    by (rule concat_pieces)
next
  fix j
  assume "(\<forall>c\<in>set caps. 0 < c) \<and> j < length caps \<and> pieces caps s ! j = []"
  then show "length s \<le> sum_list (take j caps)"
    by (intro pieces_empty_late) simp_all
qed

lemma lowest_free_step:
  "0 < n \<Longrightarrow> lowest_free t fd n = (if t fd = None then Some fd else lowest_free t (fd + 1) (n - 1))"
  by (cases n) simp_all

theorem pipe_delivers_then_eof_witness:
  "(\<exists>k1 k2 k4 k5. pipe_create_unix unix_io0 = (0, 3, 4, k1)
      \<and> pipe_write_unix k1 4 ''hello!'' = Some (6, k2)
      \<and> pipe_reads_unix (pipe_close_unix k2 4) 3 [4, 100] = Some ([(4, ''hell''), (2, ''o!'')], k4)
      \<and> pipe_reads_unix k4 3 [100, 1] = Some ([(0, []), (0, [])], k5))
   \<and> (\<exists>k1 k2 k4 k5. pipe_create_win win_io0 = (0, 100, 104, k1)
      \<and> pipe_write_win k1 104 ''hello!'' = Some (6, k2)
      \<and> pipe_reads_win (pipe_close_win k2 104) 100 [4, 100] = Some ([(4, ''hell''), (2, ''o!'')], k4)
      \<and> pipe_reads_win k4 100 [100, 1] = Some ([(0, []), (0, [])], k5))
   \<and> concat (pieces [4, 100] ''hello!'') = ''hello!''"
proof -
  let ?k1 = "unix_io0\<lparr>fdt := (fdt unix_io0)(3 \<mapsto> Read_end 1, 4 \<mapsto> Write_end 1),
      pipes := (pipes unix_io0)(1 \<mapsto> \<lparr>pdata = [], readers = 1, writers = 1\<rparr>),
      next_pipe := 2\<rparr>"
  let ?k2 = "?k1\<lparr>pipes := (pipes ?k1)(1 \<mapsto> \<lparr>pdata = ''hello!'', readers = 1, writers = 1\<rparr>)\<rparr>"
  have c: "pipe_create_unix unix_io0 = (0, 3, 4, ?k1)"
    by (simp add: pipe_create_unix_def sys_pipe_def unix_io0_def lowest_free_step)
  have w: "pipe_write_unix ?k1 4 ''hello!'' = Some (int (length ''hello!''), ?k2)"
    by (simp add: pipe_write_unix_def sys_write_def unix_io0_def)
  have caps: "\<forall>c\<in>set [4, 100 :: nat]. 0 < c"
    by simp
  from pipe_delivers_then_eof [THEN conjunct1, THEN mp, OF conjI, OF c conjI, OF w caps]
  obtain k4 where r: "pipe_reads_unix (pipe_close_unix ?k2 4) 3 [4, 100] =
        Some (map (\<lambda>d. (int (length d), d)) (pieces [4, 100] ''hello!''), k4)"
    and e: "length ''hello!'' \<le> sum_list [4, 100 :: nat] \<longrightarrow>
        (\<forall>cs. \<exists>k5. pipe_reads_unix k4 3 cs = Some (replicate (length cs) (0, []), k5))"
    by blast
  from e obtain k5 where e': "pipe_reads_unix k4 3 [100, 1] = Some (replicate (length [100, 1 :: nat]) (0, []), k5)"
    by fastforce
  from c w r e' have u: "\<exists>k1 k2 k4 k5. pipe_create_unix unix_io0 = (0, 3, 4, k1)
      \<and> pipe_write_unix k1 4 ''hello!'' = Some (6, k2)
      \<and> pipe_reads_unix (pipe_close_unix k2 4) 3 [4, 100] = Some ([(4, ''hell''), (2, ''o!'')], k4)
      \<and> pipe_reads_unix k4 3 [100, 1] = Some ([(0, []), (0, [])], k5)"
    by (intro exI [of _ ?k1] exI [of _ ?k2] exI [of _ k4] exI [of _ k5]) (simp add: numeral_2_eq_2)
  let ?w1 = "win_io0\<lparr>htab := (htab win_io0)(100 \<mapsto> Read_end 0, 104 \<mapsto> Write_end 0),
      wpipes := (wpipes win_io0)(0 \<mapsto> \<lparr>pdata = [], readers = 1, writers = 1\<rparr>),
      wnext_pipe := 1,
      wnext_handle := 108\<rparr>"
  let ?w2 = "?w1\<lparr>wpipes := (wpipes ?w1)(0 \<mapsto> \<lparr>pdata = ''hello!'', readers = 1, writers = 1\<rparr>)\<rparr>"
  have wc: "pipe_create_win win_io0 = (0, 100, 104, ?w1)"
    by (simp add: pipe_create_win_def CreatePipe_def win_io0_def)
  have ww: "pipe_write_win ?w1 104 ''hello!'' = Some (int (length ''hello!''), ?w2)"
    by (simp add: pipe_write_win_def WriteFile_def win_io0_def)
  have wcaps: "\<forall>c\<in>set [4, 100 :: nat]. 0 < c \<and> c < 2 ^ 32"
    by simp
  from pipe_delivers_then_eof [THEN conjunct2, THEN conjunct1, THEN mp, OF conjI, OF wc conjI, OF ww wcaps]
  obtain wk4 where wr: "pipe_reads_win (pipe_close_win ?w2 104) 100 [4, 100] =
        Some (map (\<lambda>d. (int (length d), d)) (pieces [4, 100] ''hello!''), wk4)"
    and we: "length ''hello!'' \<le> sum_list [4, 100 :: nat] \<longrightarrow>
        (\<forall>cs. \<exists>k5. pipe_reads_win wk4 100 cs = Some (replicate (length cs) (0, []), k5))"
    by blast
  from we obtain wk5 where we': "pipe_reads_win wk4 100 [100, 1] = Some (replicate (length [100, 1 :: nat]) (0, []), wk5)"
    by fastforce
  from wc ww wr we' have v: "\<exists>k1 k2 k4 k5. pipe_create_win win_io0 = (0, 100, 104, k1)
      \<and> pipe_write_win k1 104 ''hello!'' = Some (6, k2)
      \<and> pipe_reads_win (pipe_close_win k2 104) 100 [4, 100] = Some ([(4, ''hell''), (2, ''o!'')], k4)
      \<and> pipe_reads_win k4 100 [100, 1] = Some ([(0, []), (0, [])], k5)"
    by (intro exI [of _ ?w1] exI [of _ ?w2] exI [of _ wk4] exI [of _ wk5]) (simp add: numeral_2_eq_2)
  have p: "concat (pieces [4, 100] ''hello!'') = ''hello!''"
    using pipe_delivers_then_eof [THEN conjunct2, THEN conjunct2, THEN conjunct1, of "[4, 100]" "''hello!''"]
    by simp
  from u v p show ?thesis by (intro conjI)
qed

text \<open>
  Claim C1 at a buffer of \<open>2\<^sup>3\<^sup>2\<close> bytes. On Windows \<^verbatim>\<open>pipe_read\<close> passes its \<^verbatim>\<open>size_t\<close>
  size to \<^verbatim>\<open>ReadFile\<close> for a \<^verbatim>\<open>DWORD\<close>, so that a size of \<open>2\<^sup>3\<^sup>2\<close> asks for 0 bytes: after
  \<^verbatim>\<open>hello!\<close> was written and the write end closed, the first \<^verbatim>\<open>pipe_read\<close> returns 0 with
  nothing delivered, and the six bytes are still in the pipe for the next read. On UNIX the
  same calls deliver the six bytes first and return 0 after them.
\<close>

theorem pipe_read_win_size_truncated:
  "(\<exists>k1 k2 k3 k4. pipe_create_win win_io0 = (0, 100, 104, k1)
      \<and> pipe_write_win k1 104 ''hello!'' = Some (6, k2)
      \<and> pipe_read_win (pipe_close_win k2 104) 100 4294967296 = Some (0, [], k3)
      \<and> pipe_read_win k3 100 6 = Some (6, ''hello!'', k4))
   \<and> (\<exists>k1 k2 k3 k4. pipe_create_unix unix_io0 = (0, 3, 4, k1)
      \<and> pipe_write_unix k1 4 ''hello!'' = Some (6, k2)
      \<and> pipe_read_unix (pipe_close_unix k2 4) 3 4294967296 = Some (6, ''hello!'', k3)
      \<and> pipe_read_unix k3 3 6 = Some (0, [], k4))"
proof
  let ?w1 = "win_io0\<lparr>htab := (htab win_io0)(100 \<mapsto> Read_end 0, 104 \<mapsto> Write_end 0),
      wpipes := (wpipes win_io0)(0 \<mapsto> \<lparr>pdata = [], readers = 1, writers = 1\<rparr>),
      wnext_pipe := 1,
      wnext_handle := 108\<rparr>"
  let ?w2 = "?w1\<lparr>wpipes := (wpipes ?w1)(0 \<mapsto> \<lparr>pdata = ''hello!'', readers = 1, writers = 1\<rparr>)\<rparr>"
  have wc: "pipe_create_win win_io0 = (0, 100, 104, ?w1)"
    by (simp add: pipe_create_win_def CreatePipe_def win_io0_def)
  have ww: "pipe_write_win ?w1 104 ''hello!'' = Some (6, ?w2)"
    by (simp add: pipe_write_win_def WriteFile_def win_io0_def)
  have wr: "\<exists>k3 k4. pipe_read_win (pipe_close_win ?w2 104) 100 4294967296 = Some (0, [], k3)
      \<and> pipe_read_win k3 100 6 = Some (6, ''hello!'', k4)"
    by (simp add: pipe_read_win_def ReadFile_def pipe_close_win_def CloseHandle_io_def
        drop_end_def win_io0_def Let_def)
  from wc ww wr show "\<exists>k1 k2 k3 k4. pipe_create_win win_io0 = (0, 100, 104, k1)
      \<and> pipe_write_win k1 104 ''hello!'' = Some (6, k2)
      \<and> pipe_read_win (pipe_close_win k2 104) 100 4294967296 = Some (0, [], k3)
      \<and> pipe_read_win k3 100 6 = Some (6, ''hello!'', k4)"
    by blast
  let ?k1 = "unix_io0\<lparr>fdt := (fdt unix_io0)(3 \<mapsto> Read_end 1, 4 \<mapsto> Write_end 1),
      pipes := (pipes unix_io0)(1 \<mapsto> \<lparr>pdata = [], readers = 1, writers = 1\<rparr>),
      next_pipe := 2\<rparr>"
  let ?k2 = "?k1\<lparr>pipes := (pipes ?k1)(1 \<mapsto> \<lparr>pdata = ''hello!'', readers = 1, writers = 1\<rparr>)\<rparr>"
  have c: "pipe_create_unix unix_io0 = (0, 3, 4, ?k1)"
    by (simp add: pipe_create_unix_def sys_pipe_def unix_io0_def lowest_free_step)
  have w: "pipe_write_unix ?k1 4 ''hello!'' = Some (6, ?k2)"
    by (simp add: pipe_write_unix_def sys_write_def unix_io0_def)
  have r: "\<exists>k3 k4. pipe_read_unix (pipe_close_unix ?k2 4) 3 4294967296 = Some (6, ''hello!'', k3)
      \<and> pipe_read_unix k3 3 6 = Some (0, [], k4)"
    by (simp add: pipe_read_unix_def sys_read_def pipe_close_unix_def sys_close_def
        drop_end_def unix_io0_def Let_def)
  from c w r show "\<exists>k1 k2 k3 k4. pipe_create_unix unix_io0 = (0, 3, 4, k1)
      \<and> pipe_write_unix k1 4 ''hello!'' = Some (6, k2)
      \<and> pipe_read_unix (pipe_close_unix k2 4) 3 4294967296 = Some (6, ''hello!'', k3)
      \<and> pipe_read_unix k3 3 6 = Some (0, [], k4)"
    by blast
qed

section \<open>Named pipes over sockets: no descriptor is left open on failure\<close>

lemma lowest_free_ge: "lowest_free t fd n = Some r \<Longrightarrow> fd \<le> r"
proof (induction n arbitrary: fd)
  case 0
  then show ?case by simp
next
  case (Suc n)
  then show ?case by (fastforce split: if_splits)
qed

lemma sys_socket_new:
  "sys_socket k = (p, k1) \<Longrightarrow> p \<noteq> - 1 \<Longrightarrow>
   sfd k p = None \<and> k1 = k\<lparr>sfd := (sfd k)(p \<mapsto> Fresh)\<rparr>"
  by (auto simp: sys_socket_def split: if_splits option.splits dest: lowest_free_free)

lemma sys_socket_failed: "sys_socket k = (- 1, k1) \<Longrightarrow> sfd k1 = sfd k"
  by (auto simp: sys_socket_def split: if_splits option.splits dest: lowest_free_ge)

lemma sys_bind_sfd:
  "sys_bind k p name = (r, k1) \<Longrightarrow> sfd k p = Some Fresh \<Longrightarrow>
   (r \<noteq> 0 \<longrightarrow> sfd k1 = sfd k) \<and> (r = 0 \<longrightarrow> sfd k1 = (sfd k)(p \<mapsto> Bound name))"
  by (auto simp: sys_bind_def split: if_splits)

lemma sys_listen_sfd:
  "sys_listen k p b = (r, k1) \<Longrightarrow> sfd k p = Some (Bound name) \<Longrightarrow>
   (r \<noteq> 0 \<longrightarrow> sfd k1 = sfd k) \<and> (r = 0 \<longrightarrow> sfd k1 = (sfd k)(p \<mapsto> Listener name))"
  by (auto simp: sys_listen_def split: if_splits)

lemma sys_connect_sfd:
  "sys_connect k p name = (r, k1) \<Longrightarrow> sfd k p = Some Fresh \<Longrightarrow> r \<noteq> 0 \<Longrightarrow> sfd k1 = sfd k"
  by (auto simp: sys_connect_def split: if_splits)

lemma sock_close_unconnected:
  "sfd k p = Some Fresh \<or> sfd k p = Some (Bound name) \<Longrightarrow>
   sfd (snd (sock_close k p)) = (sfd k)(p := None)"
  by (auto simp: sock_close_def)

lemma pipe_create_named_sock_failed:
  assumes "pipe_create_named_sock k name = (PIPE_NULL, k')"
  shows "sfd k' = sfd k"
proof (cases "sun_path_size k < length name + 1")
  case True
  with assms show ?thesis by (auto simp: pipe_create_named_sock_def)
next
  case False
  obtain p k1 where s: "sys_socket k = (p, k1)" by (cases "sys_socket k")
  show ?thesis
  proof (cases "p = - 1")
    case True
    with assms False s have "k' = k1" by (simp add: pipe_create_named_sock_def)
    with s True show ?thesis by (simp add: sys_socket_failed)
  next
    case p: False
    from sys_socket_new [OF s p] have free: "sfd k p = None" and k1: "sfd k1 p = Some Fresh"
      and t1: "sfd k1 = (sfd k)(p \<mapsto> Fresh)"
      by simp_all
    obtain r k2 where b: "sys_bind k1 p name = (r, k2)" by (cases "sys_bind k1 p name")
    note b' = sys_bind_sfd [OF b k1]
    show ?thesis
    proof (cases "r = 0")
      case r: False
      with assms False s p b have "k' = snd (sock_close k2 p)"
        by (simp add: pipe_create_named_sock_def)
      moreover from b' r k1 have "sfd k2 p = Some Fresh" and "sfd k2 = sfd k1" by simp_all
      ultimately show ?thesis
        using free t1 sock_close_unconnected [of k2 p name] by (simp add: fun_upd_idem)
    next
      case True
      with b' k1 have k2: "sfd k2 p = Some (Bound name)" and t2: "sfd k2 = (sfd k1)(p \<mapsto> Bound name)"
        by simp_all
      obtain r' k3 where l: "sys_listen k2 p 0 = (r', k3)" by (cases "sys_listen k2 p 0")
      note l' = sys_listen_sfd [OF l k2]
      show ?thesis
      proof (cases "r' = 0")
        case True
        with assms False s p b \<open>r = 0\<close> l have "p = PIPE_NULL"
          by (simp add: pipe_create_named_sock_def)
        with p show ?thesis by (simp add: PIPE_NULL_def)
      next
        case r': False
        with assms False s p b \<open>r = 0\<close> l have "k' = snd (sock_close k3 p)"
          by (simp add: pipe_create_named_sock_def)
        moreover from l' r' k2 have "sfd k3 p = Some (Bound name)" and "sfd k3 = sfd k2" by simp_all
        ultimately show ?thesis
          using free t1 t2 sock_close_unconnected [of k3 p name] by (simp add: fun_upd_idem)
      qed
    qed
  qed
qed

lemma pipe_connect_sock_failed:
  assumes "pipe_connect_sock k name = (PIPE_NULL, k')"
  shows "sfd k' = sfd k"
proof (cases "sun_path_size k < length name + 1")
  case True
  with assms show ?thesis by (auto simp: pipe_connect_sock_def)
next
  case False
  obtain p k1 where s: "sys_socket k = (p, k1)" by (cases "sys_socket k")
  show ?thesis
  proof (cases "p = - 1")
    case True
    with assms False s have "k' = k1" by (simp add: pipe_connect_sock_def)
    with s True show ?thesis by (simp add: sys_socket_failed)
  next
    case p: False
    from sys_socket_new [OF s p] have free: "sfd k p = None" and k1: "sfd k1 p = Some Fresh"
      and t1: "sfd k1 = (sfd k)(p \<mapsto> Fresh)"
      by simp_all
    obtain r k2 where c: "sys_connect k1 p name = (r, k2)" by (cases "sys_connect k1 p name")
    show ?thesis
    proof (cases "r = 0")
      case True
      with assms False s p c have "p = PIPE_NULL"
        by (simp add: pipe_connect_sock_def)
      with p show ?thesis by (simp add: PIPE_NULL_def)
    next
      case r: False
      with assms False s p c have "k' = snd (sock_close k2 p)"
        by (simp add: pipe_connect_sock_def)
      moreover from sys_connect_sfd [OF c k1 r] k1 have "sfd k2 p = Some Fresh" and "sfd k2 = sfd k1"
        by simp_all
      ultimately show ?thesis
        using free t1 sock_close_unconnected [of k2 p name] by (simp add: fun_upd_idem)
    qed
  qed
qed

text \<open>
  Claim C9. On the socket branch, \<^verbatim>\<open>pipe_create_named(name)\<close> and \<^verbatim>\<open>pipe_connect(name)\<close>
  return \<^verbatim>\<open>PIPE_NULL\<close> with \<open>errno = EINVAL\<close> and the state otherwise untouched (no socket
  was created) when the name with its terminating zero does not fit in \<^verbatim>\<open>sun_path\<close>; and
  whenever they return \<^verbatim>\<open>PIPE_NULL\<close>, whichever of \<^verbatim>\<open>socket\<close>, \<^verbatim>\<open>bind\<close>, \<^verbatim>\<open>listen\<close> or
  \<^verbatim>\<open>connect\<close> failed, the table of open descriptors is what it was before the call.
\<close>

theorem named_pipe_no_descriptor_leak:
  "(sun_path_size k < length name + 1 \<longrightarrow>
      pipe_create_named_sock k name = (PIPE_NULL, k\<lparr>errno := EINVAL\<rparr>)
      \<and> pipe_connect_sock k name = (PIPE_NULL, k\<lparr>errno := EINVAL\<rparr>))
   \<and> (pipe_create_named_sock k name = (PIPE_NULL, k') \<longrightarrow> sfd k' = sfd k)
   \<and> (pipe_connect_sock k name = (PIPE_NULL, k'') \<longrightarrow> sfd k'' = sfd k)"
  using pipe_create_named_sock_failed [of k name k'] pipe_connect_sock_failed [of k name k'']
  by (simp add: pipe_create_named_sock_def pipe_connect_sock_def PIPE_NULL_def)

theorem named_pipe_no_descriptor_leak_witness:
  "pipe_create_named_sock unix_sock0 (replicate 108 CHR ''x'') = (PIPE_NULL, unix_sock0\<lparr>errno := EINVAL\<rparr>)
   \<and> pipe_connect_sock unix_sock0 (replicate 108 CHR ''x'') = (PIPE_NULL, unix_sock0\<lparr>errno := EINVAL\<rparr>)
   \<and> (\<exists>k'. pipe_create_named_sock (unix_sock0\<lparr>names := (\<lambda>n. n = ''/tmp/cpspg.pipe'')\<rparr>) ''/tmp/cpspg.pipe''
          = (PIPE_NULL, k')
        \<and> errno k' = EADDRINUSE
        \<and> sfd k' = sfd (unix_sock0\<lparr>names := (\<lambda>n. n = ''/tmp/cpspg.pipe'')\<rparr>))
   \<and> (\<exists>k'. pipe_create_named_sock (unix_sock0\<lparr>refuse := (\<lambda>c. c = LISTEN)\<rparr>) ''/tmp/cpspg.pipe''
          = (PIPE_NULL, k')
        \<and> sfd k' = sfd (unix_sock0\<lparr>refuse := (\<lambda>c. c = LISTEN)\<rparr>))
   \<and> (\<exists>k'. pipe_connect_sock unix_sock0 ''/tmp/cpspg.pipe'' = (PIPE_NULL, k')
        \<and> errno k' = ECONNREFUSED \<and> sfd k' = sfd unix_sock0)"
proof -
  let ?stale = "unix_sock0\<lparr>names := (\<lambda>n. n = ''/tmp/cpspg.pipe'')\<rparr>"
  let ?deaf = "unix_sock0\<lparr>refuse := (\<lambda>c. c = LISTEN)\<rparr>"
  have long: "sun_path_size unix_sock0 < length (replicate 108 CHR ''x'') + 1"
    by (simp add: unix_sock0_def)
  note a = named_pipe_no_descriptor_leak [THEN conjunct1, THEN mp, OF long]
  have b: "pipe_create_named_sock ?stale ''/tmp/cpspg.pipe'' =
      (PIPE_NULL, snd (pipe_create_named_sock ?stale ''/tmp/cpspg.pipe''))"
    and b': "errno (snd (pipe_create_named_sock ?stale ''/tmp/cpspg.pipe'')) = EADDRINUSE"
    by (simp_all add: prod_eq_iff pipe_create_named_sock_def sys_socket_def sys_bind_def sock_close_def
        unix_sock0_def lowest_free_step PIPE_NULL_def)
  have c: "pipe_create_named_sock ?deaf ''/tmp/cpspg.pipe'' =
      (PIPE_NULL, snd (pipe_create_named_sock ?deaf ''/tmp/cpspg.pipe''))"
    by (simp add: prod_eq_iff pipe_create_named_sock_def sys_socket_def sys_bind_def sys_listen_def
        sock_close_def unix_sock0_def lowest_free_step PIPE_NULL_def)
  have d: "pipe_connect_sock unix_sock0 ''/tmp/cpspg.pipe'' =
      (PIPE_NULL, snd (pipe_connect_sock unix_sock0 ''/tmp/cpspg.pipe''))"
    and d': "errno (snd (pipe_connect_sock unix_sock0 ''/tmp/cpspg.pipe'')) = ECONNREFUSED"
    by (simp_all add: prod_eq_iff pipe_connect_sock_def sys_socket_def sys_connect_def sock_close_def
        unix_sock0_def lowest_free_step PIPE_NULL_def)
  note b'' = named_pipe_no_descriptor_leak [THEN conjunct2, THEN conjunct1, THEN mp, OF b]
  note c'' = named_pipe_no_descriptor_leak [THEN conjunct2, THEN conjunct1, THEN mp, OF c]
  note d'' = named_pipe_no_descriptor_leak [THEN conjunct2, THEN conjunct2, THEN mp, OF d]
  from b b' b'' have 3: "\<exists>k'. pipe_create_named_sock ?stale ''/tmp/cpspg.pipe'' = (PIPE_NULL, k')
        \<and> errno k' = EADDRINUSE \<and> sfd k' = sfd ?stale"
    by blast
  from c c'' have 4: "\<exists>k'. pipe_create_named_sock ?deaf ''/tmp/cpspg.pipe'' = (PIPE_NULL, k')
        \<and> sfd k' = sfd ?deaf"
    by blast
  from d d' d'' have 5: "\<exists>k'. pipe_connect_sock unix_sock0 ''/tmp/cpspg.pipe'' = (PIPE_NULL, k')
        \<and> errno k' = ECONNREFUSED \<and> sfd k' = sfd unix_sock0"
    by blast
  from a 3 4 5 show ?thesis by (intro conjI) simp_all
qed

section \<open>Named pipes: the listener and its connections\<close>









lemma unix_sock1_reached:
  "\<exists>s1 s2. pipe_create_named_sock unix_sock0 ''/tmp/cpspg.pipe'' = (3, s1)
     \<and> pipe_connect_sock s1 ''/tmp/cpspg.pipe'' = (4, s2)
     \<and> pipe_write_sock s2 4 ''hello!'' = Some (6, unix_sock1)"
proof -
  let ?s1 = "unix_sock0\<lparr>sfd := (sfd unix_sock0)(3 \<mapsto> Listener ''/tmp/cpspg.pipe''),
      names := (names unix_sock0)(''/tmp/cpspg.pipe'' := True),
      listening := (listening unix_sock0)(''/tmp/cpspg.pipe'' := True)\<rparr>"
  let ?s2 = "?s1\<lparr>sfd := (sfd ?s1)(4 \<mapsto> Endpoint 0 Client_side),
      pending := (pending ?s1)(''/tmp/cpspg.pipe'' := [0]),
      conns := (conns ?s1)(0 \<mapsto> \<lparr>made_to = ''/tmp/cpspg.pipe'', accepted = False, to_server = [],
         to_client = [], server_open = True, client_open = True\<rparr>),
      next_conn := 1\<rparr>"
  have 1: "pipe_create_named_sock unix_sock0 ''/tmp/cpspg.pipe'' = (3, ?s1)"
    by (simp add: pipe_create_named_sock_def sys_socket_def sys_bind_def sys_listen_def
        unix_sock0_def lowest_free_step)
  have 2: "pipe_connect_sock ?s1 ''/tmp/cpspg.pipe'' = (4, ?s2)"
    by (simp add: pipe_connect_sock_def sys_socket_def sys_connect_def unix_sock0_def lowest_free_step)
  have 3: "pipe_write_sock ?s2 4 ''hello!'' = Some (6, unix_sock1)"
    by (simp add: pipe_write_sock_def sock_write_def unix_sock0_def unix_sock1_def fun_eq_iff)
  from 1 2 3 show ?thesis by blast
qed



section \<open>Semaphores: open or create\<close>















section \<open>CPU exceptions: one delivery\<close>

lemma sa_flags_bits:
  "(SA_SIGINFO OR SA_RESETHAND) AND SA_RESETHAND \<noteq> 0"
  "(SA_SIGINFO OR SA_RESETHAND OR SA_ONSTACK) AND SA_RESETHAND \<noteq> 0"
  "(SA_SIGINFO OR SA_RESETHAND OR SA_ONSTACK) AND SA_ONSTACK \<noteq> 0"
  "SA_RESETHAND \<noteq> 0" "SA_ONSTACK \<noteq> 0"
  by (simp_all add: SA_SIGINFO_def SA_RESETHAND_def SA_ONSTACK_def)

lemma sint_SIGSEGV: "(s = word_of_int SIGSEGV) = (sint (s :: 32 word) = SIGSEGV)"
proof
  assume "s = word_of_int SIGSEGV"
  then show "sint s = SIGSEGV" by (simp add: SIGSEGV_def)
next
  assume a: "sint s = SIGSEGV"
  have "s = word_of_int (sint s)" by simp
  then show "s = word_of_int SIGSEGV" unfolding a .
qed

lemma sigaction_ok:
  "sigaction k n f = (0, k') \<Longrightarrow>
     disposition k' = (disposition k)(n := Handled f) \<and> sig_userhandler k' = sig_userhandler k
     \<and> calls k' = calls k \<and> killed k' = killed k \<and> altstack k' = altstack k"
  by (auto simp: sigaction_def split: if_splits)

lemma sigaction_result: "sigaction k n f = (r, k') \<Longrightarrow> r = 0 \<or> r = -1"
  by (auto simp: sigaction_def split: if_splits)

lemma signals_loop_frame:
  "signals_loop k hs sigs = (0, k') \<Longrightarrow>
     sig_userhandler k' = sig_userhandler k \<and> calls k' = calls k \<and> killed k' = killed k
     \<and> altstack k' = altstack k"
proof (induction sigs arbitrary: k)
  case Nil
  then show ?case by simp
next
  case (Cons s rest)
  show ?case
  proof (cases "s = CPSIG_STACK_unix \<or> (s = word_of_int SIGSEGV \<and> hs)")
    case True
    with Cons.prems have "signals_loop k hs rest = (0, k')" by simp
    then show ?thesis by (rule Cons.IH)
  next
    case False
    obtain r k1 where a: "sigaction k (sint s) (SA_SIGINFO OR SA_RESETHAND) = (r, k1)"
      by (cases "sigaction k (sint s) (SA_SIGINFO OR SA_RESETHAND)") auto
    from Cons.prems False a have r: "r = 0" and l: "signals_loop k1 hs rest = (0, k')"
      by (simp_all split: if_splits)
    from a r have "sigaction k (sint s) (SA_SIGINFO OR SA_RESETHAND) = (0, k1)" by simp
    from sigaction_ok [OF this] Cons.IH [OF l] show ?thesis by simp
  qed
qed

lemma signals_loop_keeps:
  "signals_loop k hs sigs = (0, k') \<Longrightarrow>
     disposition k' n = disposition k n
     \<or> (disposition k' n = Handled (SA_SIGINFO OR SA_RESETHAND) \<and> \<not> (n = SIGSEGV \<and> hs))"
proof (induction sigs arbitrary: k)
  case Nil
  then show ?case by simp
next
  case (Cons s rest)
  show ?case
  proof (cases "s = CPSIG_STACK_unix \<or> (s = word_of_int SIGSEGV \<and> hs)")
    case True
    with Cons.prems have "signals_loop k hs rest = (0, k')" by simp
    then show ?thesis by (rule Cons.IH)
  next
    case False
    obtain r k1 where a: "sigaction k (sint s) (SA_SIGINFO OR SA_RESETHAND) = (r, k1)"
      by (cases "sigaction k (sint s) (SA_SIGINFO OR SA_RESETHAND)") auto
    from Cons.prems False a have r: "r = 0" and l: "signals_loop k1 hs rest = (0, k')"
      by (simp_all split: if_splits)
    from a r have "sigaction k (sint s) (SA_SIGINFO OR SA_RESETHAND) = (0, k1)" by simp
    from sigaction_ok [OF this]
    have d: "disposition k1 = (disposition k)(sint s := Handled (SA_SIGINFO OR SA_RESETHAND))"
      by simp
    from False have ns: "\<not> (sint s = SIGSEGV \<and> hs)" by (simp add: sint_SIGSEGV)
    from Cons.IH [OF l]
    have "disposition k' n = disposition k1 n
      \<or> (disposition k' n = Handled (SA_SIGINFO OR SA_RESETHAND) \<and> \<not> (n = SIGSEGV \<and> hs))" .
    with d ns show ?thesis by (cases "n = sint s") auto
  qed
qed

lemma signals_loop_arms:
  "signals_loop k hs sigs = (0, k') \<Longrightarrow> s \<in> set sigs \<Longrightarrow> s \<noteq> CPSIG_STACK_unix \<Longrightarrow>
     \<not> (sint s = SIGSEGV \<and> hs) \<Longrightarrow>
     disposition k' (sint s) = Handled (SA_SIGINFO OR SA_RESETHAND)"
proof (induction sigs arbitrary: k)
  case Nil
  then show ?case by simp
next
  case (Cons t rest)
  show ?case
  proof (cases "t = CPSIG_STACK_unix \<or> (t = word_of_int SIGSEGV \<and> hs)")
    case True
    with Cons.prems(1) have l: "signals_loop k hs rest = (0, k')" by simp
    from True Cons.prems(2,3,4) have "s \<in> set rest" by (auto simp: sint_SIGSEGV)
    from Cons.IH [OF l this Cons.prems(3,4)] show ?thesis .
  next
    case False
    obtain r k1 where a: "sigaction k (sint t) (SA_SIGINFO OR SA_RESETHAND) = (r, k1)"
      by (cases "sigaction k (sint t) (SA_SIGINFO OR SA_RESETHAND)") auto
    from Cons.prems(1) False a have r: "r = 0" and l: "signals_loop k1 hs rest = (0, k')"
      by (simp_all split: if_splits)
    from a r have "sigaction k (sint t) (SA_SIGINFO OR SA_RESETHAND) = (0, k1)" by simp
    from sigaction_ok [OF this]
    have d: "disposition k1 = (disposition k)(sint t := Handled (SA_SIGINFO OR SA_RESETHAND))"
      by simp
    show ?thesis
    proof (cases "s \<in> set rest")
      case True
      from Cons.IH [OF l True Cons.prems(3,4)] show ?thesis .
    next
      case False
      with Cons.prems(2) have "s = t" by simp
      with d have "disposition k1 (sint s) = Handled (SA_SIGINFO OR SA_RESETHAND)" by simp
      with signals_loop_keeps [OF l, of "sint s"] show ?thesis by auto
    qed
  qed
qed

lemma stack_loop_ok:
  "stack_loop k sigs = (None, hs, k') \<Longrightarrow>
     hs = (CPSIG_STACK_unix \<in> set sigs) \<and> sig_userhandler k' = sig_userhandler k
     \<and> calls k' = calls k \<and> killed k' = killed k
     \<and> (hs \<longrightarrow> disposition k' SIGSEGV = Handled (SA_SIGINFO OR SA_RESETHAND OR SA_ONSTACK)
          \<and> altstack k' \<noteq> None)"
proof (induction sigs)
  case Nil
  then show ?case by auto
next
  case (Cons s rest)
  show ?case
  proof (cases "s = CPSIG_STACK_unix")
    case False
    with Cons show ?thesis by simp
  next
    case True
    with Cons.prems show ?thesis
      by (auto simp: malloc_def sigaltstack_def sigaction_def split: if_splits)
  qed
qed

lemma sig_subscribe_unix_arms:
  assumes s: "sig_subscribe_unix k h sigs = (0, k1)" and m: "kind \<in> set sigs"
  shows "\<exists>f. disposition k1 (signal_of kind) = Handled f \<and> f AND SA_RESETHAND \<noteq> 0
    \<and> (CPSIG_STACK_unix \<in> set sigs \<and> signal_of kind = SIGSEGV \<longrightarrow>
         f AND SA_ONSTACK \<noteq> 0 \<and> altstack k1 \<noteq> None)"
    and "sig_userhandler k1 = h" and "calls k1 = calls k" and "killed k1 = killed k"
proof -
  obtain e hs k0 where a: "stack_loop (k\<lparr>sig_userhandler := h\<rparr>) sigs = (e, hs, k0)"
    by (cases "stack_loop (k\<lparr>sig_userhandler := h\<rparr>) sigs") auto
  have e: "e = None"
  proof (cases e)
    case None
    then show ?thesis .
  next
    case (Some r)
    with a s have "k1 = k0" and "r = 0" by (simp_all add: sig_subscribe_unix_def)
    with a Some have "stack_loop (k\<lparr>sig_userhandler := h\<rparr>) sigs = (Some 0, hs, k0)" by simp
    then have False
      by (induction sigs) (auto simp: split: if_splits prod.splits)
    then show ?thesis ..
  qed
  with a s have l: "signals_loop k0 hs sigs = (0, k1)" by (simp add: sig_subscribe_unix_def)
  from a e have "stack_loop (k\<lparr>sig_userhandler := h\<rparr>) sigs = (None, hs, k0)" by simp
  from stack_loop_ok [OF this]
  have hs: "hs = (CPSIG_STACK_unix \<in> set sigs)" and u0: "sig_userhandler k0 = h"
    and c0: "calls k0 = calls k" and e0: "killed k0 = killed k"
    and d0: "hs \<longrightarrow> disposition k0 SIGSEGV = Handled (SA_SIGINFO OR SA_RESETHAND OR SA_ONSTACK)
          \<and> altstack k0 \<noteq> None"
    by simp_all
  from signals_loop_frame [OF l] u0 c0 e0
  show "sig_userhandler k1 = h" and "calls k1 = calls k" and "killed k1 = killed k" by simp_all
  from signals_loop_frame [OF l] have al: "altstack k1 = altstack k0" by simp
  show "\<exists>f. disposition k1 (signal_of kind) = Handled f \<and> f AND SA_RESETHAND \<noteq> 0
    \<and> (CPSIG_STACK_unix \<in> set sigs \<and> signal_of kind = SIGSEGV \<longrightarrow>
         f AND SA_ONSTACK \<noteq> 0 \<and> altstack k1 \<noteq> None)"
  proof (cases "hs \<and> signal_of kind = SIGSEGV")
    case True
    with d0 have d: "disposition k0 SIGSEGV = Handled (SA_SIGINFO OR SA_RESETHAND OR SA_ONSTACK)"
      and a0: "altstack k0 \<noteq> None" by simp_all
    from signals_loop_keeps [OF l, of SIGSEGV] True
    have "disposition k1 SIGSEGV = disposition k0 SIGSEGV" by simp
    with d True al a0 show ?thesis by (simp add: sa_flags_bits)
  next
    case False
    have k: "kind \<noteq> CPSIG_STACK_unix"
    proof
      assume "kind = CPSIG_STACK_unix"
      with m hs False show False by (simp add: signal_of_def)
    qed
    then have so: "signal_of kind = sint kind" by (simp add: signal_of_def)
    from False so have "\<not> (sint kind = SIGSEGV \<and> hs)" by auto
    from signals_loop_arms [OF l m k this] so
    have "disposition k1 (signal_of kind) = Handled (SA_SIGINFO OR SA_RESETHAND)" by simp
    moreover from False hs have "\<not> (CPSIG_STACK_unix \<in> set sigs \<and> signal_of kind = SIGSEGV)"
      by simp
    ultimately show ?thesis by (auto simp: sa_flags_bits)
  qed
qed

lemma fault_unix_delivered:
  assumes d: "disposition k1 signo = Handled f" and r: "f AND SA_RESETHAND \<noteq> 0"
    and a: "killed k1 = None"
    and x: "ex \<longrightarrow> f AND SA_ONSTACK \<noteq> 0 \<and> altstack k1 \<noteq> None"
  shows "fault_unix prog k1 signo info ex =
    prog (sig_userhandler k1)
      \<lparr>sig = word_of_int signo, addr = si_addr info, flags = word_of_int (si_code info)\<rparr>
      (k1\<lparr>disposition := (disposition k1)(signo := SIG_DFL),
          calls := calls k1 @ [(sig_userhandler k1,
            \<lparr>sig = word_of_int signo, addr = si_addr info, flags = word_of_int (si_code info)\<rparr>)]\<rparr>)"
  using x by (cases ex) (auto simp add: fault_unix_def sig_exc_handler_unix_def Let_def d r a)

lemma fault_unix_default:
  assumes "disposition k2 signo = SIG_DFL" and "killed k2 = None"
  shows "fault_unix prog k2 signo info ex = k2\<lparr>killed := Some signo\<rparr>"
  using assms by (simp add: fault_unix_def)

lemma sig_subscribe_unix_one_delivery:
  assumes s: "sig_subscribe_unix k h sigs = (0, k1)" and m: "kind \<in> set sigs"
    and a: "killed k = None"
    and x: "ex1 \<longrightarrow> CPSIG_STACK_unix \<in> set sigs \<and> signal_of kind = SIGSEGV"
    and p: "\<forall>i s. disposition (prog h i s) = disposition s \<and> calls (prog h i s) = calls s
              \<and> killed (prog h i s) = killed s"
  shows "calls (fault_unix prog k1 (signal_of kind) info1 ex1) =
      calls k @ [(h, \<lparr>sig = word_of_int (signal_of kind), addr = si_addr info1,
                      flags = word_of_int (si_code info1)\<rparr>)]
    \<and> killed (fault_unix prog k1 (signal_of kind) info1 ex1) = None
    \<and> disposition (fault_unix prog k1 (signal_of kind) info1 ex1) (signal_of kind) = SIG_DFL
    \<and> calls (fault_unix prog (fault_unix prog k1 (signal_of kind) info1 ex1)
               (signal_of kind) info2 ex2) =
        calls (fault_unix prog k1 (signal_of kind) info1 ex1)
    \<and> killed (fault_unix prog (fault_unix prog k1 (signal_of kind) info1 ex1)
               (signal_of kind) info2 ex2) = Some (signal_of kind)"
proof -
  let ?n = "signal_of kind"
  let ?k2 = "fault_unix prog k1 ?n info1 ex1"
  from sig_subscribe_unix_arms [OF s m]
  obtain f where d: "disposition k1 ?n = Handled f" and r: "f AND SA_RESETHAND \<noteq> 0"
    and o: "CPSIG_STACK_unix \<in> set sigs \<and> ?n = SIGSEGV \<longrightarrow>
         f AND SA_ONSTACK \<noteq> 0 \<and> altstack k1 \<noteq> None"
    and u: "sig_userhandler k1 = h" and c: "calls k1 = calls k" and e: "killed k1 = killed k"
    by blast
  from e a have a1: "killed k1 = None" by simp
  from x o have x1: "ex1 \<longrightarrow> f AND SA_ONSTACK \<noteq> 0 \<and> altstack k1 \<noteq> None" by blast
  note k2 = fault_unix_delivered [OF d r a1 x1, of prog info1, unfolded u]
  from p have pc: "\<And>i s. calls (prog h i s) = calls s"
    and pd: "\<And>i s. disposition (prog h i s) = disposition s"
    and pk: "\<And>i s. killed (prog h i s) = killed s" by simp_all
  have c2: "calls ?k2 = calls k @ [(h, \<lparr>sig = word_of_int ?n, addr = si_addr info1,
                      flags = word_of_int (si_code info1)\<rparr>)]"
    unfolding k2 pc by (simp add: c)
  have e2: "killed ?k2 = None" unfolding k2 pk by (simp add: a1)
  have d2: "disposition ?k2 ?n = SIG_DFL" unfolding k2 pd by simp
  note k3 = fault_unix_default [OF d2 e2, of prog info2 ex2]
  have c3: "calls (fault_unix prog ?k2 ?n info2 ex2) = calls ?k2" unfolding k3 by simp
  have e3: "killed (fault_unix prog ?k2 ?n info2 ex2) = Some ?n" unfolding k3 by simp
  from c2 e2 d2 c3 e3 show ?thesis by (intro conjI)
qed

lemma sig_subscribe_win_one_delivery:
  assumes s: "sig_subscribe_win w h sigs = (r, w1)" and a: "ended w = None"
    and p: "\<forall>i s. top_filter (wprog h i s) = top_filter s \<and> wcalls (wprog h i s) = wcalls s"
  shows "r = 0
    \<and> wcalls (unhandled_exception wprog w1 er1) =
        wcalls w @ [(h, \<lparr>sig = ExceptionCode er1,
          addr = (if ExceptionCode er1 = EXCEPTION_ACCESS_VIOLATION
                  then ExceptionInformation er1 1 else 0),
          flags = (if ExceptionCode er1 = EXCEPTION_ACCESS_VIOLATION
                   then ucast (ExceptionInformation er1 0) else 0)\<rparr>)]
    \<and> top_filter (unhandled_exception wprog w1 er1) = None
    \<and> wcalls (unhandled_exception wprog (unhandled_exception wprog w1 er1) er2) =
        wcalls (unhandled_exception wprog w1 er1)"
proof -
  from p have pc: "\<And>i s. wcalls (wprog h i s) = wcalls s"
    and pf: "\<And>i s. top_filter (wprog h i s) = top_filter s" by simp_all
  from s have r: "r = 0"
    and w1: "w1 = SetUnhandledExceptionFilter (w\<lparr>wsig_userhandler := h\<rparr>) (Some Sig_exc_handler)"
    by (simp_all add: sig_subscribe_win_def)
  let ?k2 = "unhandled_exception wprog w1 er1"
  have c2: "wcalls ?k2 =
        wcalls w @ [(h, \<lparr>sig = ExceptionCode er1,
          addr = (if ExceptionCode er1 = EXCEPTION_ACCESS_VIOLATION
                  then ExceptionInformation er1 1 else 0),
          flags = (if ExceptionCode er1 = EXCEPTION_ACCESS_VIOLATION
                   then ucast (ExceptionInformation er1 0) else 0)\<rparr>)]"
    unfolding w1
    by (simp add: unhandled_exception_def sig_exc_handler_win_def SetUnhandledExceptionFilter_def
        Let_def a pc EXCEPTION_CONTINUE_SEARCH_def EXCEPTION_CONTINUE_EXECUTION_def)
  have f2: "top_filter ?k2 = None"
    unfolding w1
    by (simp add: unhandled_exception_def sig_exc_handler_win_def SetUnhandledExceptionFilter_def
        Let_def a pf EXCEPTION_CONTINUE_SEARCH_def EXCEPTION_CONTINUE_EXECUTION_def)
  have c3: "wcalls (unhandled_exception wprog ?k2 er2) = wcalls ?k2"
    by (simp add: unhandled_exception_def [of wprog ?k2 er2] f2)
  from r c2 f2 c3 show ?thesis by (intro conjI)
qed

lemma unhandled_exception_no_filter:
  "top_filter s = None \<Longrightarrow> wcalls (unhandled_exception wprog s er) = wcalls s"
  by (simp add: unhandled_exception_def)

text \<open>
  Claim C7. UNIX: when \<^verbatim>\<open>sig_subscribe\<close> has returned 0 for a list of kinds, and the user's
  handler returns without subscribing again (it leaves the actions of the signals as they
  are), then for every kind of the list the first fault of that kind runs the user's
  handler once, with the signal, the address and the code of the fault; the action of the
  signal is then the default one again, and a second fault of the same kind runs no handler:
  it ends the process. (A fault that is the stack running out is of the kind
  \<^verbatim>\<open>CPSIG_STACK\<close>, which has to be in the list.) Windows: when \<^verbatim>\<open>sig_subscribe\<close> has
  returned, which it does with 0, and the user's handler returns without subscribing again,
  the first unhandled exception runs the user's handler once; the top-level filter is then
  removed, and a second exception runs no handler; nor does any exception in a state that
  has no top-level filter.
\<close>

theorem sig_subscribe_one_shot:
  "(sig_subscribe_unix k h sigs = (0, k') \<and> kind \<in> set sigs \<and> killed k = None
      \<and> (ex \<longrightarrow> CPSIG_STACK_unix \<in> set sigs \<and> signal_of kind = SIGSEGV)
      \<and> (\<forall>i s. disposition (prog h i s) = disposition s \<and> calls (prog h i s) = calls s
            \<and> killed (prog h i s) = killed s) \<longrightarrow>
      calls (fault_unix prog k' (signal_of kind) info ex) =
        calls k @ [(h, \<lparr>sig = word_of_int (signal_of kind), addr = si_addr info,
                        flags = word_of_int (si_code info)\<rparr>)]
      \<and> killed (fault_unix prog k' (signal_of kind) info ex) = None
      \<and> disposition (fault_unix prog k' (signal_of kind) info ex) (signal_of kind) = SIG_DFL
      \<and> calls (fault_unix prog (fault_unix prog k' (signal_of kind) info ex)
                 (signal_of kind) info' ex') =
          calls (fault_unix prog k' (signal_of kind) info ex)
      \<and> killed (fault_unix prog (fault_unix prog k' (signal_of kind) info ex)
                 (signal_of kind) info' ex') = Some (signal_of kind))
   \<and> (sig_subscribe_win w h sigs = (r, w') \<and> ended w = None
      \<and> (\<forall>i s. top_filter (wprog h i s) = top_filter s \<and> wcalls (wprog h i s) = wcalls s) \<longrightarrow>
      r = 0
      \<and> wcalls (unhandled_exception wprog w' er) =
          wcalls w @ [(h, \<lparr>sig = ExceptionCode er,
            addr = (if ExceptionCode er = EXCEPTION_ACCESS_VIOLATION
                    then ExceptionInformation er 1 else 0),
            flags = (if ExceptionCode er = EXCEPTION_ACCESS_VIOLATION
                     then ucast (ExceptionInformation er 0) else 0)\<rparr>)]
      \<and> top_filter (unhandled_exception wprog w' er) = None
      \<and> wcalls (unhandled_exception wprog (unhandled_exception wprog w' er) er') =
          wcalls (unhandled_exception wprog w' er))
   \<and> (top_filter wn = None \<longrightarrow> wcalls (unhandled_exception wprog wn er') = wcalls wn)"
proof (intro conjI)
  show "sig_subscribe_unix k h sigs = (0, k') \<and> kind \<in> set sigs \<and> killed k = None
      \<and> (ex \<longrightarrow> CPSIG_STACK_unix \<in> set sigs \<and> signal_of kind = SIGSEGV)
      \<and> (\<forall>i s. disposition (prog h i s) = disposition s \<and> calls (prog h i s) = calls s
            \<and> killed (prog h i s) = killed s) \<longrightarrow>
      calls (fault_unix prog k' (signal_of kind) info ex) =
        calls k @ [(h, \<lparr>sig = word_of_int (signal_of kind), addr = si_addr info,
                        flags = word_of_int (si_code info)\<rparr>)]
      \<and> killed (fault_unix prog k' (signal_of kind) info ex) = None
      \<and> disposition (fault_unix prog k' (signal_of kind) info ex) (signal_of kind) = SIG_DFL
      \<and> calls (fault_unix prog (fault_unix prog k' (signal_of kind) info ex)
                 (signal_of kind) info' ex') =
          calls (fault_unix prog k' (signal_of kind) info ex)
      \<and> killed (fault_unix prog (fault_unix prog k' (signal_of kind) info ex)
                 (signal_of kind) info' ex') = Some (signal_of kind)"
    by (intro impI, elim conjE, rule sig_subscribe_unix_one_delivery; assumption)
  show "sig_subscribe_win w h sigs = (r, w') \<and> ended w = None
      \<and> (\<forall>i s. top_filter (wprog h i s) = top_filter s \<and> wcalls (wprog h i s) = wcalls s) \<longrightarrow>
      r = 0
      \<and> wcalls (unhandled_exception wprog w' er) =
          wcalls w @ [(h, \<lparr>sig = ExceptionCode er,
            addr = (if ExceptionCode er = EXCEPTION_ACCESS_VIOLATION
                    then ExceptionInformation er 1 else 0),
            flags = (if ExceptionCode er = EXCEPTION_ACCESS_VIOLATION
                     then ucast (ExceptionInformation er 0) else 0)\<rparr>)]
      \<and> top_filter (unhandled_exception wprog w' er) = None
      \<and> wcalls (unhandled_exception wprog (unhandled_exception wprog w' er) er') =
          wcalls (unhandled_exception wprog w' er)"
    by (intro impI, elim conjE, rule sig_subscribe_win_one_delivery; assumption)
  show "top_filter wn = None \<longrightarrow> wcalls (unhandled_exception wprog wn er') = wcalls wn"
    by (simp add: unhandled_exception_no_filter)
qed

lemma sample_subscribes_unix:
  "sig_subscribe_unix unix_sig0 sig_handler_addr sigs_unix =
     (0, snd (sig_subscribe_unix unix_sig0 sig_handler_addr sigs_unix))"
  by (simp add: sig_subscribe_unix_def sigs_unix_def unix_sig0_def malloc_def sigaltstack_def
      sigaction_def CPSIG_SEGV_unix_def CPSIG_STACK_unix_def CPSIG_ILL_unix_def
      CPSIG_FPE_unix_def SIGSTKSZ_def MINSIGSTKSZ_def SIGSEGV_def SIGKILL_def SIGSTOP_def
      NULL_def)

theorem sig_subscribe_one_shot_witness:
  "(calls (fault_unix sample_unix (snd (sig_subscribe_unix unix_sig0 sig_handler_addr sigs_unix))
       (signal_of CPSIG_SEGV_unix) segv_unix False) =
      calls unix_sig0 @ [(sig_handler_addr,
        \<lparr>sig = word_of_int (signal_of CPSIG_SEGV_unix), addr = si_addr segv_unix,
          flags = word_of_int (si_code segv_unix)\<rparr>)]
    \<and> killed (fault_unix sample_unix
         (snd (sig_subscribe_unix unix_sig0 sig_handler_addr sigs_unix))
         (signal_of CPSIG_SEGV_unix) segv_unix False) = None
    \<and> disposition (fault_unix sample_unix
         (snd (sig_subscribe_unix unix_sig0 sig_handler_addr sigs_unix))
         (signal_of CPSIG_SEGV_unix) segv_unix False) (signal_of CPSIG_SEGV_unix) = SIG_DFL
    \<and> calls (fault_unix sample_unix (fault_unix sample_unix
         (snd (sig_subscribe_unix unix_sig0 sig_handler_addr sigs_unix))
         (signal_of CPSIG_SEGV_unix) segv_unix False) (signal_of CPSIG_SEGV_unix) segv_unix False) =
       calls (fault_unix sample_unix
         (snd (sig_subscribe_unix unix_sig0 sig_handler_addr sigs_unix))
         (signal_of CPSIG_SEGV_unix) segv_unix False)
    \<and> killed (fault_unix sample_unix (fault_unix sample_unix
         (snd (sig_subscribe_unix unix_sig0 sig_handler_addr sigs_unix))
         (signal_of CPSIG_SEGV_unix) segv_unix False) (signal_of CPSIG_SEGV_unix) segv_unix False) =
       Some (signal_of CPSIG_SEGV_unix))
   \<and> ((0 :: int) = 0
    \<and> wcalls (unhandled_exception sample_win
         (snd (sig_subscribe_win win_sig0 sig_handler_addr sigs_win)) segv_win) =
       wcalls win_sig0 @ [(sig_handler_addr, \<lparr>sig = ExceptionCode segv_win,
         addr = (if ExceptionCode segv_win = EXCEPTION_ACCESS_VIOLATION
                 then ExceptionInformation segv_win 1 else 0),
         flags = (if ExceptionCode segv_win = EXCEPTION_ACCESS_VIOLATION
                  then ucast (ExceptionInformation segv_win 0) else 0)\<rparr>)]
    \<and> top_filter (unhandled_exception sample_win
         (snd (sig_subscribe_win win_sig0 sig_handler_addr sigs_win)) segv_win) = None
    \<and> wcalls (unhandled_exception sample_win (unhandled_exception sample_win
         (snd (sig_subscribe_win win_sig0 sig_handler_addr sigs_win)) segv_win) segv_win) =
       wcalls (unhandled_exception sample_win
         (snd (sig_subscribe_win win_sig0 sig_handler_addr sigs_win)) segv_win))
   \<and> wcalls (unhandled_exception sample_win win_sig0 segv_win) = wcalls win_sig0"
proof (intro conjI)
  have u: "sig_subscribe_unix unix_sig0 sig_handler_addr sigs_unix =
       (0, snd (sig_subscribe_unix unix_sig0 sig_handler_addr sigs_unix))
     \<and> CPSIG_SEGV_unix \<in> set sigs_unix \<and> killed unix_sig0 = None
     \<and> (False \<longrightarrow> CPSIG_STACK_unix \<in> set sigs_unix \<and> signal_of CPSIG_SEGV_unix = SIGSEGV)
     \<and> (\<forall>i s. disposition (sample_unix sig_handler_addr i s) = disposition s
           \<and> calls (sample_unix sig_handler_addr i s) = calls s
           \<and> killed (sample_unix sig_handler_addr i s) = killed s)"
    by (intro conjI, rule sample_subscribes_unix)
       (simp_all add: sigs_unix_def unix_sig0_def sample_unix_def sig_handler_unix_def)
  note a = sig_subscribe_one_shot [where k = unix_sig0 and h = sig_handler_addr
      and sigs = sigs_unix and k' = "snd (sig_subscribe_unix unix_sig0 sig_handler_addr sigs_unix)"
      and kind = CPSIG_SEGV_unix and ex = False and prog = sample_unix and info = segv_unix
      and info' = segv_unix and ex' = False, THEN conjunct1, THEN mp, OF u]
  from a show "calls (fault_unix sample_unix
       (snd (sig_subscribe_unix unix_sig0 sig_handler_addr sigs_unix))
       (signal_of CPSIG_SEGV_unix) segv_unix False) =
      calls unix_sig0 @ [(sig_handler_addr,
        \<lparr>sig = word_of_int (signal_of CPSIG_SEGV_unix), addr = si_addr segv_unix,
          flags = word_of_int (si_code segv_unix)\<rparr>)]"
    by (rule conjunct1)
  from a show "killed (fault_unix sample_unix
         (snd (sig_subscribe_unix unix_sig0 sig_handler_addr sigs_unix))
         (signal_of CPSIG_SEGV_unix) segv_unix False) = None"
    by (rule conjunct2 [THEN conjunct1])
  from a show "disposition (fault_unix sample_unix
         (snd (sig_subscribe_unix unix_sig0 sig_handler_addr sigs_unix))
         (signal_of CPSIG_SEGV_unix) segv_unix False) (signal_of CPSIG_SEGV_unix) = SIG_DFL"
    by (rule conjunct2 [THEN conjunct2, THEN conjunct1])
  from a show "calls (fault_unix sample_unix (fault_unix sample_unix
         (snd (sig_subscribe_unix unix_sig0 sig_handler_addr sigs_unix))
         (signal_of CPSIG_SEGV_unix) segv_unix False) (signal_of CPSIG_SEGV_unix) segv_unix False) =
       calls (fault_unix sample_unix
         (snd (sig_subscribe_unix unix_sig0 sig_handler_addr sigs_unix))
         (signal_of CPSIG_SEGV_unix) segv_unix False)"
    by (rule conjunct2 [THEN conjunct2, THEN conjunct2, THEN conjunct1])
  from a show "killed (fault_unix sample_unix (fault_unix sample_unix
         (snd (sig_subscribe_unix unix_sig0 sig_handler_addr sigs_unix))
         (signal_of CPSIG_SEGV_unix) segv_unix False) (signal_of CPSIG_SEGV_unix) segv_unix False) =
       Some (signal_of CPSIG_SEGV_unix)"
    by (rule conjunct2 [THEN conjunct2, THEN conjunct2, THEN conjunct2])
  have w: "sig_subscribe_win win_sig0 sig_handler_addr sigs_win =
       (0, snd (sig_subscribe_win win_sig0 sig_handler_addr sigs_win))
     \<and> ended win_sig0 = None
     \<and> (\<forall>i s. top_filter (sample_win sig_handler_addr i s) = top_filter s
           \<and> wcalls (sample_win sig_handler_addr i s) = wcalls s)"
    by (intro conjI)
       (simp_all add: sig_subscribe_win_def win_sig0_def sample_win_def sig_handler_win_def)
  note b = sig_subscribe_one_shot [where w = win_sig0 and h = sig_handler_addr
      and sigs = sigs_win and r = 0
      and w' = "snd (sig_subscribe_win win_sig0 sig_handler_addr sigs_win)"
      and wprog = sample_win and er = segv_win and er' = segv_win,
      THEN conjunct2, THEN conjunct1, THEN mp, OF w]
  from b show "(0 :: int) = 0" by (rule conjunct1)
  from b show "wcalls (unhandled_exception sample_win
         (snd (sig_subscribe_win win_sig0 sig_handler_addr sigs_win)) segv_win) =
       wcalls win_sig0 @ [(sig_handler_addr, \<lparr>sig = ExceptionCode segv_win,
         addr = (if ExceptionCode segv_win = EXCEPTION_ACCESS_VIOLATION
                 then ExceptionInformation segv_win 1 else 0),
         flags = (if ExceptionCode segv_win = EXCEPTION_ACCESS_VIOLATION
                  then ucast (ExceptionInformation segv_win 0) else 0)\<rparr>)]"
    by (rule conjunct2 [THEN conjunct1])
  from b show "top_filter (unhandled_exception sample_win
         (snd (sig_subscribe_win win_sig0 sig_handler_addr sigs_win)) segv_win) = None"
    by (rule conjunct2 [THEN conjunct2, THEN conjunct1])
  from b show "wcalls (unhandled_exception sample_win (unhandled_exception sample_win
         (snd (sig_subscribe_win win_sig0 sig_handler_addr sigs_win)) segv_win) segv_win) =
       wcalls (unhandled_exception sample_win
         (snd (sig_subscribe_win win_sig0 sig_handler_addr sigs_win)) segv_win)"
    by (rule conjunct2 [THEN conjunct2, THEN conjunct2])
  have n: "top_filter win_sig0 = None" by (simp add: win_sig0_def)
  from sig_subscribe_one_shot [where wn = win_sig0 and wprog = sample_win and er' = segv_win,
      THEN conjunct2, THEN conjunct2, THEN mp, OF n]
  show "wcalls (unhandled_exception sample_win win_sig0 segv_win) = wcalls win_sig0" .
qed

end
